theory Spec2Isabelle
  imports Complex_Main
begin

section \<open>Numbers\<close>

text \<open>
  The calculator works on JavaScript numbers. They are modelled as exact reals: rounding
  error and the infinities are not represented. The one special value the source produces
  on purpose is not-a-number (the temperature and wind corrections \<^verbatim>\<open>return NaN\<close>
  for a probe temperature above Tflexmax), so every quantity that can inherit it is a
  \<open>jsnum\<close>: arithmetic propagates \<open>NaN\<close>, every comparison with \<open>NaN\<close> is false.
  Inputs are finite numbers.
\<close>

datatype jsnum = NaN | Num real

fun jmap :: "(real \<Rightarrow> real) \<Rightarrow> jsnum \<Rightarrow> jsnum" where
  "jmap f NaN = NaN"
| "jmap f (Num a) = Num (f a)"

fun jmap2 :: "(real \<Rightarrow> real \<Rightarrow> real) \<Rightarrow> jsnum \<Rightarrow> jsnum \<Rightarrow> jsnum" where
  "jmap2 f (Num a) (Num b) = Num (f a b)"
| "jmap2 f _ _ = NaN"

definition jsub :: "jsnum \<Rightarrow> jsnum \<Rightarrow> jsnum" where
  "jsub = jmap2 (\<lambda>a b. a - b)"

definition jadd :: "jsnum \<Rightarrow> jsnum \<Rightarrow> jsnum" where
  "jadd = jmap2 (\<lambda>a b. a + b)"

definition jmin :: "jsnum \<Rightarrow> jsnum \<Rightarrow> jsnum" where
  "jmin = jmap2 min"

fun jlt :: "jsnum \<Rightarrow> jsnum \<Rightarrow> bool" where
  "jlt (Num a) (Num b) = (a < b)"
| "jlt _ _ = False"

fun jle :: "jsnum \<Rightarrow> jsnum \<Rightarrow> bool" where
  "jle (Num a) (Num b) = (a \<le> b)"
| "jle _ _ = False"

definition jgt :: "jsnum \<Rightarrow> jsnum \<Rightarrow> bool" where
  "jgt a b = jlt b a"

definition jge :: "jsnum \<Rightarrow> jsnum \<Rightarrow> bool" where
  "jge a b = jle b a"

text \<open>\<^verbatim>\<open>Math.round\<close> rounds halves towards plus infinity; \<^verbatim>\<open>Math.trunc\<close> drops the
  fraction; \<^verbatim>\<open>Math.sign\<close> is \<open>sgn\<close>.\<close>

definition Math_round :: "real \<Rightarrow> real" where
  "Math_round x = of_int \<lfloor>x + 1 / 2\<rfloor>"

definition Math_ceil :: "real \<Rightarrow> real" where
  "Math_ceil x = of_int \<lceil>x\<rceil>"

definition Math_trunc :: "real \<Rightarrow> real" where
  "Math_trunc x = (if 0 \<le> x then of_int \<lfloor>x\<rfloor> else of_int \<lceil>x\<rceil>)"

section \<open>Interpolating lookup tables\<close>

text \<open>
  \<^verbatim>\<open>LerpLookupTable\<close>, \<^verbatim>\<open>LerpVectorLookupTable\<close>, \<^verbatim>\<open>VecNMath\<close> and \<^verbatim>\<open>MathUtils\<close>
  come from the simulator SDK, outside this repository. They are modelled by their contract:
  a table is built from breakpoints written value first, then the key (or keys); a lookup
  interpolates linearly between the two breakpoints whose keys bracket the lookup key, and
  answers the first or last breakpoint's value outside the keys' range. No table of the
  calculator is empty (the SDK throws on a lookup in an empty table; \<open>lookup1\<close> answers 0
  there).
\<close>

definition lerp :: "real \<Rightarrow> real \<Rightarrow> real \<Rightarrow> real \<Rightarrow> real \<Rightarrow> real" where
  "lerp x x0 x1 y0 y1 =
     (if x0 \<noteq> x1 \<and> y0 \<noteq> y1 then ((x - x0) / (x1 - x0)) * (y1 - y0) + y0 else y0)"

definition lerpClamped :: "real \<Rightarrow> real \<Rightarrow> real \<Rightarrow> real \<Rightarrow> real \<Rightarrow> real" where
  "lerpClamped x x0 x1 y0 y1 =
     (if x0 \<noteq> x1 \<and> y0 \<noteq> y1 then max 0 (min 1 ((x - x0) / (x1 - x0))) * (y1 - y0) + y0 else y0)"

text \<open>The breakpoint with the greatest key not above \<open>x\<close>, and the one with the least key
  not below it.\<close>

fun floorEntry :: "real \<Rightarrow> (real \<times> 'a) list \<Rightarrow> (real \<times> 'a) option" where
  "floorEntry x [] = None"
| "floorEntry x (b # bs) =
     (case floorEntry x bs of
        None \<Rightarrow> (if fst b \<le> x then Some b else None)
      | Some c \<Rightarrow> (if fst b \<le> x \<and> fst c < fst b then Some b else Some c))"

fun ceilEntry :: "real \<Rightarrow> (real \<times> 'a) list \<Rightarrow> (real \<times> 'a) option" where
  "ceilEntry x [] = None"
| "ceilEntry x (b # bs) =
     (case ceilEntry x bs of
        None \<Rightarrow> (if x \<le> fst b then Some b else None)
      | Some c \<Rightarrow> (if x \<le> fst b \<and> fst b < fst c then Some b else Some c))"

definition lookup1 :: "(real \<times> real) list \<Rightarrow> real \<Rightarrow> real" where
  "lookup1 bps x =
     (case (floorEntry x bps, ceilEntry x bps) of
        (Some (k0, y0), Some (k1, y1)) \<Rightarrow> lerp x k0 k1 y0 y1
      | (Some (k0, y0), None) \<Rightarrow> y0
      | (None, Some (k1, y1)) \<Rightarrow> y1
      | (None, None) \<Rightarrow> 0)"

definition LerpLookupTable_get :: "(real \<times> real) list \<Rightarrow> real \<Rightarrow> real" where
  "LerpLookupTable_get t x = lookup1 (map (\<lambda>(y, k). (k, y)) t) x"

text \<open>Two keys: the first key selects the two bracketing groups of breakpoints, each group
  is looked up with the second key, and the two answers are interpolated.\<close>

definition LerpLookupTable_get2 :: "(real \<times> (real \<times> real) list) list \<Rightarrow> real \<Rightarrow> real \<Rightarrow> real" where
  "LerpLookupTable_get2 t x z =
     (case (floorEntry x t, ceilEntry x t) of
        (Some (k0, g0), Some (k1, g1)) \<Rightarrow> lerp x k0 k1 (LerpLookupTable_get g0 z) (LerpLookupTable_get g1 z)
      | (Some (k0, g0), None) \<Rightarrow> LerpLookupTable_get g0 z
      | (None, Some (k1, g1)) \<Rightarrow> LerpLookupTable_get g1 z
      | (None, None) \<Rightarrow> 0)"

definition LerpVectorLookupTable_get :: "(real list \<times> real) list \<Rightarrow> real \<Rightarrow> real list" where
  "LerpVectorLookupTable_get t x =
     (let bps = map (\<lambda>(ys, k). (k, ys)) t
      in case (floorEntry x bps, ceilEntry x bps) of
        (Some (k0, ys0), Some (k1, ys1)) \<Rightarrow> map2 (lerp x k0 k1) ys0 ys1
      | (Some (k0, ys0), None) \<Rightarrow> ys0
      | (None, Some (k1, ys1)) \<Rightarrow> ys1
      | (None, None) \<Rightarrow> [])"

text \<open>
  \<^verbatim>\<open>VecNMath.create(length, ...components)\<close> answers a vector of \<^verbatim>\<open>length\<close> slots: the
  first argument is the number of slots (\<^verbatim>\<open>new Float64Array(length)\<close> drops its fraction),
  the other arguments fill the slots from the first on, and a slot without a component
  holds 0. \<open>VecNMath_create\<close> takes the list of the arguments of the call. (A length of -1
  or less is a \<^verbatim>\<open>RangeError\<close>; no call of the calculator has one.)

  A vector lookup \<^verbatim>\<open>table.get(out, key)\<close> writes the looked-up vector over the first
  slots of \<^verbatim>\<open>out\<close> and answers \<^verbatim>\<open>out\<close>: \<open>LerpVectorLookupTable_getInto\<close>. Where the
  table's vectors have the length of \<^verbatim>\<open>out\<close> (the tables read into \<^verbatim>\<open>vec2Cache\<close> and
  \<^verbatim>\<open>vec3Cache\<close>) the answer is the looked-up vector, \<open>LerpVectorLookupTable_get\<close>.
\<close>

definition VecNMath_create :: "real list \<Rightarrow> real list" where
  "VecNMath_create args =
     (case args of
        [] \<Rightarrow> []
      | len # components \<Rightarrow>
          (let n = nat (if 0 \<le> len then \<lfloor>len\<rfloor> else \<lceil>len\<rceil>)
           in take n components @ replicate (n - length components) 0))"

definition LerpVectorLookupTable_getInto :: "real list \<Rightarrow> (real list \<times> real) list \<Rightarrow> real \<Rightarrow> real list" where
  "LerpVectorLookupTable_getInto out t x =
     (let v = LerpVectorLookupTable_get t x in v @ drop (length v) out)"

text \<open>
  \<^verbatim>\<open>private static readonly vec4Cache = VecNMath.create(4)\<close>: four zeros. The cache is
  shared by every lookup in a wet-runway table. Each vector of those tables is built by
  \<^verbatim>\<open>VecNMath.create(a, b, c, d)\<close> with a first argument between -1 and 1, so it has no
  slot: a lookup writes nothing into the cache, and every lookup finds the cache as it was
  created. The lookups of the model therefore start from \<open>vec4Cache\<close>.
\<close>

definition vec4Cache :: "real list" where
  "vec4Cache = VecNMath_create [4]"

section \<open>Coefficient tables\<close>

text \<open>
  The static tables of \<^verbatim>\<open>A380482xTakeoffPerformanceCalculator\<close>, in the order and with
  the names of the source. A table keyed by the configuration number 1, 2 or 3 is a function
  of the configuration \<open>c\<close>; the calculator reads it only after \<open>checkInputs\<close> has accepted
  the configuration. A breakpoint of a lookup table with one key is written as in the
  source, value first. The breakpoints \<^verbatim>\<open>[value, key1, key2]\<close> of a table with two keys
  are grouped by their first key, each group listing its \<open>(value, key2)\<close> pairs in the order
  of the source.
\<close>

subsection \<open>Reference temperatures and weight limits\<close>

definition tRefTable :: "(real \<times> real) list" where
  "tRefTable =
    [(48, -2000), (44, 0), (43, 500), (42, 1000), (40, 2000), (36.4, 3000), (35, 3479),
     (16.4, 8348), (13.5, 9200)]"

definition tMaxTable :: "(real \<times> real) list" where
  "tMaxTable =
    [(55, -2000), (55, 0), (38, 9200)]"

definition runwayPerfLimitConf1 :: "(real \<times> real) list" where
  "runwayPerfLimitConf1 =
    [(349975, 1000), (384324, 1219), (445246, 1604), (490613, 1959), (512000, 2134),
     (522370, 2239), (542461, 2459), (550886, 2559), (558663, 2709), (562876, 2918),
     (576810, 3000), (587828, 3180), (659119, 3800), (699949, 5000)]"

definition runwayPerfLimitConf2 :: "(real \<times> real) list" where
  "runwayPerfLimitConf2 =
    [(353215, 1000), (392101, 1219), (460152, 1604), (508111, 1959), (526906, 2134),
     (537276, 2239), (554127, 2459), (565792, 2709), (570329, 2879), (571107, 2987),
     (619585, 3600), (629954, 3800), (634491, 3900), (686987, 5000)]"

definition runwayPerfLimitConf3 :: "(real \<times> real) list" where
  "runwayPerfLimitConf3 =
    [(344142, 1000), (390157, 1219), (470522, 1604), (517833, 1959), (539220, 2134),
     (541165, 2239), (551534, 2459), (569033, 2709), (575514, 2839), (594309, 3180),
     (632547, 3800), (680506, 5000)]"

definition runwaySlopeFactor :: "int \<Rightarrow> real" where
  "runwaySlopeFactor c = (if c = 1 then 0.00084 else if c = 2 then 0.00096 else 0.0011)"

definition runwayPressureAltFactor :: "int \<Rightarrow> real list" where
  "runwayPressureAltFactor c =
    (if c = 1 then [0.0000000343, 0.001192]
     else if c = 2 then [0.0000000115, 0.001216]
     else [-0.0000000046, 0.001245])"

definition runwayTemperatureFactor :: "int \<Rightarrow> real list" where
  "runwayTemperatureFactor c =
    (if c = 1 then [0.00001, 0.095175, 0.000207, 0.040242, 0.00024, 0.066189]
     else if c = 2 then [-0.00001, 0.131948, 0.000155, 0.162938, 0.000225, 0.150363]
     else [-0.0000438, 0.198845, 0.000188, 0.14547, 0.0002, 0.232529])"

definition runwayHeadWindFactor :: "int \<Rightarrow> real list" where
  "runwayHeadWindFactor c =
    (if c = 1 then [0.000029, -0.233075, 0.00242, 0.003772]
     else if c = 2 then [0.000051, -0.277863, 0.0018, 0.003366]
     else [0.000115, -0.3951, 0.002357, 0.002125])"

definition runwayTailWindFactor :: "int \<Rightarrow> real list" where
  "runwayTailWindFactor c =
    (if c = 1 then [0.000065, -0.684701, 0.00498, 0.0808]
     else if c = 2 then [0.000198, -1.017, 0.00711, 0.009]
     else [0.000271, -1.11506, 0.0078, 0.00875])"

definition secondSegmentBaseFactor :: "int \<Rightarrow> real list" where
  "secondSegmentBaseFactor c =
    (if c = 1 then [0.00391, 75.366]
     else if c = 2 then [0.005465, 72.227]
     else [0.00495, 72.256])"

definition secondSegmentSlopeFactor :: "int \<Rightarrow> real" where
  "secondSegmentSlopeFactor c = (if c = 1 then 0.000419 else if c = 2 then 0.000641 else 0.000459)"

definition secondSegmentPressureAltFactor :: "int \<Rightarrow> real list" where
  "secondSegmentPressureAltFactor c =
    (if c = 1 then [-0.000000065, 0.001769]
     else if c = 2 then [0.000000105, 0.00055]
     else [0.0000000748, 0.000506])"

definition secondSegmentTemperatureFactor :: "int \<Rightarrow> real list" where
  "secondSegmentTemperatureFactor c =
    (if c = 1 then [0.000025, 0.001, 0.000155, 0.211445, 0.000071, 0.556741]
     else if c = 2 then [0.0000121, 0.042153, 0.0001256, 0.325925, 0.000082, 0.546259]
     else [-0.0000294, 0.13903, 0.0000693, 0.480536, 0.000133, 0.480536])"

definition secondSegmentHeadWindFactor :: "int \<Rightarrow> real list" where
  "secondSegmentHeadWindFactor c =
    (if c = 1 then [0.000019, -0.13052, 0.000813636, 0.000145238]
     else if c = 2 then [0.0000454, -0.20585, 0.000416667, 0.001778293]
     else [0.000085, -0.30209, 0.001189394, 0.0038996])"

definition secondSegmentTailWindFactor :: "int \<Rightarrow> real list" where
  "secondSegmentTailWindFactor c =
    (if c = 1 then [0.000104, -0.705693, 0.009, 0.00648]
     else if c = 2 then [0.000154, -0.8052, 0.009, 0.002444]
     else [0.000054, -0.462, 0.00875, 0.006606505])"

definition brakeEnergyBaseFactor :: "int \<Rightarrow> real list" where
  "brakeEnergyBaseFactor c =
    (if c = 1 then [0.00503, 72.524]
     else if c = 2 then [0.00672, 68.28]
     else [0.00128, 83.951])"

definition brakeEnergySlopeFactor :: "int \<Rightarrow> real" where
  "brakeEnergySlopeFactor c = (if c = 1 then 0.000045 else if c = 2 then 0.000068 else 0.000045)"

definition brakeEnergyPressureAltFactor :: "int \<Rightarrow> real list" where
  "brakeEnergyPressureAltFactor c =
    (if c = 1 then [0.000000055, 0.000968]
     else if c = 2 then [0.000000117, 0.000595]
     else [0.0000000465, 0.000658])"

definition brakeEnergyTemperatureFactor :: "int \<Rightarrow> real list" where
  "brakeEnergyTemperatureFactor c =
    (if c = 1 then [0.06, 0.54]
     else if c = 2 then [0.058, 0.545]
     else [0.04642, 0.6])"

definition brakeEnergyHeadWindFactor :: "int \<Rightarrow> real list" where
  "brakeEnergyHeadWindFactor c =
    (if c = 1 then [0.0000311, -0.1769, 0.001125, 0]
     else if c = 2 then [0.0000316, -0.1799, 0.001182, 0]
     else [0.0000147, -0.0928, 0.001111, 0])"

definition brakeEnergyTailWindFactor :: "int \<Rightarrow> real list" where
  "brakeEnergyTailWindFactor c =
    (if c = 1 then [0.000117, -0.8024, 0.0117879, 0.006667]
     else if c = 2 then [0.000157, -0.849, 0.0066818, 0.006667]
     else [0.00013, -0.6946, 0.0068333, 0.006667])"

definition vmcgBaseFactor :: "int \<Rightarrow> real list" where
  "vmcgBaseFactor c =
    (if c = 1 then [0.0644, -19.526]
     else if c = 2 then [0.082005, -39.27]
     else [0.0704, -25.6868])"

definition vmcgSlopeFactor :: "int \<Rightarrow> real" where
  "vmcgSlopeFactor c = (if c = 1 then 0.00084 else if c = 2 then 0.001054 else 0.001068)"

definition vmcgPressureAltFactor :: "int \<Rightarrow> real list" where
  "vmcgPressureAltFactor c =
    (if c = 1 then [-0.000000835, 0.00589]
     else if c = 2 then [-0.000000758, 0.00703]
     else [0.000000195, 0.00266])"

definition vmcgTemperatureFactor :: "int \<Rightarrow> real list" where
  "vmcgTemperatureFactor c =
    (if c = 1 then [-0.00133, 2.104, 0.000699, -0.128144, -0.000718, 1.8103]
     else if c = 2 then [-0.00097, 1.613, 0.000242, 0.462005, -0.000547, 1.603]
     else [-0.000923, 1.6087, 0.00061, 0.002239, -0.000335, 1.2716])"

definition vmcgHeadWindFactor :: "int \<Rightarrow> real list" where
  "vmcgHeadWindFactor c =
    (if c = 1 then [0.001198, -1.80539, 0.000097, -0.15121, -0.000255, 0.337391, 0.000066, -0.079718]
     else if c = 2 then [0.000697, -1.17473, 0.000031, -0.057504, -0.000184, 0.246185, 0.000012, 0.0216]
     else [0.0023, -3.468, -0.000037, 0.033946, -0.000156, 0.213953, -0.000757, 1.094])"

definition vmcgTailWindFactor :: "int \<Rightarrow> real list" where
  "vmcgTailWindFactor c =
    (if c = 1 then [0.00218, -5.489, -0.000106, 0.145473, 0.031431, -0.0356]
     else if c = 2 then [0.001892, -5.646, -0.000059, 0.079539, 0.009948, -0.010763]
     else [0.000613, -3.165, -0.000022, 0.020622, 0.049286, -0.0396])"

subsection \<open>Centre of gravity and minimum speeds\<close>

definition takeoffCgLimits :: "(real list \<times> real) list" where
  "takeoffCgLimits =
    [([15, 32.5], 262481), ([15, 37], 324051),
     ([15, (lerp 343494 324051 435524 37 40)], 343494),
     ([17, (lerp 408304 324051 435524 37 40)], 408304), ([17, 40], 435524),
     ([17, 40], 466633), ([(lerp 474410 466633 499038 17 24), 40], 474410),
     ([24, 37.2], 499038)]"

definition cgFactors :: "int \<Rightarrow> real list" where
  "cgFactors c =
    (if c = 1 then [-0.041448, 3.357]
     else if c = 2 then [-0.03277, 2.686]
     else [-0.0249, 2.086])"

definition minimumV1Vmc :: "(real \<times> real) list" where
  "minimumV1Vmc =
    [(122, -2000), (121, 0), (121, 2000), (120, 3000), (120, 4000), (118, 6000),
     (116, 8000), (115, 9200), (107, 14000), (106, 15000)]"

definition minimumVrVmc :: "(real \<times> real) list" where
  "minimumVrVmc =
    [(123, -2000), (122, 0), (122, 3000), (121, 4000), (120, 6000), (117, 8000),
     (116, 9200), (107, 14000), (106, 15000)]"

definition minimumV2Vmc :: "int \<Rightarrow> (real \<times> real) list" where
  "minimumV2Vmc c =
    (if c = 1 then
     [(127, -2000), (126, 0), (126, 1000), (125, 2000), (125, 3000), (124, 4000),
      (123, 6000), (120, 8000), (118, 9200), (109, 14000), (107, 15000)]
     else if c = 2 then
     [(127, -2000), (126, 0), (126, 1000), (125, 2000), (125, 3000), (124, 4000),
      (123, 6000), (120, 8000), (118, 9200), (109, 14000), (107, 15000)]
     else
     [(126, -2000), (125, 0), (125, 1000), (124, 2000), (124, 3000), (123, 4000),
      (122, 6000), (119, 8000), (117, 9200), (108, 14000), (106, 15000)])"

definition minimumV2Vmu :: "int \<Rightarrow> (real \<times> (real \<times> real) list) list" where
  "minimumV2Vmu c =
    (if c = 1 then
     [(-2000,
        [(127, 291646), (127, 324051), (127, 356456), (132, 388861), (137, 421266), (142, 453671), (146, 486076), (151, 518481)]),
      (-1000,
        [(126, 291646), (126, 324051), (127, 356456), (132, 388861), (137, 421266), (142, 453671), (147, 486076), (151, 518481)]),
      (0,
        [(126, 291646), (126, 324051), (127, 356456), (132, 388861), (137, 421266), (142, 453671), (147, 486076), (151, 518481)]),
      (1000,
        [(126, 291646), (126, 324051), (127, 356456), (132, 388861), (137, 421266), (142, 453671), (147, 486076), (151, 518481)]),
      (2000,
        [(125, 291646), (125, 324051), (127, 356456), (132, 388861), (137, 421266), (142, 453671), (147, 486076), (151, 518481)]),
      (3000,
        [(125, 291646), (125, 324051), (127, 356456), (132, 388861), (137, 421266), (142, 453671), (147, 486076), (151, 518481)]),
      (4000,
        [(124, 291646), (124, 324051), (127, 356456), (132, 388861), (137, 421266), (142, 453671), (147, 486076), (152, 518481)]),
      (5000,
        [(124, 291646), (124, 324051), (127, 356456), (132, 388861), (137, 421266), (142, 453671), (147, 486076), (152, 518481)]),
      (6000,
        [(123, 291646), (123, 324051), (127, 356456), (132, 388861), (137, 421266), (142, 453671), (147, 486076), (152, 518481)]),
      (7000,
        [(122, 291646), (122, 324051), (127, 356456), (132, 388861), (137, 421266), (142, 453671), (147, 486076), (152, 518481)]),
      (8000,
        [(120, 291646), (121, 324051), (127, 356456), (132, 388861), (137, 421266), (143, 453671), (148, 486076), (152, 518481)]),
      (9000,
        [(119, 291646), (121, 324051), (127, 356456), (132, 388861), (137, 421266), (143, 453671), (148, 486076), (153, 518481)]),
      (10000,
        [(117, 291646), (121, 324051), (127, 356456), (132, 388861), (137, 421266), (143, 453671), (148, 486076), (153, 518481)]),
      (11000,
        [(115, 291646), (121, 324051), (127, 356456), (132, 388861), (138, 421266), (143, 453671), (149, 486076), (154, 518481)]),
      (12000,
        [(115, 291646), (121, 324051), (127, 356456), (132, 388861), (138, 421266), (143, 453671), (149, 486076), (154, 518481)]),
      (13000,
        [(115, 291646), (121, 324051), (127, 356456), (132, 388861), (138, 421266), (144, 453671), (149, 486076), (154, 518481)]),
      (14100,
        [(115, 291646), (121, 324051), (127, 356456), (132, 388861), (138, 421266), (144, 453671), (150, 486076), (155, 518481)]),
      (15100,
        [(115, 291646), (121, 324051), (127, 356456), (133, 388861), (139, 421266), (144, 453671), (150, 486076), (155, 518481)])]
     else if c = 2 then
     [(-2000,
        [(127, 291646), (127, 324051), (127, 356456), (127, 388861), (132, 421266), (136, 453671), (141, 486076), (145, 518481)]),
      (-1000,
        [(126, 291646), (126, 324051), (126, 356456), (127, 388861), (132, 421266), (136, 453671), (141, 486076), (145, 518481)]),
      (0,
        [(126, 291646), (126, 324051), (126, 356456), (127, 388861), (132, 421266), (137, 453671), (141, 486076), (146, 518481)]),
      (1000,
        [(126, 291646), (126, 324051), (126, 356456), (127, 388861), (132, 421266), (137, 453671), (141, 486076), (146, 518481)]),
      (2000,
        [(125, 291646), (125, 324051), (125, 356456), (127, 388861), (132, 421266), (137, 453671), (141, 486076), (146, 518481)]),
      (3000,
        [(125, 291646), (125, 324051), (125, 356456), (127, 388861), (132, 421266), (137, 453671), (142, 486076), (146, 518481)]),
      (4000,
        [(124, 291646), (124, 324051), (124, 356456), (127, 388861), (132, 421266), (137, 453671), (142, 486076), (146, 518481)]),
      (5000,
        [(124, 291646), (124, 324051), (124, 356456), (127, 388861), (132, 421266), (137, 453671), (142, 486076), (146, 518481)]),
      (6000,
        [(123, 291646), (123, 324051), (123, 356456), (127, 388861), (132, 421266), (137, 453671), (142, 486076), (146, 518481)]),
      (7000,
        [(122, 291646), (122, 324051), (122, 356456), (127, 388861), (132, 421266), (137, 453671), (142, 486076), (146, 518481)]),
      (8000,
        [(120, 291646), (120, 324051), (122, 356456), (127, 388861), (132, 421266), (137, 453671), (142, 486076), (146, 518481)]),
      (9000,
        [(119, 291646), (119, 324051), (122, 356456), (127, 388861), (132, 421266), (137, 453671), (142, 486076), (147, 518481)]),
      (10000,
        [(117, 291646), (117, 324051), (122, 356456), (127, 388861), (132, 421266), (137, 453671), (142, 486076), (147, 518481)]),
      (11000,
        [(115, 291646), (117, 324051), (122, 356456), (127, 388861), (132, 421266), (137, 453671), (142, 486076), (147, 518481)]),
      (12000,
        [(113, 291646), (117, 324051), (122, 356456), (127, 388861), (132, 421266), (138, 453671), (143, 486076), (147, 518481)]),
      (13000,
        [(111, 291646), (116, 324051), (122, 356456), (127, 388861), (133, 421266), (138, 453671), (143, 486076), (148, 518481)]),
      (14100,
        [(111, 291646), (116, 324051), (122, 356456), (127, 388861), (133, 421266), (138, 453671), (143, 486076), (148, 518481)]),
      (15100,
        [(111, 291646), (116, 324051), (122, 356456), (127, 388861), (133, 421266), (138, 453671), (143, 486076), (148, 518481)])]
     else
     [(-2000,
        [(126, 291646), (126, 324051), (126, 356456), (126, 388861), (128, 421266), (132, 453671), (137, 486076), (141, 518481)]),
      (-1000,
        [(125, 291646), (125, 324051), (125, 356456), (125, 388861), (128, 421266), (132, 453671), (137, 486076), (141, 518481)]),
      (0,
        [(125, 291646), (125, 324051), (125, 356456), (125, 388861), (128, 421266), (132, 453671), (137, 486076), (141, 518481)]),
      (1000,
        [(125, 291646), (125, 324051), (125, 356456), (125, 388861), (128, 421266), (132, 453671), (137, 486076), (141, 518481)]),
      (2000,
        [(124, 291646), (124, 324051), (124, 356456), (124, 388861), (128, 421266), (132, 453671), (137, 486076), (141, 518481)]),
      (3000,
        [(124, 291646), (124, 324051), (124, 356456), (124, 388861), (128, 421266), (133, 453671), (137, 486076), (141, 518481)]),
      (4000,
        [(123, 291646), (123, 324051), (123, 356456), (123, 388861), (128, 421266), (133, 453671), (137, 486076), (141, 518481)]),
      (5000,
        [(123, 291646), (123, 324051), (123, 356456), (123, 388861), (128, 421266), (133, 453671), (137, 486076), (142, 518481)]),
      (6000,
        [(122, 291646), (122, 324051), (122, 356456), (123, 388861), (128, 421266), (133, 453671), (137, 486076), (142, 518481)]),
      (7000,
        [(121, 291646), (121, 324051), (121, 356456), (123, 388861), (128, 421266), (133, 453671), (138, 486076), (142, 518481)]),
      (8000,
        [(119, 291646), (119, 324051), (119, 356456), (123, 388861), (128, 421266), (133, 453671), (138, 486076), (142, 518481)]),
      (9000,
        [(118, 291646), (118, 324051), (118, 356456), (123, 388861), (128, 421266), (133, 453671), (138, 486076), (142, 518481)]),
      (10000,
        [(116, 291646), (116, 324051), (118, 356456), (123, 388861), (128, 421266), (133, 453671), (138, 486076), (142, 518481)]),
      (11000,
        [(114, 291646), (114, 324051), (118, 356456), (123, 6000), (128, 421266), (133, 453671), (138, 486076), (142, 518481)]),
      (12000,
        [(112, 291646), (113, 324051), (118, 356456), (123, 388861), (128, 421266), (133, 453671), (138, 486076), (143, 518481)]),
      (13000,
        [(110, 291646), (113, 324051), (118, 356456), (123, 388861), (128, 421266), (133, 453671), (138, 486076), (143, 518481)]),
      (14100,
        [(108, 291646), (113, 324051), (118, 356456), (123, 388861), (128, 421266), (134, 453671), (139, 486076), (143, 518481)]),
      (15100,
        [(107, 291646), (113, 324051), (118, 356456), (123, 388861), (129, 421266), (134, 453671), (139, 486076), (143, 518481)])])"

subsection \<open>Speed regressions\<close>

definition v2RunwayVmcgBaseFactors :: "int \<Rightarrow> real list" where
  "v2RunwayVmcgBaseFactors c =
    (if c = 1 then [0.920413, 77.3469]
     else if c = 2 then [0.87805, 75.1346]
     else [0.96131, 65.525])"

definition v2RunwayVmcgAltFactors :: "int \<Rightarrow> real list" where
  "v2RunwayVmcgAltFactors c =
    (if c = 1 then [0.00002333, -0.00144]
     else if c = 2 then [0.00001713, -0.001057]
     else [0.00001081, -0.0006236])"

definition vRRunwayVmcgBaseFactors :: "int \<Rightarrow> real list" where
  "vRRunwayVmcgBaseFactors c =
    (if c = 1 then [0.83076, 81.086]
     else if c = 2 then [0.728085, 84.111]
     else [0.742761, 78.721])"

definition vRRunwayVmcgRunwayFactors :: "int \<Rightarrow> real list" where
  "vRRunwayVmcgRunwayFactors c =
    (if c = 1 then [2280, 0.0001718, -0.01585]
     else if c = 2 then [2280, 0.0003239, -0.027272]
     else [1900, 0.00057992, -0.045646])"

definition vRRunwayVmcgAltFactors :: "int \<Rightarrow> real list" where
  "vRRunwayVmcgAltFactors c =
    (if c = 1 then [0.000029048, -0.001958]
     else if c = 2 then [0.000035557, -0.0025644]
     else [0.0000102964, -0.000545643])"

definition vRRunwayVmcgSlopeFactors :: "int \<Rightarrow> real" where
  "vRRunwayVmcgSlopeFactors c = (if c = 1 then 0.000887 else if c = 2 then 0.000887 else 0.000887)"

definition vRRunwayVmcgHeadwindFactors :: "int \<Rightarrow> real list" where
  "vRRunwayVmcgHeadwindFactors c =
    (if c = 1 then [0, 0]
     else if c = 2 then [-0.027617, 2.1252]
     else [0.003355, -0.263036])"

definition vRRunwayVmcgTailwindFactors :: "int \<Rightarrow> real list" where
  "vRRunwayVmcgTailwindFactors c =
    (if c = 1 then [-0.008052, 0.6599]
     else if c = 2 then [-0.010709, 0.90273]
     else [-0.027796, 2.107178])"

definition v1RunwayVmcgBaseFactors :: "int \<Rightarrow> real list" where
  "v1RunwayVmcgBaseFactors c =
    (if c = 1 then [0.4259042, 106.763]
     else if c = 2 then [0.398826, 106.337]
     else [0.469648, 95.776])"

definition v1RunwayVmcgRunwayFactors :: "int \<Rightarrow> real list" where
  "v1RunwayVmcgRunwayFactors c =
    (if c = 1 then [2280, 0.0003156, -0.03189]
     else if c = 2 then [2280, 0.0004396, -0.041238]
     else [1900, 0.00144, -0.112592])"

definition v1RunwayVmcgAltFactors :: "int \<Rightarrow> real list" where
  "v1RunwayVmcgAltFactors c =
    (if c = 1 then [0.00003416, -0.0028035]
     else if c = 2 then [0.00004354, -0.0035876]
     else [0.0000847, -0.006666])"

definition v1RunwayVmcgSlopeFactors :: "int \<Rightarrow> real" where
  "v1RunwayVmcgSlopeFactors c = (if c = 1 then 0.000887 else if c = 2 then 0.000887 else 0.000887)"

definition v1RunwayVmcgHeadwindFactors :: "int \<Rightarrow> real list" where
  "v1RunwayVmcgHeadwindFactors c =
    (if c = 1 then [0.00526, -0.2105]
     else if c = 2 then [0.00974, -0.53]
     else [0.002333, -0.079528])"

definition v1RunwayVmcgTailwindFactors :: "int \<Rightarrow> real list" where
  "v1RunwayVmcgTailwindFactors c =
    (if c = 1 then [-0.009243, 1.108]
     else if c = 2 then [-0.008207, 1.07]
     else [-0.043516, 3.423])"

definition v2SecondSegBrakeThresholds :: "int \<Rightarrow> real list" where
  "v2SecondSegBrakeThresholds c =
    (if c = 1 then [-0.009368, 186.79]
     else if c = 2 then [0.02346, 68.33]
     else [0.022112, 83.141])"

definition v2SecondSegBrakeBaseTable1 :: "int \<Rightarrow> real list" where
  "v2SecondSegBrakeBaseTable1 c =
    (if c = 1 then [0.72637, 101.077]
     else if c = 2 then [0.74005, 97.073]
     else [0.3746, 130.078])"

definition v2SecondSegBrakeBaseTable2 :: "int \<Rightarrow> real list" where
  "v2SecondSegBrakeBaseTable2 c =
    (if c = 1 then [0.63964, 102.127]
     else if c = 2 then [0.692636, 92.9863]
     else [0.859926, 82.4377])"

definition v2SecondSegBrakeRunwayTable1 :: "int \<Rightarrow> real list" where
  "v2SecondSegBrakeRunwayTable1 c =
    (if c = 1 then [3180, -0.015997]
     else if c = 2 then [3180, -0.014862]
     else [3180, -0.019296])"

definition v2SecondSegBrakeRunwayTable2 :: "int \<Rightarrow> real list" where
  "v2SecondSegBrakeRunwayTable2 c =
    (if c = 1 then [3180, -0.003612]
     else if c = 2 then [3180, -0.007]
     else [3180, -0.013])"

definition v2SecondSegBrakeAltFactors :: "int \<Rightarrow> real list" where
  "v2SecondSegBrakeAltFactors c =
    (if c = 1 then [-0.00000924, -0.00075879, 0.000546, -1.075]
     else if c = 2 then [-0.00000387, -0.0009333, 0.000546, -1.075]
     else [0.000034, -0.004043, 0.000468, -0.778471])"

definition v2SecondSegBrakeSlopeFactors :: "int \<Rightarrow> real list" where
  "v2SecondSegBrakeSlopeFactors c =
    (if c = 1 then [0.0000571, -0.008306]
     else if c = 2 then [0.0000286, -0.00415]
     else [0.000001, -0.000556])"

definition v2SecondSegBrakeHeadwindFactors :: "int \<Rightarrow> real" where
  "v2SecondSegBrakeHeadwindFactors c = (if c = 1 then 0.2 else if c = 2 then 0.2 else 0.2)"

definition v2SecondSegBrakeTailwindFactors :: "int \<Rightarrow> real" where
  "v2SecondSegBrakeTailwindFactors c = (if c = 1 then 0.65 else if c = 2 then 0.5 else 0.7)"

definition vRSecondSegBrakeBaseTable1 :: "int \<Rightarrow> real list" where
  "vRSecondSegBrakeBaseTable1 c =
    (if c = 1 then [0.701509, 102.667]
     else if c = 2 then [0.696402, 100.226]
     else [0.381534, 129.61])"

definition vRSecondSegBrakeBaseTable2 :: "int \<Rightarrow> real list" where
  "vRSecondSegBrakeBaseTable2 c =
    (if c = 1 then [0.573107, 105.783]
     else if c = 2 then [0.932193, 115.336]
     else [0.572407, 105.428])"

definition vRSecondSegBrakeRunwayTable1 :: "int \<Rightarrow> real list" where
  "vRSecondSegBrakeRunwayTable1 c =
    (if c = 1 then [3180, -0.000181, -0.005195]
     else if c = 2 then [3180, -0.000225, -0.000596]
     else [3180, 0.000054, -0.024442])"

definition vRSecondSegBrakeRunwayTable2 :: "int \<Rightarrow> real list" where
  "vRSecondSegBrakeRunwayTable2 c =
    (if c = 1 then [3180, 0.004582, -0.395175]
     else if c = 2 then [3180, 0.000351, -0.03216]
     else [3180, -0.000263, 0.014135])"

definition vRSecondSegBrakeAltTable1 :: "int \<Rightarrow> real list" where
  "vRSecondSegBrakeAltTable1 c =
    (if c = 1 then [-0.000034, 0.001018, 0.000154, 0.415385]
     else if c = 2 then [-0.00001, -0.000253, 0.000328, -0.24493]
     else [0.000017, -0.003017, 0.000398, -0.5117])"

definition vRSecondSegBrakeAltTable2 :: "int \<Rightarrow> real list" where
  "vRSecondSegBrakeAltTable2 c =
    (if c = 1 then [0.000574, -0.047508, 0.000154, 0.415385]
     else if c = 2 then [0.000253, -0.019907, 0.000328, -0.24493]
     else [0.000247, -0.019502, 0.000398, -0.5117])"

definition vRSecondSegBrakeSlopeFactors :: "int \<Rightarrow> real list" where
  "vRSecondSegBrakeSlopeFactors c =
    (if c = 1 then [0.000293, -0.023877]
     else if c = 2 then [0.000309, -0.025884]
     else [0.000049, -0.005035])"

definition vRSecondSegBrakeHeadwindFactors :: "int \<Rightarrow> real list" where
  "vRSecondSegBrakeHeadwindFactors c =
    (if c = 1 then [0.00668, -0.30215]
     else if c = 2 then [0.015247, -0.946949]
     else [0.028496, -1.808403])"

definition vRSecondSegBrakeTailwindFactors :: "int \<Rightarrow> real list" where
  "vRSecondSegBrakeTailwindFactors c =
    (if c = 1 then [0.014683, -0.347428]
     else if c = 2 then [0.019024, -0.725293]
     else [-0.002393, 0.994507])"

definition v1SecondSegBrakeBaseTable1 :: "int \<Rightarrow> real list" where
  "v1SecondSegBrakeBaseTable1 c =
    (if c = 1 then [0.580888, 111.076]
     else if c = 2 then [0.663598, 102.54]
     else [0.112254, 147.272])"

definition v1SecondSegBrakeBaseTable2 :: "int \<Rightarrow> real list" where
  "v1SecondSegBrakeBaseTable2 c =
    (if c = 1 then [0.460256, 104.849]
     else if c = 2 then [0.583566, 84.342]
     else [0.527615, 95.085])"

definition v1SecondSegBrakeRunwayTable1 :: "int \<Rightarrow> real list" where
  "v1SecondSegBrakeRunwayTable1 c =
    (if c = 1 then [3180, -0.000218, -0.003633]
     else if c = 2 then [3180, -0.000473, 0.015987]
     else [3180, 0.000017, -0.022792])"

definition v1SecondSegBrakeRunwayTable2 :: "int \<Rightarrow> real list" where
  "v1SecondSegBrakeRunwayTable2 c =
    (if c = 1 then [3180, 0.005044, -0.418865]
     else if c = 2 then [3180, 0.00052, -0.024703]
     else [3180, 0.000688, -0.048497])"

definition v1SecondSegBrakeAltTable1 :: "int \<Rightarrow> real list" where
  "v1SecondSegBrakeAltTable1 c =
    (if c = 1 then [-0.000084, 0.00393, 0.000231, 0.123077]
     else if c = 2 then [-0.0000086, -0.000333, 0.000172, 0.347893]
     else [0.000159, -0.012122, 0.000382, -0.452242])"

definition v1SecondSegBrakeAltTable2 :: "int \<Rightarrow> real list" where
  "v1SecondSegBrakeAltTable2 c =
    (if c = 1 then [0.000957, -0.077197, 0.000231, 0.123077]
     else if c = 2 then [0.000354, -0.025738, 0.000172, 0.347893]
     else [0.000927, -0.072365, 0.000382, -0.452242])"

definition v1SecondSegBrakeSlopeFactors :: "int \<Rightarrow> real list" where
  "v1SecondSegBrakeSlopeFactors c =
    (if c = 1 then [0.00003, -0.001069]
     else if c = 2 then [0.00003, -0.001069]
     else [0.0000431, -0.003239])"

definition v1SecondSegBrakeHeadwindFactors :: "int \<Rightarrow> real list" where
  "v1SecondSegBrakeHeadwindFactors c =
    (if c = 1 then [0.019515, -1.23885]
     else if c = 2 then [0.019515, -1.23886]
     else [0.065846, -4.365037])"

definition v1SecondSegBrakeTailwindFactors :: "int \<Rightarrow> real list" where
  "v1SecondSegBrakeTailwindFactors c =
    (if c = 1 then [0.032069, -1.44]
     else if c = 2 then [0.030147, -1.4286]
     else [-0.001744, 1.0938])"

subsection \<open>Wet runway adjustments\<close>

definition tvmcgFactors :: "int \<Rightarrow> (real list \<times> real) list" where
  "tvmcgFactors c =
    (if c = 1 then
     [([0.06485, -99.47], -15), ([0.9895, -116.54], 0), ([0.13858, -171.15], 10)]
     else if c = 2 then
     [([0.06573, -102.97], -15), ([0.10579, -132.96], 0), ([0.06575, -64.4], 10)]
     else
     [([0.07002, -106.62], -15), ([0.08804, -108.42], 0), ([0.07728, -82.08], 10)])"

text \<open>The vectors of \<open>tvmcgFactors\<close> are built with \<^verbatim>\<open>Vec2Math.create(x, y)\<close>, the pair of
  its arguments. The vectors of the eight tables below are built with
  \<^verbatim>\<open>VecNMath.create\<close>, and each is written with the arguments of its call.\<close>

definition wetTowAdjustmentFactorsAtOrBelowTvmcg :: "int \<Rightarrow> (real list \<times> real) list" where
  "wetTowAdjustmentFactorsAtOrBelowTvmcg c =
    (if c = 1 then
     [(VecNMath_create [0.05498, -126.98, 0.00903, -28.35], -15), (VecNMath_create [0.02391, -48.94, 0.00043, -1.64], 0),
      (VecNMath_create [0.01044, -21.53, 0.00022, -1.12], 10)]
     else if c = 2 then
     [(VecNMath_create [0.03856, -94.674, 0.00965, -30.09], -15), (VecNMath_create [0.02686, -48.63, -0.00011, -0.08], 0),
      (VecNMath_create [0.00057, -2.94, -0.00004, -0.13], 10)]
     else
     [(VecNMath_create [0.01924, -57.58, 0, 0], -15), (VecNMath_create [0.02184, -44.91, -0.00019, 0.1], 0),
      (VecNMath_create [0.00057, -2.94, 0.00047, -1.6], 10)])"

definition wetTowAdjustmentFactorsAboveTvmcg :: "int \<Rightarrow> (real list \<times> real) list" where
  "wetTowAdjustmentFactorsAboveTvmcg c =
    (if c = 1 then
     [(VecNMath_create [0.0197, -61.23, 0, 0], -15), (VecNMath_create [0.01887, -48.47, 0, 0], 0), (VecNMath_create [0.045, -86.32, 0, 0], 10)]
     else if c = 2 then
     [(VecNMath_create [0.01941, -60.02, 0, 0], -15), (VecNMath_create [0.02797, -61.99, 0, 0], 0),
      (VecNMath_create [0.03129, -63.61, 0, 0], 10)]
     else
     [(VecNMath_create [0.01978, -61.43, 0, 0], -15), (VecNMath_create [0.02765, -61.88, 0, 0], 0),
      (VecNMath_create [0.03662, -72.45, 0, 0], 10)])"

definition wetFlexAdjustmentFactorsAtOrBelowTvmcg :: "int \<Rightarrow> (real list \<times> real) list" where
  "wetFlexAdjustmentFactorsAtOrBelowTvmcg c =
    (if c = 1 then
     [(VecNMath_create [0.07933, -190.57, 0.02074, -65.05], -15), (VecNMath_create [0.04331, -90.86, 0.00098, -3.88], 0),
      (VecNMath_create [0.0233, -48.8, 0.00072, -3.14], 10)]
     else if c = 2 then
     [(VecNMath_create [0.029, -89.9, 0.0099, -38.42], -15), (VecNMath_create [0.03845, -80.2, -1, 0], 0),
      (VecNMath_create [0.00167, -7.01, 0.000266, -1.61], 10)]
     else
     [(VecNMath_create [0.03993, -94.09, 0, 0], -15), (VecNMath_create [0.03845, -80.2, -1, 0], 0),
      (VecNMath_create [0.00835, -18.34, -1, 0], 10)])"

definition wetFlexAdjustmentFactorsAboveTvmcg :: "int \<Rightarrow> (real list \<times> real) list" where
  "wetFlexAdjustmentFactorsAboveTvmcg c =
    (if c = 1 then
     [(VecNMath_create [-0.03716, 31.85, 0.08618, -234.92], -15), (VecNMath_create [-0.05861, 51.01, 0.04322, -113.39], 0),
      (VecNMath_create [0.1012, -195.48, 0, 0], 10)]
     else if c = 2 then
     [(VecNMath_create [-0.0285, 19.43, 0.06951, -193.38], -15), (VecNMath_create [-0.04698, 37.58, 0.06438, -139.9], 0),
      (VecNMath_create [0.06159, -126.56, 0, 0], 10)]
     else
     [(VecNMath_create [-0.0024, 4.25, -0.02118, 46.2], -15), (VecNMath_create [-0.02645, 9.81, 0.06116, -131.79], 0),
      (VecNMath_create [0.04841, -104.22, 0, 0], 10)])"

definition wetV1AdjustmentFactorsAtOrBelowTvmcg :: "int \<Rightarrow> (real list \<times> real) list" where
  "wetV1AdjustmentFactorsAtOrBelowTvmcg c =
    (if c = 1 then
     [(VecNMath_create [0.01428, -32.58, 0.00048, -2.03], -15), (VecNMath_create [-0.00786, 6.81, 0.00234, -14.23], 0),
      (VecNMath_create [-0.00246, -3.68, 0.00145, -11.32], 10)]
     else if c = 2 then
     [(VecNMath_create [-0.01563, 28.93, -0.00559, 6.36], -15), (VecNMath_create [-0.00474, 6.98, 0.0024, -13.2], 0),
      (VecNMath_create [0.00236, -11.92, 0, 0], 10)]
     else
     [(VecNMath_create [-0.01018, 18.83, 0, 0], -15), (VecNMath_create [-0.00931, 10.01, 0.00017, -8.5], 0),
      (VecNMath_create [-0.00005, -7.98, 0, 0], 10)])"

definition wetV1AdjustmentFactorsAboveTvmcg :: "int \<Rightarrow> (real list \<times> real) list" where
  "wetV1AdjustmentFactorsAboveTvmcg c =
    (if c = 1 then
     [(VecNMath_create [-0.00131, 0.91, -0.02013, 42.56], -15), (VecNMath_create [0.10383, -169.42, -0.00529, 6.73], 0),
      (VecNMath_create [-0.01594, 21.8, 0, 0], 10)]
     else if c = 2 then
     [(VecNMath_create [-0.00789, 15.29, 0, 0], -15), (VecNMath_create [-0.00971, 14, 0, 0], 0), (VecNMath_create [-0.00684, 8.43, 0, 0], 10)]
     else
     [(VecNMath_create [-0.0024, 4.25, -0.02118, 46.2], -15), (VecNMath_create [-0.00727, 10.12, 0, 0], 0),
      (VecNMath_create [-0.00671, 8.65, -0.0333, 50.84], 10)])"

definition wetVRAdjustmentFactorsAtOrBelowTvmcg :: "int \<Rightarrow> (real list \<times> real) list" where
  "wetVRAdjustmentFactorsAtOrBelowTvmcg c =
    (if c = 1 then
     [(VecNMath_create [0.01428, -32.58, 0.00048, -2.03], -15), (VecNMath_create [0.00353, -7.19, 0.00022, -0.64], 0),
      (VecNMath_create [0.0022, -4.14, 0.00053, -1.54], 10)]
     else if c = 2 then
     [(VecNMath_create [0.00693, -16.96, -0.00559, 6.36], -15), (VecNMath_create [0.00864, -17.08, 0, 0], 0),
      (VecNMath_create [0, 0, 0, 0], 10)]
     else
     [(VecNMath_create [0.00151, -6.16, 0, 0], -15), (VecNMath_create [-0.00557, -11.68, -0.0004, 0.54], 0),
      (VecNMath_create [-0.0001, -0.11, 0, 0], 10)])"

definition wetV2AdjustmentFactorsAtOrBelowTvmcg :: "int \<Rightarrow> (real list \<times> real) list" where
  "wetV2AdjustmentFactorsAtOrBelowTvmcg c =
    (if c = 1 then
     [(VecNMath_create [0.01936, -43.79, 0.000483, -2.03], -15), (VecNMath_create [0.00353, -7.19, 0.00022, -0.64], 0),
      (VecNMath_create [0.0022, -4.14, 0.00053, -1.54], 10)]
     else if c = 2 then
     [(VecNMath_create [0.01198, -28.31, 0, 0], -15), (VecNMath_create [0.00864, -17.08, 0, 0], 0), (VecNMath_create [0, 0, 0, 0], 10)]
     else
     [(VecNMath_create [0.00246, -8.65, 0, 0], -15), (VecNMath_create [0.00114, -3.52, 0, 0], 0), (VecNMath_create [-0.0001, -0.11, 0, 0], 10)])"

subsection \<open>Contaminated runways\<close>

definition weightCorrectionContaminated6mmWater :: "int \<Rightarrow> (real \<times> real) list" where
  "weightCorrectionContaminated6mmWater c =
    (if c = 1 then
     [(97215, 2500), (93327, 3000), (68051, 3500), (6800, 4000)]
     else if c = 2 then
     [(112770, 2000), (112770, 2500), (100456, 3000)]
     else
     [(121195, 1750), (121195, 2000), (112770, 2500)])"

definition minCorrectedTowContaminated6mmWater :: "int \<Rightarrow> real" where
  "minCorrectedTowContaminated6mmWater c = (if c = 1 then 374603 else if c = 2 then 368122 else 370714)"

definition mtowContaminated6mmWater :: "int \<Rightarrow> (real \<times> real) list" where
  "mtowContaminated6mmWater c =
    (if c = 1 then
     [(308496, 374603), (343494, 382380), (393397, 393397), (512000, 512000)]
     else if c = 2 then
     [(308496, 368122), (382380, 382380), (512000, 512000)]
     else
     [(308496, 370714), (362937, 382380), (387565, 387565), (512000, 512000)])"

definition vSpeedsContaminated6mmWater :: "int \<Rightarrow> (real list \<times> real) list" where
  "vSpeedsContaminated6mmWater c =
    (if c = 1 then
     [([122, 125, 127], 308496), ([122, 127, 129], 317570), ([122, 133, 135], 349975),
      ([122, 139, 141], 382380), ([122, 141, 143], 393397), ([126, 145, 147], 414785),
      ([132, 151, 153], 447190), ([137, 156, 158], 479595), ([142, 161, 163], 512000)]
     else if c = 2 then
     [([122, 126, 127], 308496), ([122, 128, 129], 317570), ([122, 134, 135], 349975),
      ([122, 141, 142], 382380), ([127, 146, 147], 414785), ([133, 152, 153], 447190),
      ([139, 158, 159], 479595), ([144, 163, 164], 512000)]
     else
     [([122, 126, 126], 308496), ([122, 128, 128], 317570), ([122, 134, 134], 349975),
      ([122, 140, 140], 382380), ([122, 141, 141], 387565), ([127, 146, 146], 414785),
      ([133, 152, 152], 447190), ([139, 158, 158], 479595), ([144, 163, 163], 512000)])"

definition weightCorrectionContaminated13mmWater :: "int \<Rightarrow> (real \<times> real) list" where
  "weightCorrectionContaminated13mmWater c =
    (if c = 1 then
     [(121195, 2500), (113418, 3000), (88142, 3500), (9700, 4000)]
     else if c = 2 then
     [(136101, 2000), (134805, 2500), (119899, 3000)]
     else
     [(141934, 1750), (141934, 2000), (132861, 2500)])"

definition minCorrectedTowContaminated13mmWater :: "int \<Rightarrow> real" where
  "minCorrectedTowContaminated13mmWater c = (if c = 1 then 345438 else if c = 2 then 345438 else 366177)"

definition mtowContaminated13mmWater :: "int \<Rightarrow> (real \<times> real) list" where
  "mtowContaminated13mmWater c =
    (if c = 1 then
     [(308496, 345438), (330532, 349975), (355159, 355159), (512000, 512000)]
     else if c = 2 then
     [(308496, 345438), (330532, 349975), (354511, 354511), (512000, 512000)]
     else
     [(308496, 366177), (382380, 382380), (512000, 512000)])"

definition vSpeedsContaminated13mmWater :: "int \<Rightarrow> (real list \<times> real) list" where
  "vSpeedsContaminated13mmWater c =
    (if c = 1 then
     [([122, 125, 127], 308496), ([122, 127, 129], 317570), ([122, 133, 135], 349975),
      ([122, 134, 136], 355159), ([127, 139, 141], 382380), ([133, 145, 147], 414785),
      ([132, 151, 153], 447190), ([144, 156, 158], 479595), ([149, 161, 163], 512000)]
     else if c = 2 then
     [([122, 126, 127], 308496), ([122, 128, 129], 317570), ([122, 134, 135], 349975),
      ([122, 135, 136], 354511), ([128, 141, 142], 382380), ([133, 146, 147], 414785),
      ([139, 152, 153], 447190), ([145, 158, 159], 479595), ([150, 163, 164], 512000)]
     else
     [([122, 126, 126], 308496), ([122, 128, 128], 317570), ([122, 134, 134], 349975),
      ([122, 140, 140], 382380), ([128, 146, 146], 414785), ([134, 152, 152], 447190),
      ([140, 158, 158], 479595), ([145, 163, 163], 512000)])"

definition weightCorrectionContaminated6mmSlush :: "int \<Rightarrow> (real \<times> real) list" where
  "weightCorrectionContaminated6mmSlush c =
    (if c = 1 then
     [(99808, 2500), (92030, 3000), (67403, 3500), (6600, 4000)]
     else if c = 2 then
     [(116010, 2000), (115362, 2500), (100456, 3000)]
     else
     [(124435, 1750), (123139, 2000), (111473, 2500)])"

definition minCorrectedTowContaminated6mmSlush :: "int \<Rightarrow> real" where
  "minCorrectedTowContaminated6mmSlush c = (if c = 1 then 370714 else if c = 2 then 364233 else 345438)"

definition mtowContaminated6mmSlush :: "int \<Rightarrow> (real \<times> real) list" where
  "mtowContaminated6mmSlush c =
    (if c = 1 then
     [(308496, 370714), (362937, 382380), (387565, 387565), (512000, 512000)]
     else if c = 2 then
     [(308496, 364233), (362937, 382380), (512000, 512000)]
     else
     [(308496, 345438), (330532, 349975), (355159, 355159), (512000, 512000)])"

definition vSpeedsContaminated6mmSlush :: "int \<Rightarrow> (real list \<times> real) list" where
  "vSpeedsContaminated6mmSlush c =
    (if c = 1 then
     [([122, 125, 127], 308496), ([122, 127, 129], 317570), ([122, 133, 135], 349975),
      ([127, 139, 141], 382380), ([127, 140, 142], 387565), ([127, 145, 147], 414785),
      ([133, 151, 153], 447190), ([138, 156, 158], 479595), ([143, 161, 163], 512000)]
     else if c = 2 then
     [([122, 126, 127], 308496), ([122, 128, 129], 317570), ([122, 134, 135], 349975),
      ([122, 140, 141], 377843), ([123, 141, 142], 382380), ([128, 146, 147], 414785),
      ([134, 152, 153], 447190), ([140, 158, 159], 479595), ([145, 163, 164], 512000)]
     else
     [([122, 126, 126], 308496), ([122, 128, 128], 317570), ([122, 134, 134], 349975),
      ([122, 135, 135], 355159), ([127, 140, 140], 382380), ([133, 146, 146], 414785),
      ([139, 152, 152], 447190), ([145, 158, 158], 479595), ([150, 163, 163], 512000)])"

definition weightCorrectionContaminated13mmSlush :: "int \<Rightarrow> (real \<times> real) list" where
  "weightCorrectionContaminated13mmSlush c =
    (if c = 1 then
     [(125732, 2500), (115362, 3000), (88790, 3500), (10000, 4000)]
     else if c = 2 then
     [(142582, 2000), (139990, 2500), (121843, 3000)]
     else
     [(117954, 1750), (146471, 2000), (135453, 2500)])"

definition minCorrectedTowContaminated13mmSlush :: "int \<Rightarrow> real" where
  "minCorrectedTowContaminated13mmSlush c = (if c = 1 then 340901 else if c = 2 then 337013 else 337013)"

definition mtowContaminated13mmSlush :: "int \<Rightarrow> (real \<times> real) list" where
  "mtowContaminated13mmSlush c =
    (if c = 1 then
     [(308496, 340901), (349975, 349975), (512000, 512000)]
     else if c = 2 then
     [(308496, 337013), (344790, 344790), (512000, 512000)]
     else
     [(308496, 337013), (344790, 344790), (512000, 512000)])"

definition vSpeedsContaminated13mmSlush :: "int \<Rightarrow> (real list \<times> real) list" where
  "vSpeedsContaminated13mmSlush c =
    (if c = 1 then
     [([122, 126, 127], 308496), ([122, 128, 129], 317570), ([122, 134, 135], 349975),
      ([128, 140, 141], 382380), ([134, 146, 147], 414785), ([140, 152, 153], 447190),
      ([145, 157, 158], 479595), ([150, 162, 163], 512000)]
     else if c = 2 then
     [([122, 126, 127], 308496), ([122, 128, 129], 317570), ([122, 133, 134], 344790),
      ([123, 134, 135], 349975), ([130, 141, 142], 382380), ([135, 146, 147], 414785),
      ([141, 152, 153], 447190), ([147, 158, 159], 479595), ([152, 163, 164], 512000)]
     else
     [([122, 126, 126], 308496), ([122, 128, 128], 317570), ([122, 133, 133], 344790),
      ([123, 134, 134], 349975), ([129, 140, 140], 382380), ([135, 146, 146], 414785),
      ([141, 152, 152], 447190), ([147, 158, 158], 479595), ([152, 163, 163], 512000)])"

definition weightCorrectionContaminatedCompactedSnow :: "int \<Rightarrow> (real \<times> real) list" where
  "weightCorrectionContaminatedCompactedSnow c =
    (if c = 1 then
     [(66106, 2500), (9000, 3000), (4700, 3500), (3000, 4000)]
     else if c = 2 then
     [(86197, 2000), (82309, 2500), (66754, 3000)]
     else
     [(97863, 1750), (95919, 2000), (82309, 2500)])"

definition minCorrectedTowContaminatedCompactedSnow :: "int \<Rightarrow> real" where
  "minCorrectedTowContaminatedCompactedSnow c = (if c = 1 then 370714 else if c = 2 then 364233 else 366177)"

definition mtowContaminatedCompactedSnow :: "int \<Rightarrow> (real \<times> real) list" where
  "mtowContaminatedCompactedSnow c =
    (if c = 1 then
     [(308496, 370714), (362937, 382380), (387565, 387565), (512000, 512000)]
     else if c = 2 then
     [(308496, 364233), (377843, 377843), (512000, 512000)]
     else
     [(308496, 366177), (382380, 382380), (512000, 512000)])"

definition vSpeedsContaminatedCompactedSnow :: "int \<Rightarrow> (real list \<times> real) list" where
  "vSpeedsContaminatedCompactedSnow c =
    (if c = 1 then
     [([122, 126, 127], 308496), ([122, 128, 129], 317570), ([122, 134, 135], 349975),
      ([122, 140, 141], 382380), ([122, 141, 142], 387565), ([127, 146, 147], 414785),
      ([133, 152, 153], 447190), ([138, 157, 158], 479595), ([143, 162, 163], 512000)]
     else if c = 2 then
     [([122, 126, 127], 308496), ([122, 128, 129], 317570), ([122, 134, 135], 349975),
      ([122, 140, 141], 377843), ([123, 141, 142], 382380), ([128, 146, 147], 414785),
      ([134, 152, 153], 447190), ([140, 158, 159], 479595), ([145, 163, 164], 512000)]
     else
     [([122, 126, 126], 308496), ([122, 128, 128], 317570), ([122, 134, 134], 349975),
      ([122, 140, 140], 382380), ([128, 146, 146], 414785), ([134, 152, 152], 447190),
      ([140, 158, 158], 479595), ([145, 163, 163], 512000)])"

definition weightCorrectionContaminated5mmWetSnow :: "int \<Rightarrow> (real \<times> real) list" where
  "weightCorrectionContaminated5mmWetSnow c =
    (if c = 1 then
     [(73884, 2500), (68051, 3000), (6000, 3500), (3000, 4000)]
     else if c = 2 then
     [(97215, 2000), (92030, 2500), (77124, 3000)]
     else
     [(113418, 1750), (110825, 2000), (92678, 2500)])"

definition minCorrectedTowContaminated5mmWetSnow :: "int \<Rightarrow> real" where
  "minCorrectedTowContaminated5mmWetSnow c = (if c = 1 then 366177 else if c = 2 then 372010 else 374603)"

definition mtowContaminated5mmWetSnow :: "int \<Rightarrow> (real \<times> real) list" where
  "mtowContaminated5mmWetSnow c =
    (if c = 1 then
     [(308496, 366177), (382380, 382380), (512000, 512000)]
     else if c = 2 then
     [(308496, 372010), (362937, 382380), (388861, 388861), (512000, 512000)]
     else
     [(308496, 374603), (343494, 382380), (393397, 393397), (512000, 512000)])"

definition vSpeedsContaminated5mmWetSnow :: "int \<Rightarrow> (real list \<times> real) list" where
  "vSpeedsContaminated5mmWetSnow c =
    (if c = 1 then
     [([122, 126, 127], 308496), ([122, 128, 129], 317570), ([122, 134, 135], 349975),
      ([122, 140, 141], 382380), ([128, 146, 147], 414785), ([134, 152, 153], 447190),
      ([139, 157, 158], 479595), ([144, 162, 163], 512000)]
     else if c = 2 then
     [([122, 126, 127], 308496), ([122, 128, 129], 317570), ([122, 134, 135], 349975),
      ([122, 141, 142], 382380), ([122, 142, 143], 388861), ([126, 146, 147], 414785),
      ([132, 152, 153], 447190), ([138, 158, 159], 479595), ([143, 163, 164], 512000)]
     else
     [([122, 126, 126], 308496), ([122, 128, 128], 317570), ([122, 134, 134], 349975),
      ([122, 140, 140], 382380), ([122, 142, 142], 393397), ([126, 146, 146], 414785),
      ([132, 152, 152], 447190), ([138, 158, 158], 479595), ([143, 163, 163], 512000)])"

definition weightCorrectionContaminated15mmWetSnow :: "int \<Rightarrow> (real \<times> real) list" where
  "weightCorrectionContaminated15mmWetSnow c =
    (if c = 1 then
     [(105641, 2500), (96567, 3000), (70643, 3500), (7100, 4000)]
     else if c = 2 then
     [(123139, 2000), (121195, 2500), (104344, 3000)]
     else
     [(130916, 1750), (129620, 2000), (117306, 2500)])"

definition minCorrectedTowContaminated15mmWetSnow :: "int \<Rightarrow> real" where
  "minCorrectedTowContaminated15mmWetSnow c = (if c = 1 then 349327 else if c = 2 then 345438 else 345438)"

definition mtowContaminated15mmWetSnow :: "int \<Rightarrow> (real \<times> real) list" where
  "mtowContaminated15mmWetSnow c =
    (if c = 1 then
     [(308496, 349327), (311089, 349975), (360992, 360992), (512000, 512000)]
     else if c = 2 then
     [(308496, 345438), (330532, 349975), (354511, 354511), (512000, 512000)]
     else
     [(308496, 345438), (330532, 349975), (355159, 355159), (512000, 512000)])"

definition vSpeedsContaminated15mmWetSnow :: "int \<Rightarrow> (real list \<times> real) list" where
  "vSpeedsContaminated15mmWetSnow c =
    (if c = 1 then
     [([122, 126, 127], 308496), ([122, 128, 129], 317570), ([122, 134, 135], 349975),
      ([122, 136, 137], 360992), ([126, 140, 141], 382380), ([132, 146, 147], 414785),
      ([138, 152, 153], 447190), ([143, 157, 158], 479595), ([148, 162, 163], 512000)]
     else if c = 2 then
     [([122, 126, 127], 308496), ([122, 128, 129], 317570), ([122, 134, 135], 349975),
      ([122, 135, 136], 354511), ([128, 141, 142], 382380), ([133, 146, 147], 414785),
      ([139, 152, 153], 447190), ([145, 158, 159], 479595), ([150, 163, 164], 512000)]
     else
     [([122, 126, 126], 308496), ([122, 128, 128], 317570), ([122, 134, 134], 349975),
      ([122, 135, 135], 355159), ([127, 140, 140], 382380), ([133, 146, 146], 414785),
      ([139, 152, 152], 447190), ([145, 158, 158], 479595), ([150, 163, 163], 512000)])"

definition weightCorrectionContaminated30mmWetSnow :: "int \<Rightarrow> (real \<times> real) list" where
  "weightCorrectionContaminated30mmWetSnow c =
    (if c = 1 then
     [(149063, 2500), (136749, 3000), (124435, 3500), (124435, 4000)]
     else if c = 2 then
     [(160081, 2000), (158137, 2500), (145175, 3000)]
     else
     [(163322, 1750), (162025, 2000), (153600, 2500)])"

definition minCorrectedTowContaminated30mmWetSnow :: "int \<Rightarrow> real" where
  "minCorrectedTowContaminated30mmWetSnow c = (if c = 1 then 311737 else if c = 2 then 308496 else 308496)"

definition mtowContaminated30mmWetSnow :: "int \<Rightarrow> (real \<times> real) list" where
  "mtowContaminated30mmWetSnow c =
    (if c = 1 then
     [(308496, 311737), (313033, 313033), (512000, 512000)]
     else if c = 2 then
     [(308496, 308496), (512000, 512000)]
     else
     [(308496, 308496), (512000, 512000)])"

definition vSpeedsContaminated30mmWetSnow :: "int \<Rightarrow> (real list \<times> real) list" where
  "vSpeedsContaminated30mmWetSnow c =
    (if c = 1 then
     [([122, 126, 127], 308496), ([122, 127, 128], 313033), ([123, 128, 129], 317570),
      ([130, 134, 135], 349975), ([137, 141, 142], 382380), ([142, 146, 147], 414785),
      ([148, 152, 153], 447190), ([154, 158, 159], 479595), ([159, 163, 164], 512000)]
     else if c = 2 then
     [([122, 126, 127], 308496), ([124, 128, 129], 317570), ([130, 134, 135], 349975),
      ([137, 141, 142], 382380), ([142, 146, 147], 414785), ([148, 152, 153], 447190),
      ([154, 158, 159], 479595), ([159, 163, 164], 512000)]
     else
     [([122, 126, 126], 308496), ([124, 128, 128], 317570), ([130, 134, 134], 349975),
      ([136, 140, 140], 382380), ([142, 146, 146], 414785), ([148, 152, 152], 447190),
      ([154, 158, 158], 479595), ([159, 163, 163], 512000)])"

definition weightCorrectionContaminated10mmDrySnow :: "int \<Rightarrow> (real \<times> real) list" where
  "weightCorrectionContaminated10mmDrySnow c =
    (if c = 1 then
     [(73884, 2500), (68051, 3000), (6000, 3500), (3000, 4000)]
     else if c = 2 then
     [(97215, 2000), (92030, 2500), (76476, 3000)]
     else
     [(113418, 1750), (110825, 2000), (92678, 2500)])"

definition minCorrectedTowContaminated10mmDrySnow :: "int \<Rightarrow> real" where
  "minCorrectedTowContaminated10mmDrySnow c = (if c = 1 then 366177 else if c = 2 then 372010 else 374603)"

definition mtowContaminated10mmDrySnow :: "int \<Rightarrow> (real \<times> real) list" where
  "mtowContaminated10mmDrySnow c =
    (if c = 1 then
     [(308496, 366177), (382380, 382380), (512000, 512000)]
     else if c = 2 then
     [(308496, 372010), (362937, 382380), (388861, 388861), (512000, 512000)]
     else
     [(308496, 374603), (343494, 382380), (393397, 393397), (512000, 512000)])"

definition vSpeedsContaminated10mmDrySnow :: "int \<Rightarrow> (real list \<times> real) list" where
  "vSpeedsContaminated10mmDrySnow c =
    (if c = 1 then
     [([122, 126, 127], 308496), ([122, 128, 129], 317570), ([122, 134, 135], 349975),
      ([122, 140, 141], 382380), ([128, 146, 147], 414785), ([134, 152, 153], 447190),
      ([139, 157, 158], 479595), ([144, 162, 163], 512000)]
     else if c = 2 then
     [([122, 126, 127], 308496), ([122, 128, 129], 317570), ([122, 134, 135], 349975),
      ([122, 141, 142], 382380), ([122, 142, 143], 388861), ([126, 146, 147], 414785),
      ([132, 152, 153], 447190), ([138, 158, 159], 479595), ([143, 163, 164], 512000)]
     else
     [([122, 126, 126], 308496), ([122, 128, 128], 317570), ([122, 134, 134], 349975),
      ([122, 140, 140], 382380), ([122, 142, 142], 393397), ([126, 146, 146], 414785),
      ([132, 152, 152], 447190), ([138, 158, 158], 479595), ([143, 163, 163], 512000)])"

definition weightCorrectionContaminated100mmDrySnow :: "int \<Rightarrow> (real \<times> real) list" where
  "weightCorrectionContaminated100mmDrySnow c =
    (if c = 1 then
     [(125084, 2500), (127028, 3000), (113418, 3500), (102400, 4000)]
     else if c = 2 then
     [(136749, 2000), (142582, 2500), (138694, 3000)]
     else
     [(143230, 1750), (144527, 2000), (141286, 2500)])"

definition minCorrectedTowContaminated100mmDrySnow :: "int \<Rightarrow> real" where
  "minCorrectedTowContaminated100mmDrySnow c = (if c = 1 then 315625 else if c = 2 then 313033 else 315625)"

definition mtowContaminated100mmDrySnow :: "int \<Rightarrow> (real \<times> real) list" where
  "mtowContaminated100mmDrySnow c =
    (if c = 1 then
     [(308496, 315625), (317570, 317570), (512000, 512000)]
     else if c = 2 then
     [(308496, 311737), (313033, 313033), (512000, 512000)]
     else
     [(308496, 315625), (317570, 317570), (512000, 512000)])"

definition vSpeedsContaminated100mmDrySnow :: "int \<Rightarrow> (real list \<times> real) list" where
  "vSpeedsContaminated100mmDrySnow c =
    (if c = 1 then
     [([122, 126, 127], 308496), ([122, 128, 129], 317570), ([128, 134, 135], 349975),
      ([134, 140, 141], 382380), ([140, 146, 147], 414785), ([146, 152, 153], 447190),
      ([151, 157, 158], 479595), ([156, 162, 163], 512000)]
     else if c = 2 then
     [([122, 126, 127], 308496), ([122, 127, 128], 313033), ([123, 128, 129], 317570),
      ([129, 134, 135], 349975), ([136, 141, 142], 382380), ([141, 146, 147], 414785),
      ([147, 152, 153], 447190), ([153, 158, 159], 479595), ([158, 163, 164], 512000)]
     else
     [([122, 126, 126], 308496), ([122, 128, 128], 317570), ([128, 134, 134], 349975),
      ([134, 140, 140], 382380), ([140, 146, 146], 414785), ([146, 152, 152], 447190),
      ([152, 158, 158], 479595), ([157, 163, 163], 512000)])"

section \<open>Derived parameters\<close>

definition structuralMtow :: real where "structuralMtow = 512000"
definition maxPressureAlt :: real where "maxPressureAlt = 9200"
definition oew :: real where "oew = 275443"
definition maxHeadwind :: real where "maxHeadwind = 45"
definition maxTailwind :: real where "maxTailwind = 15"
definition tMaxFlexDisa :: real where "tMaxFlexDisa = 59"

definition calculateIsaTemp :: "real \<Rightarrow> real" where
  "calculateIsaTemp elevation = 15 - elevation * 0.0019812"

definition calculateTref :: "real \<Rightarrow> real" where
  "calculateTref elevation = LerpLookupTable_get tRefTable elevation"

definition calculateTmax :: "real \<Rightarrow> real" where
  "calculateTmax pressureAlt = LerpLookupTable_get tMaxTable pressureAlt"

definition calculateTflexMax :: "real \<Rightarrow> real" where
  "calculateTflexMax isa = isa + tMaxFlexDisa"

text \<open>The power is the real power \<open>powr\<close>; the source's \<^verbatim>\<open>**\<close> agrees with it for a
  positive altimeter setting.\<close>

definition calculatePressureAltitude :: "real \<Rightarrow> real \<Rightarrow> real" where
  "calculatePressureAltitude elevation qnh =
     elevation + 145442.15 * (1 - (qnh / 1013.25) powr 0.190263)"

definition calculateBaseRunwayPerfLimit :: "real \<Rightarrow> int \<Rightarrow> jsnum" where
  "calculateBaseRunwayPerfLimit len c =
     (if c = 1 then Num (LerpLookupTable_get runwayPerfLimitConf1 len)
      else if c = 2 then Num (LerpLookupTable_get runwayPerfLimitConf2 len)
      else if c = 3 then Num (LerpLookupTable_get runwayPerfLimitConf3 len)
      else NaN)"

definition calculateBaseLimit :: "real \<Rightarrow> int \<Rightarrow> (int \<Rightarrow> real list) \<Rightarrow> real" where
  "calculateBaseLimit len c factors =
     (let factor1 = factors c ! 0; factor2 = factors c ! 1
      in 1000 * (len * factor1 + factor2))"

text \<open>The stabiliser trim is rounded to a tenth. The model rounds the exact real; the
  source rounds a double, which can fall on the other side of a half (at a CG of 28.5 the
  quotient is 6.5 exactly and 6.4999... as a double). No statement below reads
  \<^verbatim>\<open>stabTrim\<close>.\<close>

definition calculateStabTrim :: "real \<Rightarrow> real" where
  "calculateStabTrim g = Math_round (lerpClamped g 17 40 3.8 (-2.5) / 0.1) * 0.1"

definition isCgWithinLimits :: "real \<Rightarrow> real \<Rightarrow> bool" where
  "isCgWithinLimits g w =
     (let cgLimits = LerpVectorLookupTable_get takeoffCgLimits w
      in g \<ge> cgLimits ! 0 \<and> g \<le> cgLimits ! 1)"

section \<open>Temperature and wind corrections of the weight limits\<close>

text \<open>Each correction is in kilograms and is subtracted from the limit. Above Tflexmax
  the source answers not-a-number.\<close>

definition calculateRunwayTempDelta ::
  "real \<Rightarrow> int \<Rightarrow> real \<Rightarrow> real \<Rightarrow> real \<Rightarrow> real \<Rightarrow> real \<Rightarrow> real \<Rightarrow> jsnum" where
  "calculateRunwayTempDelta temp c tRef tMax tFlexMax runwayLength pressureAlt isaTemp =
     (if temp > tFlexMax then NaN
      else
        let tempFactors = runwayTemperatureFactor c;
            runwayAltFactor = runwayLength - pressureAlt / 12;
            weightDelta = 1000 * (runwayAltFactor * tempFactors ! 0 + tempFactors ! 1) * (min temp tRef - isaTemp);
            weightDelta = (if temp > tRef
              then weightDelta + 1000 * (runwayAltFactor * tempFactors ! 2 + tempFactors ! 3) * (min temp tMax - tRef)
              else weightDelta);
            weightDelta = (if temp > tMax
              then weightDelta + 1000 * (runwayAltFactor * tempFactors ! 4 + tempFactors ! 5) * (temp - tMax)
              else weightDelta)
        in Num weightDelta)"

definition calculateSecondSegmentTempDelta ::
  "real \<Rightarrow> int \<Rightarrow> real \<Rightarrow> real \<Rightarrow> real \<Rightarrow> real \<Rightarrow> real \<Rightarrow> real \<Rightarrow> jsnum" where
  "calculateSecondSegmentTempDelta temp c tRef tMax tFlexMax runwayLength pressureAlt isaTemp =
     (if temp > tFlexMax then NaN
      else
        let tempFactors = secondSegmentTemperatureFactor c;
            weightDelta = 1000 * ((runwayLength - pressureAlt / 5) * tempFactors ! 0 + tempFactors ! 1) * (min temp tRef - isaTemp);
            weightDelta = (if temp > tRef
              then weightDelta + 1000 * ((runwayLength - pressureAlt / 5) * tempFactors ! 2 + tempFactors ! 3) * (min temp tMax - tRef)
              else weightDelta);
            weightDelta = (if temp > tMax
              then weightDelta + 1000 * ((runwayLength - pressureAlt / 5) * tempFactors ! 4 + tempFactors ! 5) * (temp - tMax)
              else weightDelta)
        in Num weightDelta)"

definition calculateBrakeEnergyTempDelta ::
  "real \<Rightarrow> int \<Rightarrow> real \<Rightarrow> real \<Rightarrow> real \<Rightarrow> real \<Rightarrow> real \<Rightarrow> real \<Rightarrow> jsnum" where
  "calculateBrakeEnergyTempDelta temp c tRef tMax tFlexMax runwayLength pressureAlt isaTemp =
     (if temp > tFlexMax then NaN
      else
        let tempFactors = brakeEnergyTemperatureFactor c;
            weightDelta = 1000 * tempFactors ! 0 * (min temp tRef - isaTemp);
            weightDelta = (if temp > tRef
              then weightDelta + 1000 * tempFactors ! 1 * (min temp tMax - tRef)
              else weightDelta)
        in Num weightDelta)"

definition calculateVmcgTempDelta ::
  "real \<Rightarrow> int \<Rightarrow> real \<Rightarrow> real \<Rightarrow> real \<Rightarrow> real \<Rightarrow> real \<Rightarrow> real \<Rightarrow> jsnum" where
  "calculateVmcgTempDelta temp c tRef tMax tFlexMax runwayLength pressureAlt isaTemp =
     (if temp > tFlexMax then NaN
      else
        let tempFactors = vmcgTemperatureFactor c;
            weightDelta = 1000 * (runwayLength * tempFactors ! 0 + tempFactors ! 1) * (min temp tRef - isaTemp);
            weightDelta = (if temp > tRef
              then weightDelta + 1000 * (runwayLength * tempFactors ! 2 + tempFactors ! 3) * (min temp tMax - tRef)
              else weightDelta);
            weightDelta = (if temp > tMax
              then weightDelta + 1000 * (runwayLength * tempFactors ! 4 + tempFactors ! 5) * (temp - tMax)
              else weightDelta)
        in Num weightDelta)"

text \<open>The wind corrections end with the guard of the source for the ends of the data: a
  correction with the sign of the wind is dropped.\<close>

definition calculateRunwayWindDelta ::
  "real \<Rightarrow> int \<Rightarrow> real \<Rightarrow> real \<Rightarrow> real \<Rightarrow> real \<Rightarrow> real \<Rightarrow> real \<Rightarrow> jsnum" where
  "calculateRunwayWindDelta temp c isaTemp tRef tMax tFlexMax runwayLength w =
     (if temp > tFlexMax then NaN
      else
        let windFactors = (if w \<ge> 0 then runwayHeadWindFactor c else runwayTailWindFactor c);
            weightDelta = 1000 * (runwayLength * windFactors ! 0 + windFactors ! 1) * w;
            weightDelta = (if temp > tRef
              then weightDelta + 1000 * windFactors ! 2 * w * (min temp tMax - tRef)
              else weightDelta);
            weightDelta = (if temp > tMax
              then weightDelta + 1000 * windFactors ! 3 * w * (temp - tMax)
              else weightDelta)
        in if sgn weightDelta = sgn w then Num 0 else Num weightDelta)"

definition calculateSecondSegmentWindDelta ::
  "real \<Rightarrow> int \<Rightarrow> real \<Rightarrow> real \<Rightarrow> real \<Rightarrow> real \<Rightarrow> real \<Rightarrow> real \<Rightarrow> jsnum" where
  "calculateSecondSegmentWindDelta temp c isaTemp tRef tMax tFlexMax runwayLength w =
     (if temp > tFlexMax then NaN
      else
        let windFactors = (if w \<ge> 0 then secondSegmentHeadWindFactor c else secondSegmentTailWindFactor c);
            weightDelta = 1000 * (runwayLength * windFactors ! 0 + windFactors ! 1) * w;
            weightDelta = (if temp > tRef
              then weightDelta + 1000 * windFactors ! 2 * w * (min temp tMax - tRef)
              else weightDelta);
            weightDelta = (if temp > tMax
              then weightDelta + 1000 * windFactors ! 3 * w * (temp - tMax)
              else weightDelta)
        in if sgn weightDelta = sgn w then Num 0 else Num weightDelta)"

definition calculateBrakeEnergyWindDelta ::
  "real \<Rightarrow> int \<Rightarrow> real \<Rightarrow> real \<Rightarrow> real \<Rightarrow> real \<Rightarrow> real \<Rightarrow> real \<Rightarrow> jsnum" where
  "calculateBrakeEnergyWindDelta temp c isaTemp tRef tMax tFlexMax runwayLength w =
     (if temp > tFlexMax then NaN
      else
        let windFactors = (if w \<ge> 0 then brakeEnergyHeadWindFactor c else brakeEnergyTailWindFactor c);
            weightDelta = 1000 * (runwayLength * windFactors ! 0 + windFactors ! 1) * w;
            weightDelta = (if temp > tRef
              then weightDelta + 1000 * windFactors ! 2 * w * (min temp tMax - tRef)
              else weightDelta);
            weightDelta = (if temp > tMax
              then weightDelta + 1000 * windFactors ! 3 * w * (temp - tMax)
              else weightDelta)
        in if sgn weightDelta = sgn w then Num 0 else Num weightDelta)"

definition calculateVmcgWindDelta ::
  "real \<Rightarrow> int \<Rightarrow> real \<Rightarrow> real \<Rightarrow> real \<Rightarrow> real \<Rightarrow> real \<Rightarrow> real \<Rightarrow> jsnum" where
  "calculateVmcgWindDelta temp c isaTemp tRef tMax tFlexMax runwayLength w =
     (if temp > tFlexMax then NaN
      else
        let weightDelta =
          (if w \<ge> 0 then
             let windFactors = vmcgHeadWindFactor c;
                 weightDelta = 1000 * (runwayLength * windFactors ! 0 + windFactors ! 1) * w;
                 weightDelta = (if temp > isaTemp
                   then weightDelta + 1000 * (runwayLength * windFactors ! 2 + windFactors ! 3) * w * (min temp tRef - isaTemp)
                   else weightDelta);
                 weightDelta = (if temp > tRef
                   then weightDelta + 1000 * (runwayLength * windFactors ! 4 + windFactors ! 5) * w * (min temp tMax - tRef)
                   else weightDelta);
                 weightDelta = (if temp \<ge> tMax
                   then weightDelta + 1000 * (runwayLength * windFactors ! 6 + windFactors ! 7) * w * (temp - tMax)
                   else weightDelta)
             in weightDelta
           else
             let windFactors = vmcgTailWindFactor c;
                 weightDelta = 1000 * (runwayLength * windFactors ! 0 + windFactors ! 1) * w;
                 weightDelta = (if temp > isaTemp
                   then weightDelta + 1000 * (runwayLength * windFactors ! 2 + windFactors ! 3) * w * (min temp tRef - isaTemp)
                   else weightDelta);
                 weightDelta = (if temp > tRef
                   then weightDelta + 1000 * windFactors ! 4 * w * (min temp tMax - tRef)
                   else weightDelta);
                 weightDelta = (if temp > tMax
                   then weightDelta + 1000 * windFactors ! 5 * w * (temp - tMax)
                   else weightDelta)
             in weightDelta)
        in if sgn weightDelta = sgn w then Num 0 else Num weightDelta)"

section \<open>Data model\<close>

text \<open>
  Modelled from the spec: the enumerations and the input, parameter and result interfaces
  are declared in the shared SDK package of the repository, which is not under src/. The
  members are the ones the calculator names; the limiting factors are enumerated Runway
  first. \<open>ErrorNone\<close> is \<^verbatim>\<open>TakeoffPerfomanceError.None\<close>.
\<close>

datatype TakeoffPerfomanceError =
    ErrorNone | InvalidData | StructuralMtow | MaximumPressureAlt | MaximumTemperature
  | OperatingEmptyWeight | CgOutOfLimits | MaximumTailwind | MaximumRunwaySlope
  | TooLight | TooHeavy | VmcgVmcaLimits | MaximumTireSpeed

datatype LimitingFactor = Runway | SecondSegment | BrakeEnergy | Vmcg

datatype RunwayCondition =
    Dry | Wet
  | Contaminated6mmWater | Contaminated13mmWater | Contaminated6mmSlush | Contaminated13mmSlush
  | ContaminatedCompactedSnow | Contaminated5mmWetSnow | Contaminated15mmWetSnow
  | Contaminated30mmWetSnow | Contaminated10mmDrySnow | Contaminated100mmDrySnow

datatype TakeoffAntiIceSetting = Off | Engine | EngineWing

datatype LineupAngle = Lineup0 | Lineup90 | Lineup180

text \<open>What the source throws: \<^verbatim>\<open>new Error(message)\<close>.\<close>

datatype Exn = Error string

record TakeoffPerformanceInputs =
  tow :: real
  forwardCg :: bool
  cg :: "real option"
  conf :: int
  tora :: real
  slope :: real
  lineupAngle :: LineupAngle
  wind :: real
  elevation :: real
  qnh :: real
  oat :: real
  antiIce :: TakeoffAntiIceSetting
  packs :: bool
  forceToga :: bool
  runwayCondition :: RunwayCondition

record TakeoffPerformanceParameters =
  adjustedTora :: real
  pressureAlt :: real
  isaTemp :: real
  tRef :: real
  tMax :: real
  tFlexMax :: real
  headwind :: real
  flexLimitingFactor :: "LimitingFactor option"

text \<open>
  The members of a result that can hold not-a-number have the type parameter \<open>'n\<close>: it is
  \<open>jsnum\<close> in the objects the calculator works on (\<open>LimitWeight\<close>, \<open>Limits\<close>,
  \<open>TakeoffPerformanceResult\<close>), and number-or-null in a copy that went through JSON (see
  \<open>deepCopy\<close>).
\<close>

record 'n LimitWeightOf =
  baseLimit :: 'n
  deltaSlope :: real
  slopeLimit :: 'n
  deltaAlt :: real
  altLimit :: 'n
  oatDeltaTemp :: 'n
  oatDeltaWind :: 'n
  oatLimitNoBleed :: 'n
  oatLimit :: 'n
  tRefDeltaTemp :: 'n
  tRefDeltaWind :: 'n
  tRefLimitNoBleed :: 'n
  tRefLimit :: 'n
  tMaxDeltaTemp :: 'n
  tMaxDeltaWind :: 'n
  tMaxLimitNoBleed :: 'n
  tMaxLimit :: 'n
  tFlexMaxDeltaTemp :: 'n
  tFlexMaxDeltaWind :: 'n
  tFlexMaxLimitNoBleed :: 'n
  tFlexMaxLimit :: 'n

type_synonym LimitWeight = "jsnum LimitWeightOf"

text \<open>\<^verbatim>\<open>result.limits\<close>: one breakdown per limiting factor; \<open>limitsFor ls f\<close> is
  \<^verbatim>\<open>limits[f]\<close>.\<close>

record 'n LimitsOf =
  ofRunway :: "'n LimitWeightOf"
  ofSecondSegment :: "'n LimitWeightOf"
  ofBrakeEnergy :: "'n LimitWeightOf"
  ofVmcg :: "'n LimitWeightOf"

type_synonym Limits = "jsnum LimitsOf"

fun limitsFor :: "Limits \<Rightarrow> LimitingFactor \<Rightarrow> LimitWeight" where
  "limitsFor ls Runway = ofRunway ls"
| "limitsFor ls SecondSegment = ofSecondSegment ls"
| "limitsFor ls BrakeEnergy = ofBrakeEnergy ls"
| "limitsFor ls Vmcg = ofVmcg ls"

text \<open>Of the intermediate speeds only the reconciled dry speeds are read back by the
  calculator; the other members are a trace of the regression terms and are left out.\<close>

record TakeoffPerformanceSpeeds =
  dryV1 :: real
  dryVR :: real
  dryV2 :: real

text \<open>The result object is filled in stage by stage; a member not yet assigned is
  \<open>None\<close>. \<open>inputs\<close>, \<open>params\<close> and \<open>error\<close> are assigned before anything reads the
  object.\<close>

record 'n TakeoffPerformanceResultOf =
  inputs :: TakeoffPerformanceInputs
  params :: TakeoffPerformanceParameters
  error :: TakeoffPerfomanceError
  limits :: "'n LimitsOf option"
  oatLimitingFactor :: "LimitingFactor option"
  tRefLimitingFactor :: "LimitingFactor option"
  tMaxLimitingFactor :: "LimitingFactor option"
  tFlexMaxLimitingFactor :: "LimitingFactor option"
  tvmcg :: "real option"
  mtow :: "'n option"
  flex :: "real option"
  v1 :: "real option"
  vR :: "real option"
  v2 :: "real option"
  intermediateSpeeds :: "TakeoffPerformanceSpeeds option"
  stabTrim :: "real option"

type_synonym TakeoffPerformanceResult = "jsnum TakeoffPerformanceResultOf"

fun lineUpDistances :: "LineupAngle \<Rightarrow> real" where
  "lineUpDistances Lineup0 = 0"
| "lineUpDistances Lineup90 = 20.5"
| "lineUpDistances Lineup180 = 41"

section \<open>Input validation\<close>

fun getCrosswindLimit :: "RunwayCondition \<Rightarrow> real \<Rightarrow> real" where
  "getCrosswindLimit Dry t = 35"
| "getCrosswindLimit Wet t = 35"
| "getCrosswindLimit ContaminatedCompactedSnow t = (if t \<le> -15 then 29 else 25)"
| "getCrosswindLimit Contaminated10mmDrySnow t = 25"
| "getCrosswindLimit Contaminated100mmDrySnow t = 25"
| "getCrosswindLimit Contaminated5mmWetSnow t = 25"
| "getCrosswindLimit Contaminated15mmWetSnow t = 25"
| "getCrosswindLimit Contaminated30mmWetSnow t = 25"
| "getCrosswindLimit Contaminated6mmWater t = 20"
| "getCrosswindLimit Contaminated13mmWater t = 20"
| "getCrosswindLimit Contaminated6mmSlush t = 20"
| "getCrosswindLimit Contaminated13mmSlush t = 20"

definition checkInputs ::
  "TakeoffPerformanceInputs \<Rightarrow> TakeoffPerformanceParameters \<Rightarrow> TakeoffPerfomanceError" where
  "checkInputs i p =
     (if conf i \<noteq> 1 \<and> conf i \<noteq> 2 \<and> conf i \<noteq> 3 then InvalidData
      else if tow i > structuralMtow then StructuralMtow
      else if pressureAlt p > maxPressureAlt then MaximumPressureAlt
      else if oat i > tMax p then MaximumTemperature
      else if tow i < oew then OperatingEmptyWeight
      else if (case cg i of None \<Rightarrow> False | Some g \<Rightarrow> \<not> isCgWithinLimits g (tow i)) then CgOutOfLimits
      else if wind i < - maxTailwind then MaximumTailwind
      else if \<bar>slope i\<bar> > 2 then MaximumRunwaySlope
      else ErrorNone)"

definition isContaminated :: "RunwayCondition \<Rightarrow> bool" where
  "isContaminated rc = (rc \<noteq> Dry \<and> rc \<noteq> Wet)"

section \<open>Weight limits\<close>

fun slopeFactors :: "LimitingFactor \<Rightarrow> int \<Rightarrow> real" where
  "slopeFactors Runway = runwaySlopeFactor"
| "slopeFactors SecondSegment = secondSegmentSlopeFactor"
| "slopeFactors BrakeEnergy = brakeEnergySlopeFactor"
| "slopeFactors Vmcg = vmcgSlopeFactor"

fun altFactors :: "LimitingFactor \<Rightarrow> int \<Rightarrow> real list" where
  "altFactors Runway = runwayPressureAltFactor"
| "altFactors SecondSegment = secondSegmentPressureAltFactor"
| "altFactors BrakeEnergy = brakeEnergyPressureAltFactor"
| "altFactors Vmcg = vmcgPressureAltFactor"

fun tempDeltaFunc ::
  "LimitingFactor \<Rightarrow> real \<Rightarrow> int \<Rightarrow> real \<Rightarrow> real \<Rightarrow> real \<Rightarrow> real \<Rightarrow> real \<Rightarrow> real \<Rightarrow> jsnum" where
  "tempDeltaFunc Runway = calculateRunwayTempDelta"
| "tempDeltaFunc SecondSegment = calculateSecondSegmentTempDelta"
| "tempDeltaFunc BrakeEnergy = calculateBrakeEnergyTempDelta"
| "tempDeltaFunc Vmcg = calculateVmcgTempDelta"

fun windDeltaFunc ::
  "LimitingFactor \<Rightarrow> real \<Rightarrow> int \<Rightarrow> real \<Rightarrow> real \<Rightarrow> real \<Rightarrow> real \<Rightarrow> real \<Rightarrow> real \<Rightarrow> jsnum" where
  "windDeltaFunc Runway = calculateRunwayWindDelta"
| "windDeltaFunc SecondSegment = calculateSecondSegmentWindDelta"
| "windDeltaFunc BrakeEnergy = calculateBrakeEnergyWindDelta"
| "windDeltaFunc Vmcg = calculateVmcgWindDelta"

definition calculateWeightLimits :: "LimitingFactor \<Rightarrow> TakeoffPerformanceResult \<Rightarrow> LimitWeight" where
  "calculateWeightLimits limitingFactor r =
     (let i = inputs r; p = params r;
          baseLimit' = (case limitingFactor of
              Runway \<Rightarrow> calculateBaseRunwayPerfLimit (adjustedTora p) (conf i)
            | SecondSegment \<Rightarrow> Num (calculateBaseLimit (adjustedTora p) (conf i) secondSegmentBaseFactor)
            | BrakeEnergy \<Rightarrow> Num (calculateBaseLimit (adjustedTora p) (conf i) brakeEnergyBaseFactor)
            | Vmcg \<Rightarrow> Num (calculateBaseLimit (adjustedTora p) (conf i) vmcgBaseFactor));
          deltaSlope' = 1000 * slopeFactors limitingFactor (conf i) * adjustedTora p * slope i;
          slopeLimit' = jsub baseLimit' (Num deltaSlope');
          altFactor1 = altFactors limitingFactor (conf i) ! 0;
          altFactor2 = altFactors limitingFactor (conf i) ! 1;
          deltaAlt' = 1000 * pressureAlt p * (pressureAlt p * altFactor1 + altFactor2);
          altLimit' = jsub slopeLimit' (Num deltaAlt');
          deltaBleed = (if antiIce i = EngineWing then 1600 else 0) + (if packs i then 1500 else 0);
          oatDeltaTemp' = tempDeltaFunc limitingFactor (oat i) (conf i) (tRef p) (tMax p) (tFlexMax p)
                            (adjustedTora p) (pressureAlt p) (isaTemp p);
          oatDeltaWind' = windDeltaFunc limitingFactor (oat i) (conf i) (isaTemp p) (tRef p) (tMax p) (tFlexMax p)
                            (adjustedTora p) (headwind p);
          oatLimitNoBleed' = jsub (jsub altLimit' oatDeltaTemp') oatDeltaWind';
          tRefDeltaTemp' = tempDeltaFunc limitingFactor (tRef p) (conf i) (tRef p) (tMax p) (tFlexMax p)
                            (adjustedTora p) (pressureAlt p) (isaTemp p);
          tRefDeltaWind' = windDeltaFunc limitingFactor (tRef p) (conf i) (isaTemp p) (tRef p) (tMax p) (tFlexMax p)
                            (adjustedTora p) (headwind p);
          tRefLimitNoBleed' = jsub (jsub altLimit' tRefDeltaTemp') tRefDeltaWind';
          tMaxDeltaTemp' = tempDeltaFunc limitingFactor (tMax p) (conf i) (tRef p) (tMax p) (tFlexMax p)
                            (adjustedTora p) (pressureAlt p) (isaTemp p);
          tMaxDeltaWind' = windDeltaFunc limitingFactor (tMax p) (conf i) (isaTemp p) (tRef p) (tMax p) (tFlexMax p)
                            (adjustedTora p) (headwind p);
          tMaxLimitNoBleed' = jsub (jsub altLimit' tMaxDeltaTemp') tMaxDeltaWind';
          tFlexMaxDeltaTemp' = tempDeltaFunc limitingFactor (tFlexMax p) (conf i) (tRef p) (tMax p) (tFlexMax p)
                            (adjustedTora p) (pressureAlt p) (isaTemp p);
          tFlexMaxDeltaWind' = windDeltaFunc limitingFactor (tFlexMax p) (conf i) (isaTemp p) (tRef p) (tMax p) (tFlexMax p)
                            (adjustedTora p) (headwind p);
          tFlexMaxLimitNoBleed' = jsub (jsub altLimit' tFlexMaxDeltaTemp') tFlexMaxDeltaWind'
      in \<lparr> baseLimit = baseLimit', deltaSlope = deltaSlope', slopeLimit = slopeLimit',
           deltaAlt = deltaAlt', altLimit = altLimit',
           oatDeltaTemp = oatDeltaTemp', oatDeltaWind = oatDeltaWind',
           oatLimitNoBleed = oatLimitNoBleed', oatLimit = jsub oatLimitNoBleed' (Num deltaBleed),
           tRefDeltaTemp = tRefDeltaTemp', tRefDeltaWind = tRefDeltaWind',
           tRefLimitNoBleed = tRefLimitNoBleed', tRefLimit = jsub tRefLimitNoBleed' (Num deltaBleed),
           tMaxDeltaTemp = tMaxDeltaTemp', tMaxDeltaWind = tMaxDeltaWind',
           tMaxLimitNoBleed = tMaxLimitNoBleed', tMaxLimit = jsub tMaxLimitNoBleed' (Num deltaBleed),
           tFlexMaxDeltaTemp = tFlexMaxDeltaTemp', tFlexMaxDeltaWind = tFlexMaxDeltaWind',
           tFlexMaxLimitNoBleed = tFlexMaxLimitNoBleed',
           tFlexMaxLimit = jsub tFlexMaxLimitNoBleed' (Num deltaBleed) \<rparr>)"

section \<open>Limiting factor\<close>

text \<open>
  \<^verbatim>\<open>Object.values(LimitingFactor)\<close>, in declaration order. The running minimum starts at
  \<^verbatim>\<open>Infinity\<close>, here \<open>None\<close>; a ceiling replaces it when it is strictly smaller, which a
  not-a-number never is. \<open>temp\<close> is the member of the breakdown that is compared.
\<close>

definition limitingFactorValues :: "LimitingFactor list" where
  "limitingFactorValues = [Runway, SecondSegment, BrakeEnergy, Vmcg]"

fun belowLimitingWeight :: "jsnum \<Rightarrow> real option \<Rightarrow> bool" where
  "belowLimitingWeight NaN _ = False"
| "belowLimitingWeight (Num a) None = True"
| "belowLimitingWeight (Num a) (Some b) = (a < b)"

fun limitingFactorLoop ::
  "(LimitWeight \<Rightarrow> jsnum) \<Rightarrow> Limits \<Rightarrow> LimitingFactor list \<Rightarrow> real option \<times> LimitingFactor
     \<Rightarrow> real option \<times> LimitingFactor" where
  "limitingFactorLoop temp ls [] acc = acc"
| "limitingFactorLoop temp ls (factor # rest) (limitingWeight, limitingFactor) =
     (let weights = limitsFor ls factor
      in if belowLimitingWeight (temp weights) limitingWeight
         then limitingFactorLoop temp ls rest
                ((case temp weights of Num a \<Rightarrow> Some a | NaN \<Rightarrow> limitingWeight), factor)
         else limitingFactorLoop temp ls rest (limitingWeight, limitingFactor))"

definition getLimitingFactor ::
  "(LimitWeight \<Rightarrow> jsnum) \<Rightarrow> TakeoffPerformanceResult \<Rightarrow> Exn + LimitingFactor" where
  "getLimitingFactor temp r =
     (case limits r of
        None \<Rightarrow> Inl (Error ''Invalid result object!'')
      | Some ls \<Rightarrow> Inr (snd (limitingFactorLoop temp ls limitingFactorValues (None, Runway))))"

section \<open>Wet runway\<close>

definition calculateTvmcg :: "TakeoffPerformanceInputs \<Rightarrow> TakeoffPerformanceParameters \<Rightarrow> real" where
  "calculateTvmcg i p =
     (let factors = LerpVectorLookupTable_get (tvmcgFactors (conf i)) (max (headwind p) (-15))
      in factors ! 0 * (adjustedTora p - pressureAlt p / 10) + factors ! 1)"

text \<open>The wet adjustments of the weight, of the flex temperature and of the speeds all
  have the form \<^verbatim>\<open>Math.min(0, f[0] * lengthAltCoef + f[1], f[2] * lengthAltCoef + f[3])\<close>.\<close>

definition wetAdjustment :: "real list \<Rightarrow> real \<Rightarrow> real" where
  "wetAdjustment factors lengthAltCoef =
     min 0 (min (factors ! 0 * lengthAltCoef + factors ! 1) (factors ! 2 * lengthAltCoef + factors ! 3))"

section \<open>Flex temperature\<close>

definition calculateFlexTow ::
  "TakeoffPerformanceResult \<Rightarrow> LimitingFactor \<Rightarrow> LimitWeight \<Rightarrow> real \<Rightarrow> jsnum" where
  "calculateFlexTow r limitingFactor limitingWeights temperature =
     (let i = inputs r; p = params r
      in jsub (jsub (altLimit limitingWeights)
           (tempDeltaFunc limitingFactor temperature (conf i) (tRef p) (tMax p) (tFlexMax p)
              (adjustedTora p) (pressureAlt p) (isaTemp p)))
           (windDeltaFunc limitingFactor temperature (conf i) (isaTemp p) (tRef p) (tMax p) (tFlexMax p)
              (adjustedTora p) (headwind p)))"

text \<open>The scan \<^verbatim>\<open>for (let t = iterFrom; t <= iterTo; t++)\<close>; the accumulator is the pair
  \<^verbatim>\<open>flexTemp\<close>, \<^verbatim>\<open>flexLimitingFactor\<close>, which the loop assigns together.\<close>

function flexLoop ::
  "TakeoffPerformanceResult \<Rightarrow> LimitingFactor \<Rightarrow> LimitWeight \<Rightarrow> LimitingFactor \<Rightarrow> LimitWeight
     \<Rightarrow> real \<Rightarrow> real \<Rightarrow> (real \<times> LimitingFactor) option \<Rightarrow> (real \<times> LimitingFactor) option" where
  "flexLoop r fromLimitingFactor fromLimitingWeights toLimitingFactor toLimitingWeights t iterTo acc =
     (if t \<le> iterTo then
        (let fromLimitTow = calculateFlexTow r fromLimitingFactor fromLimitingWeights t;
             toLimitTow = calculateFlexTow r toLimitingFactor toLimitingWeights t
         in flexLoop r fromLimitingFactor fromLimitingWeights toLimitingFactor toLimitingWeights (t + 1) iterTo
              (if jle (Num (tow (inputs r))) (jmin fromLimitTow toLimitTow)
               then Some (t, if jle fromLimitTow toLimitTow then fromLimitingFactor else toLimitingFactor)
               else acc))
      else acc)"
  by pat_completeness auto
termination
  by (relation "measure (\<lambda>(r, ff, fw, tf, tw, t, iterTo, acc). nat (\<lfloor>iterTo - t\<rfloor> + 1))") (auto, linarith)

declare flexLoop.simps [simp del]

definition calculateFlexTemp ::
  "TakeoffPerformanceResult \<Rightarrow> real \<Rightarrow> Exn + (real option \<times> LimitingFactor option)" where
  "calculateFlexTemp r tvmcgValue =
     (case (limits r, tRefLimitingFactor r, tMaxLimitingFactor r, tFlexMaxLimitingFactor r) of
        (Some ls, Some tRefLF, Some tMaxLF, Some tFlexMaxLF) \<Rightarrow>
          Inr (let i = inputs r; p = params r in
            if jlt (Num (tow i)) (tRefLimit (limitsFor ls tRefLF)) then
              (let (iterFrom, iterTo, fromLimitingFactor, fromLimitingWeights, toLimitingFactor, toLimitingWeights) =
                 (if jgt (Num (tow i)) (tMaxLimitNoBleed (limitsFor ls tMaxLF))
                  then (tRef p, tMax p, tRefLF, limitsFor ls tRefLF, tMaxLF, limitsFor ls tMaxLF)
                  else if jgt (Num (tow i)) (tFlexMaxLimitNoBleed (limitsFor ls tFlexMaxLF))
                  then (tMax p, tFlexMax p, tMaxLF, limitsFor ls tMaxLF, tFlexMaxLF, limitsFor ls tFlexMaxLF)
                  else (tFlexMax p, tFlexMax p + 8, tFlexMaxLF, limitsFor ls tFlexMaxLF,
                        tFlexMaxLF, limitsFor ls tFlexMaxLF))
               in case flexLoop r fromLimitingFactor fromLimitingWeights toLimitingFactor toLimitingWeights
                         iterFrom iterTo None of
                    None \<Rightarrow> (None, None)
                  | Some (flexTemp, flexLF) \<Rightarrow>
                      (let flexTemp = (if antiIce i = Engine then flexTemp - 2
                                       else if antiIce i = EngineWing then flexTemp - 6 else flexTemp);
                           flexTemp = (if packs i then flexTemp - 2 else flexTemp);
                           flexTemp = min flexTemp (tFlexMax p);
                           flexTemp = Math_trunc flexTemp;
                           flexTemp = (if runwayCondition i = Wet then
                              (let factors = LerpVectorLookupTable_getInto vec4Cache
                                     ((if oat i > tvmcgValue then wetFlexAdjustmentFactorsAboveTvmcg
                                       else wetFlexAdjustmentFactorsAtOrBelowTvmcg) (conf i)) (headwind p);
                                   lengthAltCoef = adjustedTora p - pressureAlt p / 20
                               in flexTemp - wetAdjustment factors lengthAltCoef)
                              else flexTemp)
                       in if flexTemp > oat i then (Some flexTemp, Some flexLF) else (None, None)))
            else (None, None))
      | _ \<Rightarrow> Inl (Error ''Invalid result object!''))"

section \<open>Speed reconciliation\<close>

text \<open>\<open>reconcileVSpeeds\<close> may assign \<^verbatim>\<open>result.error\<close>; it answers the updated result
  together with the three corrected speeds.\<close>

definition reconcileVSpeeds ::
  "TakeoffPerformanceResult \<Rightarrow> real \<Rightarrow> real \<Rightarrow> real
     \<Rightarrow> TakeoffPerformanceResult \<times> real \<times> real \<times> real" where
  "reconcileVSpeeds r v1In vRIn v2In =
     (let i = inputs r; p = params r;
          minV1Vmc = Math_ceil (LerpLookupTable_get minimumV1Vmc (pressureAlt p));
          minVrVmc = Math_ceil (LerpLookupTable_get minimumVrVmc (pressureAlt p));
          minV2Vmc = Math_ceil (LerpLookupTable_get (minimumV2Vmc (conf i)) (pressureAlt p));
          minv2Vmu = Math_ceil (LerpLookupTable_get2 (minimumV2Vmu (conf i)) (pressureAlt p) (tow i));
          v1Corrected = Math_round (max v1In minV1Vmc);
          vRCorrected = Math_round (max vRIn minVrVmc);
          v2Corrected = Math_round (max v2In (max minV2Vmc minv2Vmu));
          (r, vRCorrected) =
            (if vRCorrected > v2Corrected
             then ((if v2Corrected < minVrVmc then r\<lparr>error := VmcgVmcaLimits\<rparr> else r), v2Corrected)
             else (r, vRCorrected));
          (r, vRCorrected) =
            (if v2Corrected > 195 then
               (let maxVr = Math_trunc (195 - (v2Corrected - 195))
                in if vRCorrected > 195 then (r\<lparr>error := MaximumTireSpeed\<rparr>, vRCorrected)
                   else if vRCorrected > maxVr
                   then ((if maxVr < minVrVmc then r\<lparr>error := VmcgVmcaLimits\<rparr> else r), maxVr)
                   else (r, vRCorrected))
             else (r, vRCorrected));
          (r, v1Corrected) =
            (if v1Corrected > vRCorrected
             then ((if vRCorrected < minV1Vmc then r\<lparr>error := VmcgVmcaLimits\<rparr> else r), vRCorrected)
             else (r, v1Corrected))
      in (r, v1Corrected, vRCorrected, v2Corrected))"

section \<open>Speed regressions\<close>

definition calculateSecondSegBrakeV2 :: "TakeoffPerformanceResult \<Rightarrow> bool \<Rightarrow> bool \<Rightarrow> real" where
  "calculateSecondSegBrakeV2 r correctWind useTable2 =
     (let i = inputs r; p = params r;
          v2Base = (tow i / 1000) * v2SecondSegBrakeBaseTable1 (conf i) ! 0 + v2SecondSegBrakeBaseTable1 (conf i) ! 1;
          v2Base = (if useTable2
            then (tow i / 1000) * v2SecondSegBrakeBaseTable2 (conf i) ! 0 + v2SecondSegBrakeBaseTable2 (conf i) ! 1
            else v2Base);
          runwayT = (if useTable2 then v2SecondSegBrakeRunwayTable2 (conf i) else v2SecondSegBrakeRunwayTable1 (conf i));
          v2DeltaRunway = (runwayT ! 0 - adjustedTora p) * runwayT ! 1;
          altF = v2SecondSegBrakeAltFactors (conf i);
          v2DeltaAlt = pressureAlt p * ((tow i / 1000) * altF ! 0 + altF ! 1) * (adjustedTora p * altF ! 2 + altF ! 3);
          slopeF = v2SecondSegBrakeSlopeFactors (conf i);
          v2DeltaSlope = slope i * adjustedTora p * ((tow i / 1000) * slopeF ! 0 + slopeF ! 1);
          v2DeltaWind = (if correctWind
            then headwind p * (if headwind p \<ge> 0 then v2SecondSegBrakeHeadwindFactors (conf i)
                               else v2SecondSegBrakeTailwindFactors (conf i))
            else 0)
      in v2Base + v2DeltaRunway + v2DeltaAlt + v2DeltaSlope + v2DeltaWind)"

definition calculateSecondSegBrakeV1 :: "TakeoffPerformanceResult \<Rightarrow> bool \<Rightarrow> real" where
  "calculateSecondSegBrakeV1 r useTable2 =
     (let i = inputs r; p = params r;
          baseT = (if useTable2 then v1SecondSegBrakeBaseTable2 (conf i) else v1SecondSegBrakeBaseTable1 (conf i));
          v1Base = (tow i / 1000) * baseT ! 0 + baseT ! 1;
          runwayT = (if useTable2 then v1SecondSegBrakeRunwayTable2 (conf i) else v1SecondSegBrakeRunwayTable1 (conf i));
          v1DeltaRunway = (runwayT ! 0 - adjustedTora p) * ((tow i / 1000) * runwayT ! 1 + runwayT ! 2);
          altT = (if useTable2 then v1SecondSegBrakeAltTable2 (conf i) else v1SecondSegBrakeAltTable1 (conf i));
          v1DeltaAlt = pressureAlt p * ((tow i / 1000) * altT ! 0 + altT ! 1) * (adjustedTora p * altT ! 2 + altT ! 3);
          slopeF = v1SecondSegBrakeSlopeFactors (conf i);
          v1DeltaSlope = slope i * adjustedTora p * ((tow i / 1000) * slopeF ! 0 + slopeF ! 1);
          windF = (if headwind p \<ge> 0 then v1SecondSegBrakeHeadwindFactors (conf i)
                   else v1SecondSegBrakeTailwindFactors (conf i));
          v1DeltaWind = headwind p * ((tow i / 1000) * windF ! 0 + windF ! 1)
      in v1Base + v1DeltaRunway + v1DeltaAlt + v1DeltaSlope + v1DeltaWind)"

text \<open>\<open>calculateDryVSpeeds\<close> in two parts: the regressions, which give the three speeds
  before reconciliation, and the reconciliation, which stores the dry speeds.\<close>

definition dryRegressionSpeeds :: "TakeoffPerformanceResult \<Rightarrow> bool \<Rightarrow> real \<times> real \<times> real" where
  "dryRegressionSpeeds r applyForwardCgSpeedCorrection =
     (let i = inputs r; p = params r;
          limitingFactor = (case flexLimitingFactor p of Some f \<Rightarrow> Some f | None \<Rightarrow> oatLimitingFactor r)
      in
            (if limitingFactor = Some Runway \<or> limitingFactor = Some Vmcg then
               (let v2Base = (tow i / 1000) * v2RunwayVmcgBaseFactors (conf i) ! 0 + v2RunwayVmcgBaseFactors (conf i) ! 1;
                    v2DeltaAlt = ((tow i / 1000) * v2RunwayVmcgAltFactors (conf i) ! 0 + v2RunwayVmcgAltFactors (conf i) ! 1)
                                  * pressureAlt p;
                    v2S = v2Base + v2DeltaAlt;
                    vRBase = (tow i / 1000) * vRRunwayVmcgBaseFactors (conf i) ! 0 + vRRunwayVmcgBaseFactors (conf i) ! 1;
                    vRRun = vRRunwayVmcgRunwayFactors (conf i);
                    vRDeltaRunway = (vRRun ! 0 - adjustedTora p) * ((tow i / 1000) * vRRun ! 1 + vRRun ! 2);
                    vRDeltaAlt = pressureAlt p
                                  * ((tow i / 1000) * vRRunwayVmcgAltFactors (conf i) ! 0 + vRRunwayVmcgAltFactors (conf i) ! 1);
                    vRDeltaSlope = slope i * adjustedTora p * vRRunwayVmcgSlopeFactors (conf i);
                    vRWind = (if headwind p \<ge> 0 then vRRunwayVmcgHeadwindFactors (conf i)
                              else vRRunwayVmcgTailwindFactors (conf i));
                    vRDeltaWind = headwind p * ((tow i / 1000) * vRWind ! 0 + vRWind ! 1);
                    vRS = vRBase + vRDeltaRunway + vRDeltaAlt + vRDeltaSlope + vRDeltaWind
                          + (if applyForwardCgSpeedCorrection then -1 else 0);
                    v1Base = (tow i / 1000) * v1RunwayVmcgBaseFactors (conf i) ! 0 + v1RunwayVmcgBaseFactors (conf i) ! 1;
                    v1Run = v1RunwayVmcgRunwayFactors (conf i);
                    v1DeltaRunway = (v1Run ! 0 - adjustedTora p) * ((tow i / 1000) * v1Run ! 1 + v1Run ! 2);
                    v1DeltaAlt = pressureAlt p
                                  * ((tow i / 1000) * v1RunwayVmcgAltFactors (conf i) ! 0 + v1RunwayVmcgAltFactors (conf i) ! 1);
                    v1DeltaSlope = slope i * adjustedTora p * v1RunwayVmcgSlopeFactors (conf i);
                    v1Wind = (if headwind p \<ge> 0 then v1RunwayVmcgHeadwindFactors (conf i)
                              else v1RunwayVmcgTailwindFactors (conf i));
                    v1DeltaWind = headwind p * ((tow i / 1000) * v1Wind ! 0 + v1Wind ! 1);
                    v1S = v1Base + v1DeltaRunway + v1DeltaAlt + v1DeltaSlope + v1DeltaWind
                in (v1S, vRS, v2S))
             else
               (let v2NoWind = calculateSecondSegBrakeV2 r False False;
                    v2Table2Threshold = adjustedTora p * v2SecondSegBrakeThresholds (conf i) ! 0
                                          + v2SecondSegBrakeThresholds (conf i) ! 1;
                    useTable2 = (v2NoWind \<ge> v2Table2Threshold);
                    v2S = calculateSecondSegBrakeV2 r True useTable2;
                    vRBaseT = (if useTable2 then vRSecondSegBrakeBaseTable2 (conf i) else vRSecondSegBrakeBaseTable1 (conf i));
                    vRBase = (tow i / 1000) * vRBaseT ! 0 + vRBaseT ! 1;
                    vRRun = (if useTable2 then vRSecondSegBrakeRunwayTable2 (conf i)
                             else vRSecondSegBrakeRunwayTable1 (conf i));
                    vRDeltaRunway = (vRRun ! 0 - adjustedTora p) * ((tow i / 1000) * vRRun ! 1 + vRRun ! 2);
                    vRAlt = (if useTable2 then vRSecondSegBrakeAltTable2 (conf i) else vRSecondSegBrakeAltTable1 (conf i));
                    vRDeltaAlt = pressureAlt p * ((tow i / 1000) * vRAlt ! 0 + vRAlt ! 1)
                                  * (adjustedTora p * vRAlt ! 2 + vRAlt ! 3);
                    vRSlope = vRSecondSegBrakeSlopeFactors (conf i);
                    vRDeltaSlope = slope i * adjustedTora p * ((tow i / 1000) * vRSlope ! 0 + vRSlope ! 1);
                    vRWind = (if headwind p \<ge> 0 then vRSecondSegBrakeHeadwindFactors (conf i)
                              else vRSecondSegBrakeTailwindFactors (conf i));
                    vRDeltaWind = headwind p * ((tow i / 1000) * vRWind ! 0 + vRWind ! 1);
                    vRS = vRBase + vRDeltaRunway + vRDeltaAlt + vRDeltaSlope + vRDeltaWind;
                    v1S = calculateSecondSegBrakeV1 r useTable2;
                    v1S = (if useTable2 \<and> v2S - v1S > 8 then calculateSecondSegBrakeV1 r False else v1S)
                in (v1S, vRS, v2S))))"

definition calculateDryVSpeeds :: "TakeoffPerformanceResult \<Rightarrow> bool \<Rightarrow> TakeoffPerformanceResult" where
  "calculateDryVSpeeds r applyForwardCgSpeedCorrection =
     (let (v1S, vRS, v2S) = dryRegressionSpeeds r applyForwardCgSpeedCorrection;
          (r, a, b, c) = reconcileVSpeeds r v1S vRS v2S
      in r\<lparr>intermediateSpeeds := Some \<lparr>dryV1 = a, dryVR = b, dryV2 = c\<rparr>\<rparr>)"

text \<open>
  On a wet runway the three factor vectors are looked up into the one shared buffer
  \<^verbatim>\<open>vec4Cache\<close>, which every lookup writes into and returns: \<^verbatim>\<open>v1Factors\<close>,
  \<^verbatim>\<open>vRFactors\<close> and \<^verbatim>\<open>v2Factors\<close> are the same array, and the adjustments are
  computed after the last lookup. The model threads the buffer, \<open>cache\<close>, through the
  lookups.
\<close>

text \<open>The speed table of a contaminated runway, as the \<^verbatim>\<open>switch\<close> of
  \<^verbatim>\<open>calculateVSpeeds\<close> selects it; a condition without a \<^verbatim>\<open>case\<close> reaches the
  \<^verbatim>\<open>default\<close>, which throws.\<close>

fun contamVSpeeds :: "RunwayCondition \<Rightarrow> (int \<Rightarrow> (real list \<times> real) list) option" where
  "contamVSpeeds Contaminated6mmWater = Some vSpeedsContaminated6mmWater"
| "contamVSpeeds Contaminated13mmWater = Some vSpeedsContaminated13mmWater"
| "contamVSpeeds Contaminated6mmSlush = Some vSpeedsContaminated6mmSlush"
| "contamVSpeeds Contaminated13mmSlush = Some vSpeedsContaminated13mmSlush"
| "contamVSpeeds ContaminatedCompactedSnow = Some vSpeedsContaminatedCompactedSnow"
| "contamVSpeeds Contaminated5mmWetSnow = Some vSpeedsContaminated5mmWetSnow"
| "contamVSpeeds Contaminated15mmWetSnow = Some vSpeedsContaminated15mmWetSnow"
| "contamVSpeeds Contaminated10mmDrySnow = Some vSpeedsContaminated10mmDrySnow"
| "contamVSpeeds Contaminated100mmDrySnow = Some vSpeedsContaminated100mmDrySnow"
| "contamVSpeeds _ = None"

definition calculateVSpeeds ::
  "TakeoffPerformanceResult \<Rightarrow> bool \<Rightarrow> real \<Rightarrow> Exn + TakeoffPerformanceResult" where
  "calculateVSpeeds r applyForwardCgSpeedCorrection tvmcgValue =
     (if runwayCondition (inputs r) = Dry \<or> runwayCondition (inputs r) = Wet then
        (let r = calculateDryVSpeeds r applyForwardCgSpeedCorrection; i = inputs r; p = params r
         in if runwayCondition i = Dry then
              Inr (r\<lparr>v1 := map_option dryV1 (intermediateSpeeds r),
                     vR := map_option dryVR (intermediateSpeeds r),
                     v2 := map_option dryV2 (intermediateSpeeds r)\<rparr>)
            else
              (case intermediateSpeeds r of
                 None \<Rightarrow> Inl (Error ''No dry speeds!'')
               | Some speeds \<Rightarrow>
                   (let above = (oat i > tvmcgValue);
                        lengthAltCoef = adjustedTora p - pressureAlt p / 20;
                        cache = LerpVectorLookupTable_getInto vec4Cache
                          ((if above then wetV1AdjustmentFactorsAboveTvmcg
                            else wetV1AdjustmentFactorsAtOrBelowTvmcg) (conf i)) (headwind p);
                        cache = (if above then cache
                          else LerpVectorLookupTable_getInto cache
                                 (wetVRAdjustmentFactorsAtOrBelowTvmcg (conf i)) (headwind p));
                        cache = (if above then cache
                          else LerpVectorLookupTable_getInto cache
                                 (wetV2AdjustmentFactorsAtOrBelowTvmcg (conf i)) (headwind p));
                        wetV1Adjustment = wetAdjustment cache lengthAltCoef;
                        wetVRAdjustment = (if above then 0 else wetAdjustment cache lengthAltCoef);
                        wetV2Adjustment = (if above then 0 else wetAdjustment cache lengthAltCoef);
                        (r, a, b, c) = reconcileVSpeeds r (dryV1 speeds - wetV1Adjustment)
                                          (dryVR speeds - wetVRAdjustment) (dryV2 speeds - wetV2Adjustment)
                    in Inr (r\<lparr>v1 := Some a, vR := Some b, v2 := Some c\<rparr>))))
      else
        (case contamVSpeeds (runwayCondition (inputs r)) of
           None \<Rightarrow> Inl (Error ''Invalid runway condition'')
         | Some speedTable \<Rightarrow>
             (let speeds = LerpVectorLookupTable_get (speedTable (conf (inputs r))) (tow (inputs r));
                  (r, a, b, c) = reconcileVSpeeds r (speeds ! 0) (speeds ! 1) (speeds ! 2)
              in Inr (r\<lparr>v1 := Some a, vR := Some b, v2 := Some c\<rparr>))))"

section \<open>The calculation\<close>

text \<open>The first statements of \<open>calculateTakeoffPerformance\<close>: the inputs, the derived
  parameters and the verdict of the validator.\<close>

definition initialResult :: "TakeoffPerformanceInputs \<Rightarrow> TakeoffPerformanceResult" where
  "initialResult i =
     (let isaT = calculateIsaTemp (elevation i);
          pAlt = calculatePressureAltitude (elevation i) (qnh i);
          p = \<lparr> adjustedTora = tora i - lineUpDistances (lineupAngle i),
                pressureAlt = pAlt,
                isaTemp = isaT,
                tRef = calculateTref (elevation i),
                tMax = calculateTmax pAlt,
                tFlexMax = calculateTflexMax isaT,
                headwind = min maxHeadwind (wind i),
                flexLimitingFactor = None \<rparr>
      in \<lparr> inputs = i, params = p, error = checkInputs i p,
           limits = None, oatLimitingFactor = None, tRefLimitingFactor = None,
           tMaxLimitingFactor = None, tFlexMaxLimitingFactor = None, tvmcg = None, mtow = None,
           flex = None, v1 = None, vR = None, v2 = None, intermediateSpeeds = None, stabTrim = None \<rparr>)"

definition assignStabTrim :: "TakeoffPerformanceResult \<Rightarrow> TakeoffPerformanceResult" where
  "assignStabTrim r = r\<lparr>stabTrim := map_option calculateStabTrim (cg (inputs r))\<rparr>"

definition bindE :: "'e + 'a \<Rightarrow> ('a \<Rightarrow> 'e + 'b) \<Rightarrow> 'e + 'b" where
  "bindE m f = (case m of Inl e \<Rightarrow> Inl e | Inr a \<Rightarrow> f a)"

text \<open>The tables of a contaminated runway, as the \<^verbatim>\<open>switch\<close> of
  \<open>calculateTakeoffPerformance\<close> selects them: weight correction, MTOW and minimum
  corrected weight.\<close>

fun contaminatedTables ::
  "RunwayCondition \<Rightarrow> ((int \<Rightarrow> (real \<times> real) list) \<times> (int \<Rightarrow> (real \<times> real) list) \<times> (int \<Rightarrow> real)) option" where
  "contaminatedTables Contaminated6mmWater =
     Some (weightCorrectionContaminated6mmWater, mtowContaminated6mmWater, minCorrectedTowContaminated6mmWater)"
| "contaminatedTables Contaminated13mmWater =
     Some (weightCorrectionContaminated13mmWater, mtowContaminated13mmWater, minCorrectedTowContaminated13mmWater)"
| "contaminatedTables Contaminated6mmSlush =
     Some (weightCorrectionContaminated6mmSlush, mtowContaminated6mmSlush, minCorrectedTowContaminated6mmSlush)"
| "contaminatedTables Contaminated13mmSlush =
     Some (weightCorrectionContaminated13mmSlush, mtowContaminated13mmSlush, minCorrectedTowContaminated13mmSlush)"
| "contaminatedTables ContaminatedCompactedSnow =
     Some (weightCorrectionContaminatedCompactedSnow, mtowContaminatedCompactedSnow,
           minCorrectedTowContaminatedCompactedSnow)"
| "contaminatedTables Contaminated5mmWetSnow =
     Some (weightCorrectionContaminated5mmWetSnow, mtowContaminated5mmWetSnow, minCorrectedTowContaminated5mmWetSnow)"
| "contaminatedTables Contaminated15mmWetSnow =
     Some (weightCorrectionContaminated15mmWetSnow, mtowContaminated15mmWetSnow,
           minCorrectedTowContaminated15mmWetSnow)"
| "contaminatedTables Contaminated30mmWetSnow =
     Some (weightCorrectionContaminated30mmWetSnow, mtowContaminated30mmWetSnow,
           minCorrectedTowContaminated30mmWetSnow)"
| "contaminatedTables Contaminated10mmDrySnow =
     Some (weightCorrectionContaminated10mmDrySnow, mtowContaminated10mmDrySnow,
           minCorrectedTowContaminated10mmDrySnow)"
| "contaminatedTables Contaminated100mmDrySnow =
     Some (weightCorrectionContaminated100mmDrySnow, mtowContaminated100mmDrySnow,
           minCorrectedTowContaminated100mmDrySnow)"
| "contaminatedTables _ = None"

text \<open>
  The MTOW for the runway condition, from the dry MTOW: the value of the local \<^verbatim>\<open>mtow\<close>
  and whether the corrected weight is below the minimum of the contaminated data.
  What the SDK's table answers for a not-a-number key is not part of this repository and is
  left unspecified.
\<close>

definition resolveMtow ::
  "TakeoffPerformanceResult \<Rightarrow> real \<Rightarrow> jsnum \<Rightarrow> Exn + (jsnum \<times> bool)" where
  "resolveMtow r tvmcgValue dryMtow =
     (let i = inputs r; p = params r in
      if runwayCondition i = Dry then Inr (dryMtow, False)
      else if runwayCondition i = Wet then
        (let factors = LerpVectorLookupTable_getInto vec4Cache
               ((if oat i > tvmcgValue then wetTowAdjustmentFactorsAboveTvmcg
                 else wetTowAdjustmentFactorsAtOrBelowTvmcg) (conf i)) (headwind p);
             lengthAltCoef = adjustedTora p - pressureAlt p / 20;
             wetMtowAdjustment = wetAdjustment factors lengthAltCoef
         in Inr (jsub dryMtow (Num wetMtowAdjustment), False))
      else
        (case contaminatedTables (runwayCondition i) of
           None \<Rightarrow> Inl (Error ''Invalid runway condition'')
         | Some (correctionFactors, mtowFactors, minCorrectedWeight) \<Rightarrow>
             (let correctedWeight = jsub dryMtow
                    (Num (LerpLookupTable_get (correctionFactors (conf i)) (adjustedTora p)));
                  m = (case correctedWeight of
                         Num w \<Rightarrow> Num (LerpLookupTable_get (mtowFactors (conf i)) w)
                       | NaN \<Rightarrow> undefined);
                  minimumTow = minCorrectedWeight (conf i)
              in Inr (m, jlt correctedWeight (Num minimumTow)))))"

text \<open>The weight stage: the four breakdowns, the governing factor at each reference
  temperature, T-VMCG and the MTOW. It answers the result, the local \<^verbatim>\<open>mtow\<close> and T-VMCG.\<close>

definition allWeightLimits :: "TakeoffPerformanceResult \<Rightarrow> Limits" where
  "allWeightLimits r0 =
     \<lparr> ofRunway = calculateWeightLimits Runway r0,
       ofSecondSegment = calculateWeightLimits SecondSegment r0,
       ofBrakeEnergy = calculateWeightLimits BrakeEnergy r0,
       ofVmcg = calculateWeightLimits Vmcg r0 \<rparr>"

definition weightStage ::
  "TakeoffPerformanceResult \<Rightarrow> Exn + (TakeoffPerformanceResult \<times> jsnum \<times> real)" where
  "weightStage r0 =
     (let ls = allWeightLimits r0;
          r = r0\<lparr>limits := Some ls\<rparr>
      in bindE (getLimitingFactor oatLimit r) (\<lambda>f1. let r = r\<lparr>oatLimitingFactor := Some f1\<rparr> in
         bindE (getLimitingFactor tRefLimit r) (\<lambda>f2. let r = r\<lparr>tRefLimitingFactor := Some f2\<rparr> in
         bindE (getLimitingFactor tMaxLimit r) (\<lambda>f3. let r = r\<lparr>tMaxLimitingFactor := Some f3\<rparr> in
         bindE (getLimitingFactor tFlexMaxLimit r) (\<lambda>f4. let r = r\<lparr>tFlexMaxLimitingFactor := Some f4\<rparr> in
           (let dryMtow = oatLimit (limitsFor ls f2);
                tv = calculateTvmcg (inputs r) (params r);
                r = r\<lparr>tvmcg := Some tv\<rparr>
            in bindE (resolveMtow r tv dryMtow) (\<lambda>(m, tooLight).
                 Inr ((if tooLight then r\<lparr>error := TooLight\<rparr> else r)\<lparr>mtow := Some m\<rparr>, m, tv))))))))"

function calculateTakeoffPerformance ::
  "TakeoffPerformanceInputs \<Rightarrow> Exn + TakeoffPerformanceResult" where
  "calculateTakeoffPerformance i =
     (let r = initialResult i in
      if error r = ErrorNone then
        (case weightStage r of
           Inl e \<Rightarrow> Inl e
         | Inr (r, m, tv) \<Rightarrow>
             (let applyForwardCgWeightCorrection =
                    (forwardCg i \<and> (oatLimitingFactor r = Some Runway \<or> oatLimitingFactor r = Some Vmcg));
                  applyForwardCgSpeedCorrection = (applyForwardCgWeightCorrection \<and> jle m (Num 473114));
                  m = (if applyForwardCgWeightCorrection
                       then jmap (\<lambda>x. x + max 0 (cgFactors (conf i) ! 0 * x + cgFactors (conf i) ! 1)) m
                       else m)
              in if jge m (Num (tow i)) then
                   (let r = r\<lparr>flex := None\<rparr> in
                    if forceToga i then
                      (case calculateTakeoffPerformance (i\<lparr>wind := -15, forceToga := False\<rparr>) of
                         Inl e \<Rightarrow> Inl e
                       | Inr tailwindResult \<Rightarrow>
                           if error tailwindResult = ErrorNone
                           then Inr (assignStabTrim (r\<lparr>v1 := v1 tailwindResult, vR := vR tailwindResult,
                                   v2 := v2 tailwindResult,
                                   intermediateSpeeds := intermediateSpeeds tailwindResult\<rparr>))
                           else map_sum id assignStabTrim (calculateVSpeeds r applyForwardCgSpeedCorrection tv))
                    else if \<not> isContaminated (runwayCondition (inputs r)) then
                      (case calculateFlexTemp r tv of
                         Inl e \<Rightarrow> Inl e
                       | Inr (fl, flLF) \<Rightarrow>
                           map_sum id assignStabTrim
                             (calculateVSpeeds (r\<lparr>flex := fl, params := (params r)\<lparr>flexLimitingFactor := flLF\<rparr>\<rparr>)
                                applyForwardCgSpeedCorrection tv))
                    else map_sum id assignStabTrim (calculateVSpeeds r applyForwardCgSpeedCorrection tv))
                 else Inr (assignStabTrim (r\<lparr>error := TooHeavy\<rparr>))))
      else Inr (assignStabTrim r))"
  by pat_completeness auto
termination
  by (relation "measure (\<lambda>i. if forceToga i then 1 else 0)") auto

declare calculateTakeoffPerformance.simps [simp del]

section \<open>Optimum configuration\<close>

text \<open>
  \<open>deepCopy\<close> is \<^verbatim>\<open>JSON.parse(JSON.stringify(result))\<close>. The round trip keeps numbers,
  booleans, enumeration values and nested objects, leaves an unset member unset, and
  writes not-a-number as \<^verbatim>\<open>null\<close>: in the copy a member that can hold not-a-number is a
  \<open>real option\<close>, \<open>None\<close> for \<^verbatim>\<open>null\<close>.

  The comparator is the arrow function handed to \<^verbatim>\<open>sort\<close>:
  \<^verbatim>\<open>a.flex === b.flex ? (a.v1 ?? 0) - (b.v1 ?? 0) : (b.flex ?? 0) - (a.flex ?? 0)\<close>.
  \<^verbatim>\<open>Array.prototype.sort\<close> is stable and belongs to the language; it is modelled as the
  stable insertion sort, which every stable sort agrees with when the comparator is a
  consistent ordering.
\<close>

definition jsonNumber :: "jsnum \<Rightarrow> real option" where
  "jsonNumber x = (case x of NaN \<Rightarrow> None | Num a \<Rightarrow> Some a)"

definition copyLimitWeight :: "LimitWeight \<Rightarrow> real option LimitWeightOf" where
  "copyLimitWeight w =
     \<lparr> baseLimit = jsonNumber (baseLimit w), deltaSlope = deltaSlope w,
       slopeLimit = jsonNumber (slopeLimit w), deltaAlt = deltaAlt w,
       altLimit = jsonNumber (altLimit w), oatDeltaTemp = jsonNumber (oatDeltaTemp w),
       oatDeltaWind = jsonNumber (oatDeltaWind w),
       oatLimitNoBleed = jsonNumber (oatLimitNoBleed w),
       oatLimit = jsonNumber (oatLimit w),
       tRefDeltaTemp = jsonNumber (tRefDeltaTemp w),
       tRefDeltaWind = jsonNumber (tRefDeltaWind w),
       tRefLimitNoBleed = jsonNumber (tRefLimitNoBleed w),
       tRefLimit = jsonNumber (tRefLimit w),
       tMaxDeltaTemp = jsonNumber (tMaxDeltaTemp w),
       tMaxDeltaWind = jsonNumber (tMaxDeltaWind w),
       tMaxLimitNoBleed = jsonNumber (tMaxLimitNoBleed w),
       tMaxLimit = jsonNumber (tMaxLimit w),
       tFlexMaxDeltaTemp = jsonNumber (tFlexMaxDeltaTemp w),
       tFlexMaxDeltaWind = jsonNumber (tFlexMaxDeltaWind w),
       tFlexMaxLimitNoBleed = jsonNumber (tFlexMaxLimitNoBleed w),
       tFlexMaxLimit = jsonNumber (tFlexMaxLimit w) \<rparr>"

definition copyLimits :: "Limits \<Rightarrow> real option LimitsOf" where
  "copyLimits ls =
     \<lparr> ofRunway = copyLimitWeight (ofRunway ls), ofSecondSegment = copyLimitWeight (ofSecondSegment ls),
       ofBrakeEnergy = copyLimitWeight (ofBrakeEnergy ls), ofVmcg = copyLimitWeight (ofVmcg ls) \<rparr>"

definition deepCopy :: "TakeoffPerformanceResult \<Rightarrow> real option TakeoffPerformanceResultOf" where
  "deepCopy r =
     \<lparr> inputs = inputs r, params = params r, error = error r,
       limits = map_option copyLimits (limits r),
       oatLimitingFactor = oatLimitingFactor r, tRefLimitingFactor = tRefLimitingFactor r,
       tMaxLimitingFactor = tMaxLimitingFactor r, tFlexMaxLimitingFactor = tFlexMaxLimitingFactor r,
       tvmcg = tvmcg r, mtow = map_option jsonNumber (mtow r),
       flex = flex r, v1 = v1 r, vR = vR r, v2 = v2 r,
       intermediateSpeeds = intermediateSpeeds r, stabTrim = stabTrim r \<rparr>"

definition orZero :: "real option \<Rightarrow> real" where
  "orZero x = (case x of None \<Rightarrow> 0 | Some a \<Rightarrow> a)"

definition compareResults :: "TakeoffPerformanceResult \<Rightarrow> TakeoffPerformanceResult \<Rightarrow> real" where
  "compareResults a b =
     (if flex a = flex b then orZero (v1 a) - orZero (v1 b) else orZero (flex b) - orZero (flex a))"

fun insertSorted :: "('a \<Rightarrow> 'a \<Rightarrow> real) \<Rightarrow> 'a \<Rightarrow> 'a list \<Rightarrow> 'a list" where
  "insertSorted cmp a [] = [a]"
| "insertSorted cmp a (b # bs) = (if cmp a b \<le> 0 then a # b # bs else b # insertSorted cmp a bs)"

fun sortWith :: "('a \<Rightarrow> 'a \<Rightarrow> real) \<Rightarrow> 'a list \<Rightarrow> 'a list" where
  "sortWith cmp [] = []"
| "sortWith cmp (a # as) = insertSorted cmp a (sortWith cmp as)"

text \<open>The configuration is not a parameter of the source function; the \<open>conf\<close> member of the
  argument is overwritten. An exception of one of the three calculations ends the call.\<close>

definition calculateTakeoffPerformanceOptConf ::
  "TakeoffPerformanceInputs \<Rightarrow> Exn + real option TakeoffPerformanceResultOf" where
  "calculateTakeoffPerformanceOptConf i =
     bindE (calculateTakeoffPerformance (i\<lparr>conf := 1\<rparr>)) (\<lambda>r1.
     bindE (calculateTakeoffPerformance (i\<lparr>conf := 2\<rparr>)) (\<lambda>r2.
     bindE (calculateTakeoffPerformance (i\<lparr>conf := 3\<rparr>)) (\<lambda>r3.
       (let results = [r1, r2, r3];
            filteredResults = filter (\<lambda>r. error r = ErrorNone) results
        in if length filteredResults = 0 then Inr (deepCopy (last results))
           else Inr (deepCopy (hd (sortWith compareResults filteredResults)))))))"

section \<open>Speed reconciliation in closed form\<close>

text \<open>The floors of the three speeds, the rotation speed after the tire-speed step, and
  the error code after the three steps of \<open>reconcileVSpeeds\<close>, as functions of the rounded
  speeds \<open>v10\<close>, \<open>vR0\<close> and \<open>c\<close> (V1, VR and V2 after flooring and rounding).\<close>

definition v1Floor :: "TakeoffPerformanceResult \<Rightarrow> real" where
  "v1Floor r = Math_ceil (LerpLookupTable_get minimumV1Vmc (pressureAlt (params r)))"

definition vRFloor :: "TakeoffPerformanceResult \<Rightarrow> real" where
  "vRFloor r = Math_ceil (LerpLookupTable_get minimumVrVmc (pressureAlt (params r)))"

definition v2Floor :: "TakeoffPerformanceResult \<Rightarrow> real" where
  "v2Floor r =
     max (Math_ceil (LerpLookupTable_get (minimumV2Vmc (conf (inputs r))) (pressureAlt (params r))))
         (Math_ceil (LerpLookupTable_get2 (minimumV2Vmu (conf (inputs r))) (pressureAlt (params r)) (tow (inputs r))))"

definition tireClamp :: "real \<Rightarrow> real \<Rightarrow> real" where
  "tireClamp vR0 c =
     (if c > 195 \<and> min vR0 c \<le> 195 \<and> min vR0 c > 195 - (c - 195) then 195 - (c - 195) else min vR0 c)"

definition reconcileError ::
  "real \<Rightarrow> real \<Rightarrow> real \<Rightarrow> real \<Rightarrow> real \<Rightarrow> TakeoffPerfomanceError \<Rightarrow> TakeoffPerfomanceError" where
  "reconcileError m1 mR v10 vR0 c e =
     (let e1 = (if vR0 > c \<and> c < mR then VmcgVmcaLimits else e);
          e2 = (if c > 195 then
                  (if min vR0 c > 195 then MaximumTireSpeed
                   else if min vR0 c > 195 - (c - 195) \<and> 195 - (c - 195) < mR then VmcgVmcaLimits
                   else e1)
                else e1)
      in if v10 > tireClamp vR0 c \<and> tireClamp vR0 c < m1 then VmcgVmcaLimits else e2)"

definition isWhole :: "real \<Rightarrow> bool" where
  "isWhole x = (of_int \<lfloor>x\<rfloor> = x)"

definition speedsOrdered :: "TakeoffPerformanceResult \<Rightarrow> bool" where
  "speedsOrdered r =
     (case (v1 r, vR r, v2 r) of
        (Some a, Some b, Some c) \<Rightarrow> a \<le> b \<and> b \<le> c \<and> isWhole a \<and> isWhole b \<and> isWhole c
      | _ \<Rightarrow> False)"

text \<open>What the speed stage may change in the result: the error code (to one of the two
  codes of the reconciliation), the three speeds, which it always assigns, ordered and
  whole, and the intermediate speeds.\<close>

definition speedUpdate :: "TakeoffPerformanceResult \<Rightarrow> TakeoffPerformanceResult \<Rightarrow> bool" where
  "speedUpdate r r' =
     (\<exists>e a b c s. r' = r\<lparr>error := e, v1 := Some a, vR := Some b, v2 := Some c, intermediateSpeeds := s\<rparr>
        \<and> (e = error r \<or> e = VmcgVmcaLimits \<or> e = MaximumTireSpeed)
        \<and> a \<le> b \<and> b \<le> c \<and> isWhole a \<and> isWhole b \<and> isWhole c)"

text \<open>The weight that \<open>calculateTakeoffPerformance\<close> compares with the takeoff weight: the
  local \<^verbatim>\<open>mtow\<close> after the forward-CG correction.\<close>

definition comparedMtow :: "TakeoffPerformanceInputs \<Rightarrow> LimitingFactor option \<Rightarrow> jsnum \<Rightarrow> jsnum" where
  "comparedMtow i oatLF m =
     (if forwardCg i \<and> (oatLF = Some Runway \<or> oatLF = Some Vmcg)
      then jmap (\<lambda>x. x + max 0 (cgFactors (conf i) ! 0 * x + cgFactors (conf i) ! 1)) m
      else m)"

definition limitingFactorOf :: "(LimitWeight \<Rightarrow> jsnum) \<Rightarrow> Limits \<Rightarrow> LimitingFactor" where
  "limitingFactorOf temp ls = snd (limitingFactorLoop temp ls limitingFactorValues (None, Runway))"

section \<open>Statements of the specification\<close>

text \<open>The error codes that end the calculation before any speed is computed: the eight
  codes of the validator and \<open>TooHeavy\<close>.\<close>

definition endsBeforeSpeeds :: "TakeoffPerfomanceError \<Rightarrow> bool" where
  "endsBeforeSpeeds e =
     (e = InvalidData \<or> e = StructuralMtow \<or> e = MaximumPressureAlt \<or> e = MaximumTemperature
      \<or> e = OperatingEmptyWeight \<or> e = CgOutOfLimits \<or> e = MaximumTailwind
      \<or> e = MaximumRunwaySlope \<or> e = TooHeavy)"

text \<open>A ceiling of the factor that governs at Tref, read from a result; and whether the
  takeoff weight is strictly below that factor's Tref ceiling.\<close>

definition ceilingOfTRefFactor :: "(LimitWeight \<Rightarrow> jsnum) \<Rightarrow> TakeoffPerformanceResult \<Rightarrow> jsnum option" where
  "ceilingOfTRefFactor sel r =
     (case (limits r, tRefLimitingFactor r) of
        (Some ls, Some f) \<Rightarrow> Some (sel (limitsFor ls f))
      | _ \<Rightarrow> None)"

definition belowTRefCeiling :: "TakeoffPerformanceResult \<Rightarrow> bool" where
  "belowTRefCeiling r =
     (case ceilingOfTRefFactor tRefLimit r of
        Some w \<Rightarrow> jlt (Num (tow (inputs r))) w
      | None \<Rightarrow> False)"

text \<open>The local \<^verbatim>\<open>dryMtow\<close> of \<open>calculateTakeoffPerformance\<close> and the local
  \<^verbatim>\<open>wetMtowAdjustment\<close> of its wet branch, as functions of the inputs.\<close>

definition dryMtow :: "TakeoffPerformanceInputs \<Rightarrow> jsnum" where
  "dryMtow i =
     (let ls = allWeightLimits (initialResult i)
      in oatLimit (limitsFor ls (limitingFactorOf tRefLimit ls)))"

definition wetMtowAdjustment :: "TakeoffPerformanceInputs \<Rightarrow> real" where
  "wetMtowAdjustment i =
     (let p = params (initialResult i);
          tvmcgValue = calculateTvmcg i p;
          factors = LerpVectorLookupTable_getInto vec4Cache
            ((if oat i > tvmcgValue then wetTowAdjustmentFactorsAboveTvmcg
              else wetTowAdjustmentFactorsAtOrBelowTvmcg) (conf i)) (headwind p);
          lengthAltCoef = adjustedTora p - pressureAlt p / 20
      in min 0 (min (factors ! 0 * lengthAltCoef + factors ! 1) (factors ! 2 * lengthAltCoef + factors ! 3)))"

text \<open>The conditions of the validator as the specification lists them, each with the error
  code of its violation; \<open>firstViolated\<close> answers the code of the first condition that does
  not hold. \<open>cgEnvelope\<close> is the pair of CG limits at a weight.\<close>

definition cgEnvelope :: "real \<Rightarrow> real \<times> real" where
  "cgEnvelope w = (LerpVectorLookupTable_get takeoffCgLimits w ! 0, LerpVectorLookupTable_get takeoffCgLimits w ! 1)"

definition validationRules ::
  "TakeoffPerformanceInputs \<Rightarrow> TakeoffPerformanceParameters \<Rightarrow> (bool \<times> TakeoffPerfomanceError) list" where
  "validationRules i p =
     [(conf i \<in> {1, 2, 3}, InvalidData),
      (tow i \<le> structuralMtow, StructuralMtow),
      (pressureAlt p \<le> maxPressureAlt, MaximumPressureAlt),
      (oat i \<le> tMax p, MaximumTemperature),
      (oew \<le> tow i, OperatingEmptyWeight),
      ((case cg i of None \<Rightarrow> True
        | Some g \<Rightarrow> fst (cgEnvelope (tow i)) \<le> g \<and> g \<le> snd (cgEnvelope (tow i))), CgOutOfLimits),
      (- wind i \<le> maxTailwind, MaximumTailwind),
      (\<bar>slope i\<bar> \<le> 2, MaximumRunwaySlope)]"

fun firstViolated :: "(bool \<times> TakeoffPerfomanceError) list \<Rightarrow> TakeoffPerfomanceError" where
  "firstViolated [] = ErrorNone"
| "firstViolated ((holds, e) # rules) = (if holds then firstViolated rules else e)"




text \<open>The rotation speed when \<open>reconcileVSpeeds\<close> reaches the tire-speed step: floored,
  rounded and limited to the corrected V2 \<open>c\<close>.\<close>

definition vRBeforeTireStep :: "TakeoffPerformanceResult \<Rightarrow> real \<Rightarrow> real \<Rightarrow> real" where
  "vRBeforeTireStep r vRIn c = min (Math_round (max vRIn (vRFloor r))) c"

text \<open>The selection among the results of the three configurations. The results with error
  \<open>None\<close> are the candidates. Without a candidate the last result is selected. Otherwise
  the selected result is a candidate of the highest flex temperature, an absent flex
  temperature counting as zero as in the comparator; and, when no candidate has a flex
  temperature of exactly zero, it has the lowest V1 among the candidates of its flex
  temperature.\<close>

definition selectedFrom :: "TakeoffPerformanceResult list \<Rightarrow> TakeoffPerformanceResult \<Rightarrow> bool" where
  "selectedFrom results r =
     (let candidates = filter (\<lambda>x. error x = ErrorNone) results
      in if candidates = [] then r = last results
         else r \<in> set candidates
              \<and> (\<forall>x \<in> set candidates. orZero (flex x) \<le> orZero (flex r))
              \<and> ((\<forall>x \<in> set candidates. flex x \<noteq> Some 0) \<longrightarrow>
                   (\<forall>x \<in> set candidates. flex x = flex r \<longrightarrow> orZero (v1 r) \<le> orZero (v1 x))))"

section \<open>Example inputs\<close>

text \<open>A takeoff at sea level and standard pressure, 300 t, configuration 1+F, no wind, on
  a runway covered with 6 mm of water; and variants of it: a dry and a wet runway of
  1500 m, a dry runway of no length with a forward centre of gravity, a dry runway, and
  configuration 3. With the data of the calculator the second-segment ceiling reaches the
  operating empty weight only on a runway of more than 51 km, so the examples that are to
  pass the weight comparison take a TORA of 80000 m.\<close>

definition exContaminated :: TakeoffPerformanceInputs where
  "exContaminated =
     \<lparr> tow = 300000, forwardCg = False, cg = None, conf = 1, tora = 80000, slope = 0,
       lineupAngle = Lineup0, wind = 0, elevation = 0, qnh = 1013.25, oat = 15, antiIce = Off,
       packs = False, forceToga = False, runwayCondition = Contaminated6mmWater \<rparr>"

definition exDry :: TakeoffPerformanceInputs where
  "exDry = exContaminated\<lparr>tora := 1500, runwayCondition := Dry\<rparr>"

definition exWet :: TakeoffPerformanceInputs where
  "exWet = exContaminated\<lparr>tora := 1500, runwayCondition := Wet\<rparr>"

definition exForwardCg :: TakeoffPerformanceInputs where
  "exForwardCg = exContaminated\<lparr>forwardCg := True, tora := 0, runwayCondition := Dry\<rparr>"

definition exLongDry :: TakeoffPerformanceInputs where
  "exLongDry = exContaminated\<lparr>runwayCondition := Dry\<rparr>"

definition exTooLight :: TakeoffPerformanceInputs where
  "exTooLight = exContaminated\<lparr>conf := 3\<rparr>"


definition exWetSnow :: TakeoffPerformanceInputs where
  "exWetSnow = exContaminated\<lparr>tora := 3000, runwayCondition := Contaminated30mmWetSnow\<rparr>"

section \<open>Evaluation\<close>

text \<open>The definitions that the simplifier unfolds to run the calculation on an example.\<close>

lemmas table_defs =
  tRefTable_def tMaxTable_def runwayPerfLimitConf1_def runwayPerfLimitConf2_def
  runwayPerfLimitConf3_def runwaySlopeFactor_def runwayPressureAltFactor_def
  runwayTemperatureFactor_def runwayHeadWindFactor_def runwayTailWindFactor_def
  secondSegmentBaseFactor_def secondSegmentSlopeFactor_def secondSegmentPressureAltFactor_def
  secondSegmentTemperatureFactor_def secondSegmentHeadWindFactor_def
  secondSegmentTailWindFactor_def brakeEnergyBaseFactor_def brakeEnergySlopeFactor_def
  brakeEnergyPressureAltFactor_def brakeEnergyTemperatureFactor_def
  brakeEnergyHeadWindFactor_def brakeEnergyTailWindFactor_def vmcgBaseFactor_def
  vmcgSlopeFactor_def vmcgPressureAltFactor_def vmcgTemperatureFactor_def
  vmcgHeadWindFactor_def vmcgTailWindFactor_def takeoffCgLimits_def cgFactors_def
  minimumV1Vmc_def minimumVrVmc_def minimumV2Vmc_def minimumV2Vmu_def
  v2RunwayVmcgBaseFactors_def v2RunwayVmcgAltFactors_def vRRunwayVmcgBaseFactors_def
  vRRunwayVmcgRunwayFactors_def vRRunwayVmcgAltFactors_def vRRunwayVmcgSlopeFactors_def
  vRRunwayVmcgHeadwindFactors_def vRRunwayVmcgTailwindFactors_def v1RunwayVmcgBaseFactors_def
  v1RunwayVmcgRunwayFactors_def v1RunwayVmcgAltFactors_def v1RunwayVmcgSlopeFactors_def
  v1RunwayVmcgHeadwindFactors_def v1RunwayVmcgTailwindFactors_def
  v2SecondSegBrakeThresholds_def v2SecondSegBrakeBaseTable1_def v2SecondSegBrakeBaseTable2_def
  v2SecondSegBrakeRunwayTable1_def v2SecondSegBrakeRunwayTable2_def
  v2SecondSegBrakeAltFactors_def v2SecondSegBrakeSlopeFactors_def
  v2SecondSegBrakeHeadwindFactors_def v2SecondSegBrakeTailwindFactors_def
  vRSecondSegBrakeBaseTable1_def vRSecondSegBrakeBaseTable2_def
  vRSecondSegBrakeRunwayTable1_def vRSecondSegBrakeRunwayTable2_def
  vRSecondSegBrakeAltTable1_def vRSecondSegBrakeAltTable2_def vRSecondSegBrakeSlopeFactors_def
  vRSecondSegBrakeHeadwindFactors_def vRSecondSegBrakeTailwindFactors_def
  v1SecondSegBrakeBaseTable1_def v1SecondSegBrakeBaseTable2_def
  v1SecondSegBrakeRunwayTable1_def v1SecondSegBrakeRunwayTable2_def
  v1SecondSegBrakeAltTable1_def v1SecondSegBrakeAltTable2_def v1SecondSegBrakeSlopeFactors_def
  v1SecondSegBrakeHeadwindFactors_def v1SecondSegBrakeTailwindFactors_def tvmcgFactors_def
  wetTowAdjustmentFactorsAtOrBelowTvmcg_def wetTowAdjustmentFactorsAboveTvmcg_def
  wetFlexAdjustmentFactorsAtOrBelowTvmcg_def wetFlexAdjustmentFactorsAboveTvmcg_def
  wetV1AdjustmentFactorsAtOrBelowTvmcg_def wetV1AdjustmentFactorsAboveTvmcg_def
  wetVRAdjustmentFactorsAtOrBelowTvmcg_def wetV2AdjustmentFactorsAtOrBelowTvmcg_def
  weightCorrectionContaminated6mmWater_def minCorrectedTowContaminated6mmWater_def
  mtowContaminated6mmWater_def vSpeedsContaminated6mmWater_def
  weightCorrectionContaminated13mmWater_def minCorrectedTowContaminated13mmWater_def
  mtowContaminated13mmWater_def vSpeedsContaminated13mmWater_def
  weightCorrectionContaminated6mmSlush_def minCorrectedTowContaminated6mmSlush_def
  mtowContaminated6mmSlush_def vSpeedsContaminated6mmSlush_def
  weightCorrectionContaminated13mmSlush_def minCorrectedTowContaminated13mmSlush_def
  mtowContaminated13mmSlush_def vSpeedsContaminated13mmSlush_def
  weightCorrectionContaminatedCompactedSnow_def minCorrectedTowContaminatedCompactedSnow_def
  mtowContaminatedCompactedSnow_def vSpeedsContaminatedCompactedSnow_def
  weightCorrectionContaminated5mmWetSnow_def minCorrectedTowContaminated5mmWetSnow_def
  mtowContaminated5mmWetSnow_def vSpeedsContaminated5mmWetSnow_def
  weightCorrectionContaminated15mmWetSnow_def minCorrectedTowContaminated15mmWetSnow_def
  mtowContaminated15mmWetSnow_def vSpeedsContaminated15mmWetSnow_def
  weightCorrectionContaminated30mmWetSnow_def minCorrectedTowContaminated30mmWetSnow_def
  mtowContaminated30mmWetSnow_def vSpeedsContaminated30mmWetSnow_def
  weightCorrectionContaminated10mmDrySnow_def minCorrectedTowContaminated10mmDrySnow_def
  mtowContaminated10mmDrySnow_def vSpeedsContaminated10mmDrySnow_def
  weightCorrectionContaminated100mmDrySnow_def minCorrectedTowContaminated100mmDrySnow_def
  mtowContaminated100mmDrySnow_def vSpeedsContaminated100mmDrySnow_def

lemmas lookup_defs = LerpLookupTable_get_def LerpLookupTable_get2_def LerpVectorLookupTable_get_def
  lookup1_def lerp_def VecNMath_create_def LerpVectorLookupTable_getInto_def vec4Cache_def
lemmas math_defs = Math_ceil_def Math_round_def Math_trunc_def jsub_def jadd_def jmin_def jgt_def jge_def
lemmas const_defs = structuralMtow_def maxPressureAlt_def oew_def maxHeadwind_def maxTailwind_def tMaxFlexDisa_def
lemmas param_defs = calculateIsaTemp_def calculateTref_def calculateTmax_def calculateTflexMax_def
  calculatePressureAltitude_def calculateBaseRunwayPerfLimit_def calculateBaseLimit_def calculateStabTrim_def
  isCgWithinLimits_def lerpClamped_def
lemmas delta_defs = calculateRunwayTempDelta_def calculateSecondSegmentTempDelta_def
  calculateBrakeEnergyTempDelta_def calculateVmcgTempDelta_def calculateRunwayWindDelta_def
  calculateSecondSegmentWindDelta_def calculateBrakeEnergyWindDelta_def calculateVmcgWindDelta_def
lemmas stage_defs = initialResult_def checkInputs_def isContaminated_def calculateWeightLimits_def
  limitingFactorValues_def getLimitingFactor_def calculateTvmcg_def wetAdjustment_def calculateFlexTow_def
  calculateFlexTemp_def reconcileVSpeeds_def calculateSecondSegBrakeV2_def calculateSecondSegBrakeV1_def
  dryRegressionSpeeds_def calculateDryVSpeeds_def calculateVSpeeds_def allWeightLimits_def
  deepCopy_def jsonNumber_def copyLimits_def copyLimitWeight_def orZero_def compareResults_def calculateTakeoffPerformanceOptConf_def assignStabTrim_def bindE_def resolveMtow_def weightStage_def
lemmas eval_defs = lookup_defs math_defs const_defs param_defs delta_defs stage_defs table_defs

section \<open>The examples, evaluated\<close>

lemmas example_defs = exContaminated_def exDry_def exWet_def exForwardCg_def exLongDry_def exTooLight_def

lemma exContaminated_run:
  "\<exists>r. calculateTakeoffPerformance exContaminated = Inr r \<and> error r = ErrorNone
      \<and> v1 r = Some 122 \<and> vR r = Some 125 \<and> v2 r = Some 127 \<and> flex r = None"
  by (simp add: calculateTakeoffPerformance.simps example_defs eval_defs Let_def cong: let_weak_cong)

lemma exContaminated_conf2_run:
  "\<exists>r. calculateTakeoffPerformance (exContaminated\<lparr>conf := 2\<rparr>) = Inr r \<and> error r = ErrorNone
      \<and> v1 r = Some 122 \<and> vR r = Some 126 \<and> v2 r = Some 127 \<and> flex r = None"
  by (simp add: calculateTakeoffPerformance.simps example_defs eval_defs Let_def cong: let_weak_cong)

lemma exTooLight_run:
  "\<exists>r. calculateTakeoffPerformance exTooLight = Inr r \<and> error r = TooLight
      \<and> v1 r = Some 122 \<and> vR r = Some 126 \<and> v2 r = Some 126 \<and> flex r = None"
  by (simp add: calculateTakeoffPerformance.simps example_defs eval_defs Let_def cong: let_weak_cong)

lemma exDry_run:
  "\<exists>r. calculateTakeoffPerformance exDry = Inr r \<and> error r = TooHeavy
      \<and> mtow r = Some (Num 77074)
      \<and> ceilingOfTRefFactor oatLimit r = Some (Num 77074)
      \<and> ceilingOfTRefFactor tRefLimit r = Some (Num 73913)
      \<and> v1 r = None \<and> vR r = None \<and> v2 r = None \<and> flex r = None"
  by (simp add: calculateTakeoffPerformance.simps example_defs eval_defs Let_def
        ceilingOfTRefFactor_def cong: let_weak_cong)


lemma exForwardCg_run:
  "\<exists>r. calculateTakeoffPerformance exForwardCg = Inr r \<and> error r = TooHeavy
      \<and> mtow r = Some (Num (- 19526)) \<and> oatLimitingFactor r = Some Vmcg"
  by (simp add: calculateTakeoffPerformance.simps example_defs eval_defs Let_def cong: let_weak_cong)

lemma exLongDry_run:
  "\<exists>r. calculateTakeoffPerformance exLongDry = Inr r \<and> error r = VmcgVmcaLimits
      \<and> flex r = Some 46 \<and> v1 r = Some (- 181) \<and> vR r = Some (- 181) \<and> v2 r = Some 571"
  by (simp add: calculateTakeoffPerformance.simps flexLoop.simps example_defs eval_defs Let_def cong: let_weak_cong)

lemma examples_valid:
  "error (initialResult exDry) = ErrorNone" "error (initialResult exWet) = ErrorNone"
  "error (initialResult exForwardCg) = ErrorNone" "error (initialResult exContaminated) = ErrorNone"
  by (simp_all add: example_defs eval_defs Let_def cong: let_weak_cong)

section \<open>Properties of the speed reconciliation\<close>

lemma isWhole_round [simp]: "isWhole (Math_round x)"
  by (simp add: isWhole_def Math_round_def)

lemma isWhole_diff: "isWhole a \<Longrightarrow> isWhole b \<Longrightarrow> isWhole (a - b)"
  by (metis isWhole_def of_int_diff of_int_floor_cancel)

lemma isWhole_numeral [simp]: "isWhole (numeral n)"
  by (simp add: isWhole_def)

lemma Math_trunc_whole: "isWhole x \<Longrightarrow> Math_trunc x = x"
  by (auto simp add: isWhole_def Math_trunc_def)

lemma trunc_tire: "Math_trunc (195 - (Math_round x - 195)) = 195 - (Math_round x - 195)"
proof -
  have "isWhole (195 - (Math_round x - 195))"
    by (intro isWhole_diff) simp_all
  then show ?thesis by (simp add: Math_trunc_whole)
qed

lemma reconcile_char:
  fixes r :: TakeoffPerformanceResult and x y z :: real
  defines "c \<equiv> Math_round (max z (v2Floor r))"
      and "v10 \<equiv> Math_round (max x (v1Floor r))"
      and "vR0 \<equiv> Math_round (max y (vRFloor r))"
  shows "reconcileVSpeeds r x y z =
           (r\<lparr>error := reconcileError (v1Floor r) (vRFloor r) v10 vR0 c (error r)\<rparr>,
            min v10 (tireClamp vR0 c), tireClamp vR0 c, c)"
proof -
  have eq: "reconcileVSpeeds r x y z =
     (let m1 = v1Floor r; mR = vRFloor r;
          (r, vRCorrected) =
            (if vR0 > c
             then ((if c < mR then r\<lparr>error := VmcgVmcaLimits\<rparr> else r), c)
             else (r, vR0));
          (r, vRCorrected) =
            (if c > 195 then
               (if vRCorrected > 195 then (r\<lparr>error := MaximumTireSpeed\<rparr>, vRCorrected)
                   else if vRCorrected > 195 - (c - 195)
                   then ((if 195 - (c - 195) < mR then r\<lparr>error := VmcgVmcaLimits\<rparr> else r), 195 - (c - 195))
                   else (r, vRCorrected))
             else (r, vRCorrected));
          (r, v1Corrected) =
            (if v10 > vRCorrected
             then ((if vRCorrected < m1 then r\<lparr>error := VmcgVmcaLimits\<rparr> else r), vRCorrected)
             else (r, v10))
      in (r, v1Corrected, vRCorrected, c))"
    unfolding reconcileVSpeeds_def c_def v10_def vR0_def v1Floor_def vRFloor_def v2Floor_def
    by (simp only: Let_def trunc_tire)
  show ?thesis
    unfolding eq reconcileError_def tireClamp_def
    by (simp add: Let_def min_def split: if_splits)
qed

lemma tireClamp_le: "tireClamp vR0 c \<le> c"
  by (simp add: tireClamp_def min_def)

lemma tireClamp_whole: "isWhole vR0 \<Longrightarrow> isWhole c \<Longrightarrow> isWhole (tireClamp vR0 c)"
  by (simp add: tireClamp_def min_def isWhole_diff)

lemma reconcileError_cases:
  "reconcileError m1 mR v10 vR0 c e = e \<or> reconcileError m1 mR v10 vR0 c e = VmcgVmcaLimits
     \<or> reconcileError m1 mR v10 vR0 c e = MaximumTireSpeed"
  by (simp add: reconcileError_def Let_def)

lemma reconcile_props:
  assumes "reconcileVSpeeds r x y z = (r', a, b, c)"
  shows "\<exists>e. r' = r\<lparr>error := e\<rparr> \<and> (e = error r \<or> e = VmcgVmcaLimits \<or> e = MaximumTireSpeed)"
    and "a \<le> b" and "b \<le> c" and "isWhole a" and "isWhole b" and "isWhole c"
proof -
  from assms have r': "r' = r\<lparr>error := reconcileError (v1Floor r) (vRFloor r) (Math_round (max x (v1Floor r)))
          (Math_round (max y (vRFloor r))) (Math_round (max z (v2Floor r))) (error r)\<rparr>"
    and a: "a = min (Math_round (max x (v1Floor r))) (tireClamp (Math_round (max y (vRFloor r))) (Math_round (max z (v2Floor r))))"
    and b: "b = tireClamp (Math_round (max y (vRFloor r))) (Math_round (max z (v2Floor r)))"
    and c: "c = Math_round (max z (v2Floor r))"
    unfolding reconcile_char by auto
  show "\<exists>e. r' = r\<lparr>error := e\<rparr> \<and> (e = error r \<or> e = VmcgVmcaLimits \<or> e = MaximumTireSpeed)"
    using r' reconcileError_cases by blast
  show "a \<le> b" by (simp add: a b)
  show "b \<le> c" by (simp add: b c tireClamp_le)
  show "isWhole b" by (simp add: b tireClamp_whole)
  then show "isWhole a" by (simp add: a b min_def)
  show "isWhole c" by (simp add: c)
qed

lemma dry_props:
  "\<exists>e a b c. calculateDryVSpeeds r f = r\<lparr>error := e, intermediateSpeeds := Some \<lparr>dryV1 = a, dryVR = b, dryV2 = c\<rparr>\<rparr>
     \<and> (e = error r \<or> e = VmcgVmcaLimits \<or> e = MaximumTireSpeed)
     \<and> a \<le> b \<and> b \<le> c \<and> isWhole a \<and> isWhole b \<and> isWhole c"
proof -
  obtain x y z where xyz: "dryRegressionSpeeds r f = (x, y, z)"
    by (cases "dryRegressionSpeeds r f") auto
  obtain r' a b c where rec: "reconcileVSpeeds r x y z = (r', a, b, c)"
    by (cases "reconcileVSpeeds r x y z") auto
  from reconcile_props [OF rec] obtain e where
    "r' = r\<lparr>error := e\<rparr>" "e = error r \<or> e = VmcgVmcaLimits \<or> e = MaximumTireSpeed"
    "a \<le> b" "b \<le> c" "isWhole a" "isWhole b" "isWhole c" by blast
  then show ?thesis
    by (simp add: calculateDryVSpeeds_def xyz rec) blast
qed

lemma reconcile_update:
  assumes "reconcileVSpeeds r x y z = (r', a, b, c)"
  shows "speedUpdate r (r'\<lparr>v1 := Some a, vR := Some b, v2 := Some c\<rparr>)"
proof -
  from reconcile_props [OF assms] obtain e where
    e: "r' = r\<lparr>error := e\<rparr>" "e = error r \<or> e = VmcgVmcaLimits \<or> e = MaximumTireSpeed"
    and o: "a \<le> b" "b \<le> c" "isWhole a" "isWhole b" "isWhole c" by blast
  have "r'\<lparr>v1 := Some a, vR := Some b, v2 := Some c\<rparr> =
          r\<lparr>error := e, v1 := Some a, vR := Some b, v2 := Some c, intermediateSpeeds := intermediateSpeeds r\<rparr>"
    by (simp add: e(1))
  with e(2) o show ?thesis
    unfolding speedUpdate_def by blast
qed

lemma speedUpdate_after_dry:
  assumes "rd = r\<lparr>error := e, intermediateSpeeds := s\<rparr>"
      and "e = error r \<or> e = VmcgVmcaLimits \<or> e = MaximumTireSpeed"
      and "speedUpdate rd r'"
  shows "speedUpdate r r'"
proof -
  from assms(3) obtain e' a b c s' where
    r': "r' = rd\<lparr>error := e', v1 := Some a, vR := Some b, v2 := Some c, intermediateSpeeds := s'\<rparr>"
    and e': "e' = error rd \<or> e' = VmcgVmcaLimits \<or> e' = MaximumTireSpeed"
    and o: "a \<le> b" "b \<le> c" "isWhole a" "isWhole b" "isWhole c"
    unfolding speedUpdate_def by blast
  have "r' = r\<lparr>error := e', v1 := Some a, vR := Some b, v2 := Some c, intermediateSpeeds := s'\<rparr>"
    by (simp add: r' assms(1))
  moreover have "e' = error r \<or> e' = VmcgVmcaLimits \<or> e' = MaximumTireSpeed"
    using e' assms(1,2) by auto
  ultimately show ?thesis
    unfolding speedUpdate_def using o by blast
qed

lemma vspeeds_props:
  assumes "calculateVSpeeds r f tv = Inr r'"
  shows "speedUpdate r r'"
proof -
  obtain e a b c where
    rd: "calculateDryVSpeeds r f = r\<lparr>error := e, intermediateSpeeds := Some \<lparr>dryV1 = a, dryVR = b, dryV2 = c\<rparr>\<rparr>"
    and e: "e = error r \<or> e = VmcgVmcaLimits \<or> e = MaximumTireSpeed"
    and o: "a \<le> b" "b \<le> c" "isWhole a" "isWhole b" "isWhole c"
    using dry_props [of r f] by blast
  let ?rd = "r\<lparr>error := e, intermediateSpeeds := Some \<lparr>dryV1 = a, dryVR = b, dryV2 = c\<rparr>\<rparr>"
  consider (dry) "runwayCondition (inputs r) = Dry"
    | (wet) "runwayCondition (inputs r) = Wet"
    | (contaminated) "runwayCondition (inputs r) \<noteq> Dry" "runwayCondition (inputs r) \<noteq> Wet"
    by blast
  then show ?thesis
  proof cases
    case dry
    with assms have "r' = r\<lparr>error := e, v1 := Some a, vR := Some b, v2 := Some c,
        intermediateSpeeds := Some \<lparr>dryV1 = a, dryVR = b, dryV2 = c\<rparr>\<rparr>"
      by (auto simp add: calculateVSpeeds_def rd)
    with e o show ?thesis
      unfolding speedUpdate_def by blast
  next
    case wet
    with assms obtain x y z r'' a' b' c' where
      "reconcileVSpeeds ?rd x y z = (r'', a', b', c')" "r' = r''\<lparr>v1 := Some a', vR := Some b', v2 := Some c'\<rparr>"
      by (auto simp add: calculateVSpeeds_def rd Let_def split: prod.splits)
    then have "speedUpdate ?rd r'"
      using reconcile_update by blast
    then show ?thesis
      by (rule speedUpdate_after_dry [OF refl e])
  next
    case contaminated
    with assms obtain x y z r'' a' b' c' where
      "reconcileVSpeeds r x y z = (r'', a', b', c')" "r' = r''\<lparr>v1 := Some a', vR := Some b', v2 := Some c'\<rparr>"
      by (auto simp add: calculateVSpeeds_def Let_def split: prod.splits option.splits)
    then show ?thesis
      using reconcile_update by blast
  qed
qed

lemma flexTemp_props:
  assumes "calculateFlexTemp r tv = Inr (Some t, lf)"
  shows "\<exists>ls f. limits r = Some ls \<and> tRefLimitingFactor r = Some f
           \<and> jlt (Num (tow (inputs r))) (tRefLimit (limitsFor ls f)) \<and> t > oat (inputs r)"
  using assms
  by (auto simp add: calculateFlexTemp_def Let_def split: option.splits if_splits prod.splits)

section \<open>The stages of the calculation\<close>

lemma map_sum_Inr: "map_sum id g x = Inr r \<longleftrightarrow> (\<exists>y. x = Inr y \<and> r = g y)"
  by (cases x) auto

lemma bindE_Inr: "bindE m f = Inr r \<longleftrightarrow> (\<exists>a. m = Inr a \<and> f a = Inr r)"
  by (cases m) (auto simp add: bindE_def)

lemma getLimitingFactor_eq:
  "limits r = Some ls \<Longrightarrow> getLimitingFactor temp r = Inr (limitingFactorOf temp ls)"
  by (simp add: getLimitingFactor_def limitingFactorOf_def)

lemma resolveMtow_frame:
  "inputs r = inputs r0 \<Longrightarrow> params r = params r0 \<Longrightarrow> resolveMtow r tv d = resolveMtow r0 tv d"
  by (simp add: resolveMtow_def)

lemma weightStage_props:
  assumes "weightStage r0 = Inr (r, m, tv)"
  defines "ls \<equiv> allWeightLimits r0"
  shows "\<exists>tooLight.
           resolveMtow r0 (calculateTvmcg (inputs r0) (params r0))
             (oatLimit (limitsFor ls (limitingFactorOf tRefLimit ls))) = Inr (m, tooLight)
         \<and> tv = calculateTvmcg (inputs r0) (params r0)
         \<and> r = r0\<lparr>error := (if tooLight then TooLight else error r0),
                  limits := Some ls,
                  oatLimitingFactor := Some (limitingFactorOf oatLimit ls),
                  tRefLimitingFactor := Some (limitingFactorOf tRefLimit ls),
                  tMaxLimitingFactor := Some (limitingFactorOf tMaxLimit ls),
                  tFlexMaxLimitingFactor := Some (limitingFactorOf tFlexMaxLimit ls),
                  tvmcg := Some tv, mtow := Some m\<rparr>"
proof -
  let ?tv = "calculateTvmcg (inputs r0) (params r0)"
  let ?d = "oatLimit (limitsFor ls (limitingFactorOf tRefLimit ls))"
  let ?r4 = "r0\<lparr>limits := Some ls,
                  oatLimitingFactor := Some (limitingFactorOf oatLimit ls),
                  tRefLimitingFactor := Some (limitingFactorOf tRefLimit ls),
                  tMaxLimitingFactor := Some (limitingFactorOf tMaxLimit ls),
                  tFlexMaxLimitingFactor := Some (limitingFactorOf tFlexMaxLimit ls),
                  tvmcg := Some ?tv\<rparr>"
  have unfold: "weightStage r0 =
      bindE (resolveMtow ?r4 ?tv ?d)
        (\<lambda>(m, tooLight). Inr ((if tooLight then ?r4\<lparr>error := TooLight\<rparr> else ?r4)\<lparr>mtow := Some m\<rparr>, m, ?tv))"
    unfolding weightStage_def ls_def Let_def
    by (cases "resolveMtow ?r4 ?tv ?d") (auto simp add: getLimitingFactor_eq bindE_def ls_def)
  have frame: "resolveMtow ?r4 ?tv ?d = resolveMtow r0 ?tv ?d"
    by (rule resolveMtow_frame) simp_all
  from assms(1) obtain m' tooLight where
    res: "resolveMtow r0 ?tv ?d = Inr (m', tooLight)"
    and out: "((if tooLight then ?r4\<lparr>error := TooLight\<rparr> else ?r4)\<lparr>mtow := Some m'\<rparr>, m', ?tv) = (r, m, tv)"
    unfolding unfold frame bindE_Inr by auto
  from out have "m' = m" "tv = ?tv"
    and "r = (if tooLight then ?r4\<lparr>error := TooLight\<rparr> else ?r4)\<lparr>mtow := Some m\<rparr>"
    by auto
  with res show ?thesis
    by (intro exI [of _ tooLight]) (cases tooLight; simp)
qed

lemma resolveMtow_total: "\<exists>m tooLight. resolveMtow r tv d = Inr (m, tooLight)"
  by (cases "runwayCondition (inputs r)") (auto simp add: resolveMtow_def Let_def)

lemma weightStage_total: "\<exists>r m tv. weightStage r0 = Inr (r, m, tv)"
proof -
  obtain m tooLight where "resolveMtow
       (r0\<lparr>limits := Some (allWeightLimits r0),
           oatLimitingFactor := Some (limitingFactorOf oatLimit (allWeightLimits r0)),
           tRefLimitingFactor := Some (limitingFactorOf tRefLimit (allWeightLimits r0)),
           tMaxLimitingFactor := Some (limitingFactorOf tMaxLimit (allWeightLimits r0)),
           tFlexMaxLimitingFactor := Some (limitingFactorOf tFlexMaxLimit (allWeightLimits r0)),
           tvmcg := Some (calculateTvmcg (inputs r0) (params r0))\<rparr>)
       (calculateTvmcg (inputs r0) (params r0))
       (oatLimit (limitsFor (allWeightLimits r0) (limitingFactorOf tRefLimit (allWeightLimits r0)))) = Inr (m, tooLight)"
    using resolveMtow_total by blast
  then show ?thesis
    unfolding weightStage_def Let_def
    by (simp add: getLimitingFactor_eq bindE_def)
qed

lemma initialResult_fields [simp]:
  "inputs (initialResult i) = i"
  "limits (initialResult i) = None" "mtow (initialResult i) = None" "flex (initialResult i) = None"
  "v1 (initialResult i) = None" "vR (initialResult i) = None" "v2 (initialResult i) = None"
  "intermediateSpeeds (initialResult i) = None" "tRefLimitingFactor (initialResult i) = None"
  "oatLimitingFactor (initialResult i) = None"
  by (simp_all add: initialResult_def Let_def)

lemma calc_invalid:
  "error (initialResult i) \<noteq> ErrorNone \<Longrightarrow>
     calculateTakeoffPerformance i = Inr (assignStabTrim (initialResult i))"
  by (subst calculateTakeoffPerformance.simps) (simp add: Let_def)

lemma calc_valid:
  assumes ok: "error (initialResult i) = ErrorNone"
      and ws: "weightStage (initialResult i) = Inr (r1, m, tv)"
  defines "applyS \<equiv> (forwardCg i \<and> (oatLimitingFactor r1 = Some Runway \<or> oatLimitingFactor r1 = Some Vmcg))
                       \<and> jle m (Num 473114)"
  shows "calculateTakeoffPerformance i =
     (if jge (comparedMtow i (oatLimitingFactor r1) m) (Num (tow i)) then
        (if forceToga i then
           (case calculateTakeoffPerformance (i\<lparr>wind := -15, forceToga := False\<rparr>) of
              Inl e \<Rightarrow> Inl e
            | Inr tailwindResult \<Rightarrow>
                if error tailwindResult = ErrorNone
                then Inr (assignStabTrim (r1\<lparr>flex := None, v1 := v1 tailwindResult, vR := vR tailwindResult,
                        v2 := v2 tailwindResult, intermediateSpeeds := intermediateSpeeds tailwindResult\<rparr>))
                else map_sum id assignStabTrim (calculateVSpeeds (r1\<lparr>flex := None\<rparr>) applyS tv))
         else if \<not> isContaminated (runwayCondition i) then
           (case calculateFlexTemp (r1\<lparr>flex := None\<rparr>) tv of
              Inl e \<Rightarrow> Inl e
            | Inr (fl, flLF) \<Rightarrow>
                map_sum id assignStabTrim
                  (calculateVSpeeds (r1\<lparr>flex := fl, params := (params r1)\<lparr>flexLimitingFactor := flLF\<rparr>\<rparr>) applyS tv))
         else map_sum id assignStabTrim (calculateVSpeeds (r1\<lparr>flex := None\<rparr>) applyS tv))
      else Inr (assignStabTrim (r1\<lparr>error := TooHeavy\<rparr>)))"
proof -
  from weightStage_props [OF ws] have i: "inputs r1 = i"
    by auto
  show ?thesis
    by (subst calculateTakeoffPerformance.simps)
       (simp add: Let_def ok ws comparedMtow_def applyS_def i cong: sum.case_cong if_cong)
qed

section \<open>Claims about the result of the calculation\<close>

lemma assignStabTrim_fields [simp]:
  "inputs (assignStabTrim r) = inputs r" "params (assignStabTrim r) = params r"
  "error (assignStabTrim r) = error r" "limits (assignStabTrim r) = limits r"
  "oatLimitingFactor (assignStabTrim r) = oatLimitingFactor r"
  "tRefLimitingFactor (assignStabTrim r) = tRefLimitingFactor r"
  "mtow (assignStabTrim r) = mtow r" "flex (assignStabTrim r) = flex r"
  "v1 (assignStabTrim r) = v1 r" "vR (assignStabTrim r) = vR r" "v2 (assignStabTrim r) = v2 r"
  by (simp_all add: assignStabTrim_def)

lemma speedsOrdered_assignStabTrim [simp]: "speedsOrdered (assignStabTrim r) = speedsOrdered r"
  by (simp add: speedsOrdered_def)

lemma speedUpdate_ordered: "speedUpdate r r' \<Longrightarrow> speedsOrdered r'"
  by (auto simp add: speedUpdate_def speedsOrdered_def)

lemma speedUpdate_fields:
  assumes "speedUpdate r r'"
  shows "inputs r' = inputs r" "params r' = params r" "limits r' = limits r"
    "oatLimitingFactor r' = oatLimitingFactor r" "tRefLimitingFactor r' = tRefLimitingFactor r"
    "mtow r' = mtow r" "flex r' = flex r"
    "error r' = error r \<or> error r' = VmcgVmcaLimits \<or> error r' = MaximumTireSpeed"
    "v1 r' \<noteq> None" "vR r' \<noteq> None" "v2 r' \<noteq> None"
  using assms by (auto simp add: speedUpdate_def)

lemma weightStage_fields:
  assumes "weightStage r0 = Inr (r, m, tv)"
  shows "inputs r = inputs r0" "params r = params r0" "limits r = Some (allWeightLimits r0)"
    "oatLimitingFactor r = Some (limitingFactorOf oatLimit (allWeightLimits r0))"
    "tRefLimitingFactor r = Some (limitingFactorOf tRefLimit (allWeightLimits r0))"
    "tMaxLimitingFactor r = Some (limitingFactorOf tMaxLimit (allWeightLimits r0))"
    "tFlexMaxLimitingFactor r = Some (limitingFactorOf tFlexMaxLimit (allWeightLimits r0))"
    "mtow r = Some m" "flex r = flex r0" "v1 r = v1 r0" "vR r = vR r0" "v2 r = v2 r0"
    "error r = error r0 \<or> error r = TooLight"
  using weightStage_props [OF assms] by auto

lemma speedsOrdered_cong:
  "v1 r = v1 r' \<Longrightarrow> vR r = vR r' \<Longrightarrow> v2 r = v2 r' \<Longrightarrow> speedsOrdered r = speedsOrdered r'"
  by (simp add: speedsOrdered_def)

lemma speedStage_props:
  assumes "map_sum id assignStabTrim (calculateVSpeeds rin f tv) = Inr r"
  shows "\<exists>rs. speedUpdate rin rs \<and> r = assignStabTrim rs"
  using assms by (auto simp add: map_sum_Inr dest: vspeeds_props)

lemma calc_cases:
  assumes ok: "error (initialResult i) = ErrorNone" and ret: "calculateTakeoffPerformance i = Inr r"
  obtains
    (heavy) r1 m tv where "weightStage (initialResult i) = Inr (r1, m, tv)"
      "\<not> jge (comparedMtow i (oatLimitingFactor r1) m) (Num (tow i))"
      "r = assignStabTrim (r1\<lparr>error := TooHeavy\<rparr>)"
  | (toga) r1 m tv tw where "weightStage (initialResult i) = Inr (r1, m, tv)"
      "jge (comparedMtow i (oatLimitingFactor r1) m) (Num (tow i))"
      "forceToga i" "calculateTakeoffPerformance (i\<lparr>wind := -15, forceToga := False\<rparr>) = Inr tw"
      "error tw = ErrorNone"
      "r = assignStabTrim (r1\<lparr>flex := None, v1 := v1 tw, vR := vR tw, v2 := v2 tw,
                        intermediateSpeeds := intermediateSpeeds tw\<rparr>)"
  | (flex) r1 m tv fl flLF rs where "weightStage (initialResult i) = Inr (r1, m, tv)"
      "jge (comparedMtow i (oatLimitingFactor r1) m) (Num (tow i))"
      "\<not> forceToga i" "\<not> isContaminated (runwayCondition i)"
      "calculateFlexTemp (r1\<lparr>flex := None\<rparr>) tv = Inr (fl, flLF)"
      "speedUpdate (r1\<lparr>flex := fl, params := (params r1)\<lparr>flexLimitingFactor := flLF\<rparr>\<rparr>) rs"
      "r = assignStabTrim rs"
  | (full) r1 m tv rs where "weightStage (initialResult i) = Inr (r1, m, tv)"
      "jge (comparedMtow i (oatLimitingFactor r1) m) (Num (tow i))"
      "forceToga i \<or> isContaminated (runwayCondition i)"
      "speedUpdate (r1\<lparr>flex := None\<rparr>) rs" "r = assignStabTrim rs"
proof -
  obtain r1 m tv where ws: "weightStage (initialResult i) = Inr (r1, m, tv)"
    using weightStage_total by blast
  note eq = ret [unfolded calc_valid [OF ok ws]]
  show thesis
  proof (cases "jge (comparedMtow i (oatLimitingFactor r1) m) (Num (tow i))")
    case False
    with eq have "r = assignStabTrim (r1\<lparr>error := TooHeavy\<rparr>)" by simp
    with ws False show thesis by (rule heavy)
  next
    case ge: True
    show thesis
    proof (cases "forceToga i")
      case toga': True
      show thesis
      proof (cases "calculateTakeoffPerformance (i\<lparr>wind := -15, forceToga := False\<rparr>)")
        case (Inl e)
        with eq ge toga' show thesis by simp
      next
        case (Inr tw)
        show thesis
        proof (cases "error tw = ErrorNone")
          case True
          with eq ge toga' Inr have "r = assignStabTrim (r1\<lparr>flex := None, v1 := v1 tw, vR := vR tw, v2 := v2 tw,
                        intermediateSpeeds := intermediateSpeeds tw\<rparr>)" by simp
          with ws ge toga' Inr True show thesis by (rule toga)
        next
          case False
          with eq ge toga' Inr obtain rs where "speedUpdate (r1\<lparr>flex := None\<rparr>) rs" "r = assignStabTrim rs"
            using speedStage_props by fastforce
          with ws ge toga' show thesis by (intro full [of r1 m tv rs]) simp_all
        qed
      qed
    next
      case notoga: False
      show thesis
      proof (cases "isContaminated (runwayCondition i)")
        case True
        with eq ge notoga obtain rs where "speedUpdate (r1\<lparr>flex := None\<rparr>) rs" "r = assignStabTrim rs"
          using speedStage_props by fastforce
        with ws ge True show thesis by (intro full [of r1 m tv rs]) simp_all
      next
        case False
        show thesis
        proof (cases "calculateFlexTemp (r1\<lparr>flex := None\<rparr>) tv")
          case (Inl e)
          with eq ge notoga False show thesis by simp
        next
          case (Inr p)
          obtain fl flLF where p: "p = (fl, flLF)" by (cases p)
          with eq ge notoga False Inr obtain rs where
            "speedUpdate (r1\<lparr>flex := fl, params := (params r1)\<lparr>flexLimitingFactor := flLF\<rparr>\<rparr>) rs"
            "r = assignStabTrim rs"
            using speedStage_props by fastforce
          with ws ge notoga False Inr p show thesis by (intro flex [of r1 m tv fl flLF rs]) simp_all
        qed
      qed
    qed
  qed
qed

lemma ordered_step:
  assumes ret: "calculateTakeoffPerformance i = Inr r" and none: "error r = ErrorNone"
      and tail: "\<And>tw. forceToga i \<Longrightarrow> calculateTakeoffPerformance (i\<lparr>wind := -15, forceToga := False\<rparr>) = Inr tw
                   \<Longrightarrow> error tw = ErrorNone \<Longrightarrow> speedsOrdered tw"
  shows "speedsOrdered r"
proof (cases "error (initialResult i) = ErrorNone")
  case False
  with ret none show ?thesis
    by (simp add: calc_invalid) auto
next
  case True
  from True ret show ?thesis
  proof (rule calc_cases)
    fix r1 m tv
    assume "r = assignStabTrim (r1\<lparr>error := TooHeavy\<rparr>)"
    with none show ?thesis by simp
  next
    fix r1 m tv tw
    assume t: "forceToga i" "calculateTakeoffPerformance (i\<lparr>wind := -15, forceToga := False\<rparr>) = Inr tw"
        "error tw = ErrorNone"
      and r: "r = assignStabTrim (r1\<lparr>flex := None, v1 := v1 tw, vR := vR tw, v2 := v2 tw,
                        intermediateSpeeds := intermediateSpeeds tw\<rparr>)"
    have "speedsOrdered r = speedsOrdered tw"
      by (rule speedsOrdered_cong) (simp_all add: r)
    with tail [OF t] show ?thesis by simp
  next
    fix r1 m tv fl flLF rs
    assume "speedUpdate (r1\<lparr>flex := fl, params := (params r1)\<lparr>flexLimitingFactor := flLF\<rparr>\<rparr>) rs"
      "r = assignStabTrim rs"
    then show ?thesis by (simp add: speedUpdate_ordered)
  next
    fix r1 m tv rs
    assume "speedUpdate (r1\<lparr>flex := None\<rparr>) rs" "r = assignStabTrim rs"
    then show ?thesis by (simp add: speedUpdate_ordered)
  qed
qed

lemma weightStage_error:
  assumes "error r0 = ErrorNone" and "weightStage r0 = Inr (r, m, tv)"
  shows "error r = ErrorNone \<or> error r = TooLight"
  using weightStage_fields(13) [OF assms(2)] assms(1) by simp

section \<open>When the calculation returns\<close>

lemma vspeeds_total:
  assumes "runwayCondition (inputs r) \<noteq> Contaminated30mmWetSnow"
  shows "\<exists>r'. calculateVSpeeds r f tv = Inr r'"
proof -
  obtain e a b c where
    rd: "calculateDryVSpeeds r f = r\<lparr>error := e, intermediateSpeeds := Some \<lparr>dryV1 = a, dryVR = b, dryV2 = c\<rparr>\<rparr>"
    using dry_props [of r f] by blast
  show ?thesis
  proof (cases "runwayCondition (inputs r) = Dry \<or> runwayCondition (inputs r) = Wet")
    case True
    then show ?thesis
      by (auto simp add: calculateVSpeeds_def rd Let_def split: prod.splits)
  next
    case False
    with assms obtain t where "contamVSpeeds (runwayCondition (inputs r)) = Some t"
      by (cases "runwayCondition (inputs r)") auto
    with False show ?thesis
      by (auto simp add: calculateVSpeeds_def Let_def split: prod.splits)
  qed
qed

lemma speedStage_total:
  assumes "runwayCondition (inputs r) \<noteq> Contaminated30mmWetSnow"
  shows "\<exists>r'. map_sum id assignStabTrim (calculateVSpeeds r f tv) = Inr r'"
  using vspeeds_total [OF assms, of f tv] by auto

lemma flexTemp_total:
  assumes "weightStage r0 = Inr (r1, m, tv)"
  shows "\<exists>fl flLF. calculateFlexTemp (r1\<lparr>flex := None\<rparr>) tv' = Inr (fl, flLF)"
  using weightStage_fields(3,5,6,7) [OF assms]
  by (simp add: calculateFlexTemp_def)

lemma calc_returns_no_toga:
  assumes rc: "runwayCondition i \<noteq> Contaminated30mmWetSnow" and nt: "\<not> forceToga i"
  shows "\<exists>r. calculateTakeoffPerformance i = Inr r"
proof (cases "error (initialResult i) = ErrorNone")
  case False
  then show ?thesis by (simp add: calc_invalid)
next
  case True
  obtain r1 m tv where ws: "weightStage (initialResult i) = Inr (r1, m, tv)"
    using weightStage_total by blast
  have i: "inputs r1 = i"
    using weightStage_fields(1) [OF ws] by simp
  obtain fl flLF where ft: "calculateFlexTemp (r1\<lparr>flex := None\<rparr>) tv = Inr (fl, flLF)"
    using flexTemp_total [OF ws] by blast
  have s1: "\<exists>r'. map_sum id assignStabTrim (calculateVSpeeds (r1\<lparr>flex := None\<rparr>) f tv) = Inr r'" for f
    by (rule speedStage_total) (simp add: i rc)
  have s2: "\<exists>r'. map_sum id assignStabTrim
      (calculateVSpeeds (r1\<lparr>flex := fl, params := (params r1)\<lparr>flexLimitingFactor := flLF\<rparr>\<rparr>) f tv) = Inr r'" for f
    by (rule speedStage_total) (simp add: i rc)
  show ?thesis
    unfolding calc_valid [OF True ws]
    using nt s1 s2 by (simp add: ft)
qed

lemma calc_returns:
  assumes rc: "runwayCondition i \<noteq> Contaminated30mmWetSnow"
  shows "\<exists>r. calculateTakeoffPerformance i = Inr r"
proof (cases "forceToga i")
  case False
  with rc show ?thesis by (rule calc_returns_no_toga)
next
  case toga: True
  show ?thesis
  proof (cases "error (initialResult i) = ErrorNone")
    case False
    then show ?thesis by (simp add: calc_invalid)
  next
    case True
    obtain r1 m tv where ws: "weightStage (initialResult i) = Inr (r1, m, tv)"
      using weightStage_total by blast
    have i: "inputs r1 = i"
      using weightStage_fields(1) [OF ws] by simp
    obtain tw where tw: "calculateTakeoffPerformance (i\<lparr>wind := -15, forceToga := False\<rparr>) = Inr tw"
      using calc_returns_no_toga [of "i\<lparr>wind := -15, forceToga := False\<rparr>"] rc by auto
    have s1: "\<exists>r'. map_sum id assignStabTrim (calculateVSpeeds (r1\<lparr>flex := None\<rparr>) f tv) = Inr r'" for f
      by (rule speedStage_total) (simp add: i rc)
    show ?thesis
      unfolding calc_valid [OF True ws]
      using toga s1 by (simp add: tw)
  qed
qed

section \<open>The MTOW\<close>

lemma calc_weight_fields:
  assumes ok: "error (initialResult i) = ErrorNone" and ret: "calculateTakeoffPerformance i = Inr r"
  obtains r1 m tv where "weightStage (initialResult i) = Inr (r1, m, tv)"
    "inputs r = i" "params r1 = params (initialResult i)"
    "limits r = limits r1" "oatLimitingFactor r = oatLimitingFactor r1"
    "tRefLimitingFactor r = tRefLimitingFactor r1" "mtow r = Some m"
    "error r = TooHeavy \<longleftrightarrow> \<not> jge (comparedMtow i (oatLimitingFactor r1) m) (Num (tow i))"
proof -
  from ok ret show thesis
  proof (rule calc_cases)
    fix r1 m tv
    assume ws: "weightStage (initialResult i) = Inr (r1, m, tv)"
      and c: "\<not> jge (comparedMtow i (oatLimitingFactor r1) m) (Num (tow i))"
      and r: "r = assignStabTrim (r1\<lparr>error := TooHeavy\<rparr>)"
    note f = weightStage_fields [OF ws]
    show thesis
      by (rule that [OF ws]) (use f c in \<open>simp_all add: r\<close>)
  next
    fix r1 m tv tw
    assume ws: "weightStage (initialResult i) = Inr (r1, m, tv)"
      and c: "jge (comparedMtow i (oatLimitingFactor r1) m) (Num (tow i))"
      and r: "r = assignStabTrim (r1\<lparr>flex := None, v1 := v1 tw, vR := vR tw, v2 := v2 tw,
                        intermediateSpeeds := intermediateSpeeds tw\<rparr>)"
    note f = weightStage_fields [OF ws]
    have "error r \<noteq> TooHeavy"
      using weightStage_error [OF ok ws] by (auto simp add: r)
    then show thesis
      by (intro that [OF ws]) (use f c in \<open>simp_all add: r\<close>)
  next
    fix r1 m tv fl flLF rs
    assume ws: "weightStage (initialResult i) = Inr (r1, m, tv)"
      and c: "jge (comparedMtow i (oatLimitingFactor r1) m) (Num (tow i))"
      and su: "speedUpdate (r1\<lparr>flex := fl, params := (params r1)\<lparr>flexLimitingFactor := flLF\<rparr>\<rparr>) rs"
      and r: "r = assignStabTrim rs"
    note f = weightStage_fields [OF ws]
    note g = speedUpdate_fields [OF su]
    have "error r \<noteq> TooHeavy"
      using weightStage_error [OF ok ws] g(8) by (auto simp add: r)
    then show thesis
      by (intro that [OF ws]) (use f g c in \<open>simp_all add: r\<close>)
  next
    fix r1 m tv rs
    assume ws: "weightStage (initialResult i) = Inr (r1, m, tv)"
      and c: "jge (comparedMtow i (oatLimitingFactor r1) m) (Num (tow i))"
      and su: "speedUpdate (r1\<lparr>flex := None\<rparr>) rs"
      and r: "r = assignStabTrim rs"
    note f = weightStage_fields [OF ws]
    note g = speedUpdate_fields [OF su]
    have "error r \<noteq> TooHeavy"
      using weightStage_error [OF ok ws] g(8) by (auto simp add: r)
    then show thesis
      by (intro that [OF ws]) (use f g c in \<open>simp_all add: r\<close>)
  qed
qed

lemma mtow_value:
  assumes ok: "error (initialResult i) = ErrorNone" and ret: "calculateTakeoffPerformance i = Inr r"
  shows "\<exists>m tooLight.
           resolveMtow (initialResult i) (calculateTvmcg i (params (initialResult i))) (dryMtow i) = Inr (m, tooLight)
           \<and> mtow r = Some m \<and> ceilingOfTRefFactor oatLimit r = Some (dryMtow i)"
proof -
  from ok ret obtain r1 m tv where ws: "weightStage (initialResult i) = Inr (r1, m, tv)"
    and "inputs r = i" "params r1 = params (initialResult i)"
    and f: "limits r = limits r1" "oatLimitingFactor r = oatLimitingFactor r1"
       "tRefLimitingFactor r = tRefLimitingFactor r1" "mtow r = Some m"
       "error r = TooHeavy \<longleftrightarrow> \<not> jge (comparedMtow i (oatLimitingFactor r1) m) (Num (tow i))"
    by (rule calc_weight_fields)
  note g = weightStage_fields [OF ws]
  from weightStage_props [OF ws] obtain tooLight where
    "resolveMtow (initialResult i) (calculateTvmcg i (params (initialResult i))) (dryMtow i) = Inr (m, tooLight)"
    by (auto simp add: dryMtow_def Let_def)
  moreover have "ceilingOfTRefFactor oatLimit r = Some (dryMtow i)"
    by (simp add: ceilingOfTRefFactor_def f g dryMtow_def Let_def)
  ultimately show ?thesis
    using f(4) by blast
qed

lemma dry_mtow_value:
  assumes ok: "error (initialResult i) = ErrorNone" and dry: "runwayCondition i = Dry"
  shows "\<exists>r. calculateTakeoffPerformance i = Inr r \<and> mtow r = Some (dryMtow i)
            \<and> ceilingOfTRefFactor oatLimit r = Some (dryMtow i)"
proof -
  obtain r where ret: "calculateTakeoffPerformance i = Inr r"
    using calc_returns [of i] dry by auto
  from mtow_value [OF ok ret] dry have "mtow r = Some (dryMtow i)"
    and "ceilingOfTRefFactor oatLimit r = Some (dryMtow i)"
    by (auto simp add: resolveMtow_def)
  with ret show ?thesis by blast
qed












lemma jsub_Num: "a = Num x \<Longrightarrow> b = Num y \<Longrightarrow> \<exists>z. jsub a b = Num z"
  by (simp add: jsub_def)





section \<open>Bounds of a table lookup\<close>

lemma floorEntry_props:
  "floorEntry x bps = Some (k, y) \<Longrightarrow> (k, y) \<in> set bps \<and> k \<le> x"
  by (induction bps arbitrary: k y) (auto split: option.splits if_splits)

lemma ceilEntry_props:
  "ceilEntry x bps = Some (k, y) \<Longrightarrow> (k, y) \<in> set bps \<and> x \<le> k"
  by (induction bps arbitrary: k y) (auto split: option.splits if_splits)

lemma lerp_le:
  assumes "k0 \<le> x" "x \<le> k1" "y0 \<le> M" "y1 \<le> (M :: real)"
  shows "lerp x k0 k1 y0 y1 \<le> M"
proof (cases "k0 \<noteq> k1 \<and> y0 \<noteq> y1")
  case False
  with assms show ?thesis by (auto simp add: lerp_def)
next
  case True
  define t where "t = (x - k0) / (k1 - k0)"
  from True assms have t: "0 \<le> t" "t \<le> 1"
    by (simp_all add: t_def)
  have "lerp x k0 k1 y0 y1 = t * (y1 - y0) + y0"
    using True by (simp add: lerp_def t_def)
  also have "\<dots> = (1 - t) * y0 + t * y1"
    by (simp add: algebra_simps)
  also have "\<dots> \<le> (1 - t) * M + t * M"
    using t assms(3,4) by (intro add_mono mult_left_mono) simp_all
  also have "\<dots> = M"
    by (simp add: algebra_simps)
  finally show ?thesis .
qed

lemma lookup1_le:
  assumes "\<And>k y. (k, y) \<in> set bps \<Longrightarrow> y \<le> M" and "0 \<le> M"
  shows "lookup1 bps x \<le> M"
proof -
  have f: "floorEntry x bps = Some (k, y) \<Longrightarrow> y \<le> M \<and> k \<le> x" for k y
    using floorEntry_props [of x bps k y] assms(1) by blast
  have c: "ceilEntry x bps = Some (k, y) \<Longrightarrow> y \<le> M \<and> x \<le> k" for k y
    using ceilEntry_props [of x bps k y] assms(1) by blast
  show ?thesis
  proof (cases "floorEntry x bps")
    case None
    show ?thesis
    proof (cases "ceilEntry x bps")
      case None
      with \<open>floorEntry x bps = None\<close> assms(2) show ?thesis
        by (simp add: lookup1_def)
    next
      case (Some q)
      obtain k y where "q = (k, y)" by (cases q)
      with Some \<open>floorEntry x bps = None\<close> c [of k y] show ?thesis
        by (simp add: lookup1_def)
    qed
  next
    case (Some p)
    obtain k0 y0 where p: "p = (k0, y0)" by (cases p)
    show ?thesis
    proof (cases "ceilEntry x bps")
      case None
      with Some p f [of k0 y0] show ?thesis
        by (simp add: lookup1_def)
    next
      case Some': (Some q)
      obtain k1 y1 where q: "q = (k1, y1)" by (cases q)
      from Some p f [of k0 y0] Some' q c [of k1 y1] show ?thesis
        by (simp add: lookup1_def lerp_le)
    qed
  qed
qed

lemma v1Floor_le: "v1Floor r \<le> 122"
proof -
  have "LerpLookupTable_get minimumV1Vmc (pressureAlt (params r)) \<le> 122"
    unfolding LerpLookupTable_get_def
    by (rule lookup1_le) (auto simp add: minimumV1Vmc_def)
  then have "\<lceil>LerpLookupTable_get minimumV1Vmc (pressureAlt (params r))\<rceil> \<le> 122"
    by (simp add: ceiling_le_iff)
  then show ?thesis
    unfolding v1Floor_def Math_ceil_def by linarith
qed

section \<open>The head of the sorted candidates\<close>

lemma insertSorted_nonempty: "insertSorted cmp a bs \<noteq> []"
  by (cases bs) simp_all

lemma sortWith_nonempty: "xs \<noteq> [] \<Longrightarrow> sortWith cmp xs \<noteq> []"
  by (cases xs) (simp_all add: insertSorted_nonempty)

lemma hd_insertSorted:
  "hd (insertSorted cmp a bs) = (if bs = [] \<or> cmp a (hd bs) \<le> 0 then a else hd bs)"
  by (cases bs) simp_all

lemma hd_sortWith_Cons:
  "hd (sortWith cmp (a # as)) =
     (if as = [] \<or> cmp a (hd (sortWith cmp as)) \<le> 0 then a else hd (sortWith cmp as))"
  by (simp add: hd_insertSorted) (cases as; simp add: insertSorted_nonempty)

lemma orZero_flex_inj:
  "flex x \<noteq> Some 0 \<Longrightarrow> flex y \<noteq> Some 0 \<Longrightarrow> orZero (flex x) = orZero (flex y) \<Longrightarrow> flex x = flex y"
  by (cases "flex x"; cases "flex y") (simp_all add: orZero_def)

lemma hd_sortWith_best:
  assumes "xs \<noteq> []"
  shows "hd (sortWith compareResults xs) \<in> set xs
     \<and> (\<forall>x \<in> set xs. orZero (flex x) \<le> orZero (flex (hd (sortWith compareResults xs))))
     \<and> ((\<forall>x \<in> set xs. flex x \<noteq> Some 0) \<longrightarrow>
          (\<forall>x \<in> set xs. flex x = flex (hd (sortWith compareResults xs)) \<longrightarrow>
             orZero (v1 (hd (sortWith compareResults xs))) \<le> orZero (v1 x)))"
  using assms
proof (induction xs)
  case Nil
  then show ?case by simp
next
  case (Cons a as)
  show ?case
  proof (cases "as = []")
    case True
    then show ?thesis by simp
  next
    case False
    define h where "h = hd (sortWith compareResults as)"
    from Cons.IH [OF False] have mem: "h \<in> set as"
      and mx: "\<And>x. x \<in> set as \<Longrightarrow> orZero (flex x) \<le> orZero (flex h)"
      and tie: "\<And>x. (\<forall>x \<in> set as. flex x \<noteq> Some 0) \<Longrightarrow> x \<in> set as \<Longrightarrow> flex x = flex h
                  \<Longrightarrow> orZero (v1 h) \<le> orZero (v1 x)"
      unfolding h_def by blast+
    have hd: "hd (sortWith compareResults (a # as)) = (if compareResults a h \<le> 0 then a else h)"
      unfolding h_def hd_sortWith_Cons using False by simp
    show ?thesis
    proof (cases "compareResults a h \<le> 0")
      case le: True
      have fa: "orZero (flex h) \<le> orZero (flex a)"
        using le by (simp add: compareResults_def split: if_splits)
      have t: "orZero (v1 a) \<le> orZero (v1 x)"
        if nz: "\<forall>x \<in> set (a # as). flex x \<noteq> Some 0" and x: "x \<in> set as" "flex x = flex a" for x
      proof -
        have "orZero (flex x) = orZero (flex h)"
          using mx [OF x(1)] fa x(2) by simp
        with nz x(1) mem have "flex x = flex h"
          by (intro orZero_flex_inj) auto
        with x(2) le have "orZero (v1 a) \<le> orZero (v1 h)"
          by (simp add: compareResults_def)
        moreover have "orZero (v1 h) \<le> orZero (v1 x)"
          using tie [of x] nz x(1) \<open>flex x = flex h\<close> by simp
        ultimately show ?thesis by simp
      qed
      show ?thesis
        unfolding hd using le fa mx t by (auto intro: order_trans)
    next
      case gt: False
      have fa: "orZero (flex a) \<le> orZero (flex h)"
        and va: "flex a = flex h \<Longrightarrow> orZero (v1 h) \<le> orZero (v1 a)"
        using gt by (simp_all add: compareResults_def split: if_splits)
      show ?thesis
        unfolding hd using gt fa va mem mx tie by auto
    qed
  qed
qed

lemma selectedFrom_sorted:
  "selectedFrom results
     (if length (filter (\<lambda>r. error r = ErrorNone) results) = 0 then last results
      else hd (sortWith compareResults (filter (\<lambda>r. error r = ErrorNone) results)))"
proof (cases "filter (\<lambda>r. error r = ErrorNone) results = []")
  case True
  then show ?thesis by (simp add: selectedFrom_def)
next
  case False
  from hd_sortWith_best [OF False] False show ?thesis
    unfolding selectedFrom_def Let_def by simp
qed

text \<open>Where the three calculations return, that is for every runway condition but
  \<open>Contaminated30mmWetSnow\<close>, \<open>calculateTakeoffPerformanceOptConf\<close> answers the JSON copy of
  the result that \<open>selectedFrom\<close> describes.\<close>

lemma optConf_selection:
  assumes "runwayCondition i \<noteq> Contaminated30mmWetSnow"
  shows "\<exists>r1 r2 r3 r.
           calculateTakeoffPerformance (i\<lparr>conf := 1\<rparr>) = Inr r1
         \<and> calculateTakeoffPerformance (i\<lparr>conf := 2\<rparr>) = Inr r2
         \<and> calculateTakeoffPerformance (i\<lparr>conf := 3\<rparr>) = Inr r3
         \<and> calculateTakeoffPerformanceOptConf i = Inr (deepCopy r)
         \<and> selectedFrom [r1, r2, r3] r"
proof -
  obtain r1 where r1: "calculateTakeoffPerformance (i\<lparr>conf := 1\<rparr>) = Inr r1"
    using calc_returns [of "i\<lparr>conf := 1\<rparr>"] assms by auto
  obtain r2 where r2: "calculateTakeoffPerformance (i\<lparr>conf := 2\<rparr>) = Inr r2"
    using calc_returns [of "i\<lparr>conf := 2\<rparr>"] assms by auto
  obtain r3 where r3: "calculateTakeoffPerformance (i\<lparr>conf := 3\<rparr>) = Inr r3"
    using calc_returns [of "i\<lparr>conf := 3\<rparr>"] assms by auto
  define r where "r = (if length (filter (\<lambda>r. error r = ErrorNone) [r1, r2, r3]) = 0 then last [r1, r2, r3]
      else hd (sortWith compareResults (filter (\<lambda>r. error r = ErrorNone) [r1, r2, r3])))"
  have ret: "calculateTakeoffPerformanceOptConf i = Inr (deepCopy r)"
    unfolding calculateTakeoffPerformanceOptConf_def r1 r2 r3 r_def
    by (simp add: bindE_def Let_def)
  have sel: "selectedFrom [r1, r2, r3] r"
    unfolding r_def by (rule selectedFrom_sorted)
  from r1 r2 r3 ret sel show ?thesis
    by blast
qed

section \<open>The wet-runway tables\<close>









section \<open>Above Tflexmax\<close>






section \<open>A pressure altitude below sea level\<close>




section \<open>The claims\<close>

subsection \<open>C1: the MTOW on a wet runway\<close>



subsection \<open>C2: the MTOW on a dry runway\<close>

text \<open>
  Claim C2, as the code has it. For inputs that pass validation with runway condition Dry
  the calculation returns, and the MTOW of the result is the weight ceiling at the actual
  OAT (\<open>oatLimit\<close>, after the bleed deduction) of the limiting factor that governs at Tref;
  it is not that factor's ceiling at Tref (\<open>tRefLimit\<close>).
\<close>

theorem dry_mtow_is_oat_ceiling:
  assumes ok: "error (initialResult i) = ErrorNone" and dry: "runwayCondition i = Dry"
  shows "\<exists>r. calculateTakeoffPerformance i = Inr r \<and> mtow r \<noteq> None
            \<and> mtow r = ceilingOfTRefFactor oatLimit r"
  using dry_mtow_value [OF ok dry] by auto

text \<open>The theorem at the dry runway of 1500 m.\<close>

theorem dry_mtow_is_oat_ceiling_witness:
  "error (initialResult exDry) = ErrorNone \<and> runwayCondition exDry = Dry
   \<and> (\<exists>r. calculateTakeoffPerformance exDry = Inr r \<and> mtow r \<noteq> None
            \<and> mtow r = ceilingOfTRefFactor oatLimit r)"
proof -
  have dry: "runwayCondition exDry = Dry"
    by (simp add: example_defs)
  from dry_mtow_is_oat_ceiling [OF examples_valid(1) dry] examples_valid(1) dry show ?thesis
    by blast
qed

text \<open>On that runway the OAT is 15 degrees and Tref is 44 degrees; Vmcg governs at Tref. The
  MTOW is 77074 kg, the ceiling of Vmcg at the OAT, and the ceiling of Vmcg at Tref is
  73913 kg.\<close>

theorem dry_mtow_not_tref_ceiling_example:
  "mtow (projr (calculateTakeoffPerformance exDry)) = Some (Num 77074)
   \<and> ceilingOfTRefFactor tRefLimit (projr (calculateTakeoffPerformance exDry)) = Some (Num 73913)
   \<and> ceilingOfTRefFactor oatLimit (projr (calculateTakeoffPerformance exDry)) = Some (Num 77074)"
proof -
  from exDry_run obtain r where "calculateTakeoffPerformance exDry = Inr r"
    "mtow r = Some (Num 77074)" "ceilingOfTRefFactor tRefLimit r = Some (Num 73913)"
    "ceilingOfTRefFactor oatLimit r = Some (Num 77074)" by blast
  then show ?thesis by simp
qed

subsection \<open>C3: error codes and the speed and flex fields\<close>

text \<open>
  Claim C3, as the code has it. A result carries one error code (the field \<open>error\<close>). When
  the code is one of the eight codes of the validator or \<open>TooHeavy\<close>, the calculation ended
  before the speeds: V1, VR, V2 and the flex temperature of the result are unset. The other
  codes, \<open>TooLight\<close>, \<open>VmcgVmcaLimits\<close> and \<open>MaximumTireSpeed\<close>, are set on the way and the
  calculation goes on to the speeds, so they are left out here.
\<close>

theorem early_error_without_speeds:
  assumes ret: "calculateTakeoffPerformance i = Inr r" and early: "endsBeforeSpeeds (error r)"
  shows "v1 r = None \<and> vR r = None \<and> v2 r = None \<and> flex r = None"
proof (cases "error (initialResult i) = ErrorNone")
  case False
  with ret show ?thesis
    by (simp add: calc_invalid) auto
next
  case True
  from True ret show ?thesis
  proof (rule calc_cases)
    fix r1 m tv
    assume ws: "weightStage (initialResult i) = Inr (r1, m, tv)"
      and r: "r = assignStabTrim (r1\<lparr>error := TooHeavy\<rparr>)"
    show ?thesis
      using weightStage_fields(9-12) [OF ws] by (simp add: r)
  next
    fix r1 m tv tw
    assume ws: "weightStage (initialResult i) = Inr (r1, m, tv)"
      and r: "r = assignStabTrim (r1\<lparr>flex := None, v1 := v1 tw, vR := vR tw, v2 := v2 tw,
                        intermediateSpeeds := intermediateSpeeds tw\<rparr>)"
    have "error r = ErrorNone \<or> error r = TooLight"
      using weightStage_error [OF True ws] by (simp add: r)
    with early show ?thesis
      by (auto simp add: endsBeforeSpeeds_def)
  next
    fix r1 m tv fl flLF rs
    assume ws: "weightStage (initialResult i) = Inr (r1, m, tv)"
      and su: "speedUpdate (r1\<lparr>flex := fl, params := (params r1)\<lparr>flexLimitingFactor := flLF\<rparr>\<rparr>) rs"
      and r: "r = assignStabTrim rs"
    have "error r = ErrorNone \<or> error r = TooLight \<or> error r = VmcgVmcaLimits \<or> error r = MaximumTireSpeed"
      using weightStage_error [OF True ws] speedUpdate_fields(8) [OF su] by (auto simp add: r)
    with early show ?thesis
      by (auto simp add: endsBeforeSpeeds_def)
  next
    fix r1 m tv rs
    assume ws: "weightStage (initialResult i) = Inr (r1, m, tv)"
      and su: "speedUpdate (r1\<lparr>flex := None\<rparr>) rs"
      and r: "r = assignStabTrim rs"
    have "error r = ErrorNone \<or> error r = TooLight \<or> error r = VmcgVmcaLimits \<or> error r = MaximumTireSpeed"
      using weightStage_error [OF True ws] speedUpdate_fields(8) [OF su] by (auto simp add: r)
    with early show ?thesis
      by (auto simp add: endsBeforeSpeeds_def)
  qed
qed

text \<open>The theorem at the dry runway of 1500 m, where the takeoff weight is above the MTOW.\<close>

theorem early_error_without_speeds_witness:
  "endsBeforeSpeeds (error (projr (calculateTakeoffPerformance exDry)))
   \<and> error (projr (calculateTakeoffPerformance exDry)) = TooHeavy
   \<and> v1 (projr (calculateTakeoffPerformance exDry)) = None
   \<and> vR (projr (calculateTakeoffPerformance exDry)) = None
   \<and> v2 (projr (calculateTakeoffPerformance exDry)) = None
   \<and> flex (projr (calculateTakeoffPerformance exDry)) = None"
proof -
  from exDry_run obtain r where r: "calculateTakeoffPerformance exDry = Inr r" "error r = TooHeavy"
    by blast
  then have e: "endsBeforeSpeeds (error r)"
    by (simp add: endsBeforeSpeeds_def)
  from early_error_without_speeds [OF r(1) e] r e show ?thesis
    by simp
qed

text \<open>With configuration 3 on the runway covered with water the corrected weight is below
  the minimum of the contaminated data: the result carries \<open>TooLight\<close> together with the
  three speeds.\<close>

theorem too_light_with_speeds_example:
  "error (projr (calculateTakeoffPerformance exTooLight)) = TooLight
   \<and> v1 (projr (calculateTakeoffPerformance exTooLight)) = Some 122
   \<and> vR (projr (calculateTakeoffPerformance exTooLight)) = Some 126
   \<and> v2 (projr (calculateTakeoffPerformance exTooLight)) = Some 126"
proof -
  from exTooLight_run obtain r where "calculateTakeoffPerformance exTooLight = Inr r"
    "error r = TooLight" "v1 r = Some 122" "vR r = Some 126" "v2 r = Some 126" by blast
  then show ?thesis by simp
qed

subsection \<open>C4: the tire-speed step of the reconciliation\<close>

text \<open>
  Claim C4, as the code has it. Let \<open>c\<close> be the corrected V2 and \<open>vRBeforeTireStep\<close> the VR
  that reaches the tire-speed step. When \<open>c\<close> is at most 195 knots the step changes nothing:
  VR stays and no tire-speed error is raised. When \<open>c\<close> exceeds 195 and VR exceeds 195, the
  result is flagged \<open>MaximumTireSpeed\<close>. When \<open>c\<close> exceeds 195 and VR does not, no tire-speed
  error is raised: VR is limited to the ceiling \<open>195 - (c - 195)\<close>, and when that lowers VR
  below its minimum-control-speed floor the result is flagged \<open>VmcgVmcaLimits\<close>.
\<close>

theorem tire_speed_rule:
  assumes "reconcileVSpeeds r v1In vRIn v2In = (r', a, b, c)"
  shows "c = Math_round (max v2In (v2Floor r))
     \<and> (c \<le> 195 \<longrightarrow>
          b = vRBeforeTireStep r vRIn c \<and> (error r' = MaximumTireSpeed \<longrightarrow> error r = MaximumTireSpeed))
     \<and> (195 < c \<and> 195 < vRBeforeTireStep r vRIn c \<longrightarrow>
          b = vRBeforeTireStep r vRIn c \<and> error r' = MaximumTireSpeed)
     \<and> (195 < c \<and> vRBeforeTireStep r vRIn c \<le> 195 \<longrightarrow>
          b = min (vRBeforeTireStep r vRIn c) (195 - (c - 195))
          \<and> (error r' = MaximumTireSpeed \<longrightarrow> error r = MaximumTireSpeed)
          \<and> (195 - (c - 195) < vRBeforeTireStep r vRIn c \<and> 195 - (c - 195) < vRFloor r
               \<longrightarrow> error r' = VmcgVmcaLimits))"
proof -
  define vR0 where "vR0 = Math_round (max vRIn (vRFloor r))"
  define v10 where "v10 = Math_round (max v1In (v1Floor r))"
  from assms have c: "c = Math_round (max v2In (v2Floor r))"
    and b: "b = tireClamp vR0 c"
    and e: "error r' = reconcileError (v1Floor r) (vRFloor r) v10 vR0 c (error r)"
    unfolding reconcile_char vR0_def v10_def by auto
  have v: "vRBeforeTireStep r vRIn c = min vR0 c"
    by (simp add: vRBeforeTireStep_def vR0_def)
  have m1: "v1Floor r \<le> 122"
    by (rule v1Floor_le)
  have low: "c \<le> 195 \<longrightarrow>
          b = min vR0 c \<and> (error r' = MaximumTireSpeed \<longrightarrow> error r = MaximumTireSpeed)"
    by (auto simp add: b e tireClamp_def reconcileError_def Let_def split: if_splits)
  have high: "195 < c \<and> 195 < min vR0 c \<longrightarrow> b = min vR0 c \<and> error r' = MaximumTireSpeed"
    using m1 by (auto simp add: b e tireClamp_def reconcileError_def Let_def)
  have mid: "195 < c \<and> min vR0 c \<le> 195 \<longrightarrow>
          b = min (min vR0 c) (195 - (c - 195))
          \<and> (error r' = MaximumTireSpeed \<longrightarrow> error r = MaximumTireSpeed)
          \<and> (195 - (c - 195) < min vR0 c \<and> 195 - (c - 195) < vRFloor r \<longrightarrow> error r' = VmcgVmcaLimits)"
    by (auto simp add: b e tireClamp_def reconcileError_def Let_def split: if_splits)
  from c low high mid show ?thesis
    unfolding v by blast
qed

text \<open>The theorem at sea level, configuration 1+F and 300 t, for the speeds 140, 193 and 200
  knots: V2 exceeds 195, VR does not, and VR is limited to 190.\<close>

theorem tire_speed_rule_witness:
  "reconcileVSpeeds (initialResult exContaminated) 140 193 200 = (initialResult exContaminated, 140, 190, 200)
   \<and> vRBeforeTireStep (initialResult exContaminated) 193 200 = 193
   \<and> (190 :: real) = min (vRBeforeTireStep (initialResult exContaminated) 193 200) (195 - (200 - 195))
   \<and> error (initialResult exContaminated) \<noteq> MaximumTireSpeed"
proof -
  have eq: "reconcileVSpeeds (initialResult exContaminated) 140 193 200 = (initialResult exContaminated, 140, 190, 200)"
    by (simp add: example_defs eval_defs Let_def cong: let_weak_cong)
  have v: "vRBeforeTireStep (initialResult exContaminated) 193 200 = 193"
    by (simp add: vRBeforeTireStep_def vRFloor_def example_defs eval_defs Let_def cong: let_weak_cong)
  from tire_speed_rule [OF eq] eq v examples_valid(4) show ?thesis
    by simp
qed

text \<open>There, for the speeds 140, 150 and 200 knots, the corrected V2 is 200 knots, above
  195, and the result is not flagged: its error code stays \<open>None\<close>.\<close>

theorem v2_above_tire_speed_not_flagged_example:
  "reconcileVSpeeds (initialResult exContaminated) 140 150 200 = (initialResult exContaminated, 140, 150, 200)
   \<and> error (initialResult exContaminated) = ErrorNone \<and> (195 :: real) < 200"
  by (simp add: example_defs eval_defs Let_def cong: let_weak_cong)

subsection \<open>C5: the order of the speeds\<close>

text \<open>
  Claim C5. In every result with error \<open>None\<close> that \<open>calculateTakeoffPerformance\<close> returns, on
  a dry, wet or contaminated runway, with or without forced maximum thrust, the three
  speeds are set, V1 \<open>\<le>\<close> VR \<open>\<le>\<close> V2, and each is a whole number.
\<close>

theorem successful_speeds_ordered:
  assumes "calculateTakeoffPerformance i = Inr r" and "error r = ErrorNone"
  shows "speedsOrdered r"
proof (rule ordered_step [OF assms])
  fix tw
  assume "calculateTakeoffPerformance (i\<lparr>wind := -15, forceToga := False\<rparr>) = Inr tw" "error tw = ErrorNone"
  then show "speedsOrdered tw"
    by (rule ordered_step) simp
qed

text \<open>The theorem at the runway covered with water: 122, 125 and 127 knots.\<close>

theorem successful_speeds_ordered_witness:
  "error (projr (calculateTakeoffPerformance exContaminated)) = ErrorNone
   \<and> speedsOrdered (projr (calculateTakeoffPerformance exContaminated))
   \<and> v1 (projr (calculateTakeoffPerformance exContaminated)) = Some 122
   \<and> vR (projr (calculateTakeoffPerformance exContaminated)) = Some 125
   \<and> v2 (projr (calculateTakeoffPerformance exContaminated)) = Some 127"
proof -
  from exContaminated_run obtain r where r: "calculateTakeoffPerformance exContaminated = Inr r"
    "error r = ErrorNone" "v1 r = Some 122" "vR r = Some 125" "v2 r = Some 127" by blast
  from successful_speeds_ordered [OF r(1,2)] r show ?thesis
    by simp
qed

subsection \<open>C6: the validator\<close>

text \<open>
  Claim C6. \<open>checkInputs\<close> answers the error code of the first violated condition of the
  eight conditions of \<open>validationRules\<close>, in their order (configuration in 1, 2, 3; takeoff
  weight at most the structural MTOW; pressure altitude at most the maximum certified; OAT
  at most Tmax; takeoff weight at least the OEW; a supplied CG within the envelope at that
  weight; tailwind at most the maximum certified; slope magnitude at most 2 percent), and
  \<open>None\<close> when none is violated.
\<close>

theorem checkInputs_first_violated:
  "checkInputs i p = firstViolated (validationRules i p)"
  by (cases "cg i") (auto simp add: checkInputs_def validationRules_def cgEnvelope_def isCgWithinLimits_def Let_def)

subsection \<open>C7: the limiting factor\<close>




subsection \<open>C8: the forward-CG correction of the MTOW\<close>

text \<open>
  Claim C8, as the code has it. For inputs that pass validation, the MTOW carried in the
  result is the MTOW before the forward-CG correction. The weight that is compared with the
  takeoff weight, \<open>comparedMtow\<close>, is that MTOW increased by \<open>max 0 (a * MTOW + b)\<close>, with the
  coefficients of the configuration, when the forward-CG flag is set and the factor that
  governs at OAT is Runway or Vmcg, and the MTOW itself otherwise; it is never below the
  MTOW. The result carries \<open>TooHeavy\<close> exactly when the compared weight is not at least the
  takeoff weight.
\<close>

theorem forward_cg_bump_compared_only:
  assumes ok: "error (initialResult i) = ErrorNone" and ret: "calculateTakeoffPerformance i = Inr r"
  shows "\<exists>m. mtow r = Some m
           \<and> (error r = TooHeavy) = (\<not> jge (comparedMtow i (oatLimitingFactor r) m) (Num (tow i)))
           \<and> (m = NaN \<or> jle m (comparedMtow i (oatLimitingFactor r) m))
           \<and> comparedMtow i (oatLimitingFactor r) m =
               (if forwardCg i \<and> (oatLimitingFactor r = Some Runway \<or> oatLimitingFactor r = Some Vmcg)
                then jmap (\<lambda>x. x + max 0 (cgFactors (conf i) ! 0 * x + cgFactors (conf i) ! 1)) m
                else m)"
proof -
  from ok ret obtain r1 m tv where "weightStage (initialResult i) = Inr (r1, m, tv)"
    "inputs r = i" "params r1 = params (initialResult i)" "limits r = limits r1"
    and f: "oatLimitingFactor r = oatLimitingFactor r1" "tRefLimitingFactor r = tRefLimitingFactor r1"
       "mtow r = Some m"
       "error r = TooHeavy \<longleftrightarrow> \<not> jge (comparedMtow i (oatLimitingFactor r1) m) (Num (tow i))"
    by (rule calc_weight_fields)
  have "m = NaN \<or> jle m (comparedMtow i (oatLimitingFactor r) m)"
    by (cases m) (simp_all add: comparedMtow_def)
  with f show ?thesis
    by (auto simp add: comparedMtow_def)
qed

text \<open>The theorem at the dry runway of no length with a forward centre of gravity.\<close>

theorem forward_cg_bump_compared_only_witness:
  "error (initialResult exForwardCg) = ErrorNone
   \<and> (\<exists>m. mtow (projr (calculateTakeoffPerformance exForwardCg)) = Some m
        \<and> (error (projr (calculateTakeoffPerformance exForwardCg)) = TooHeavy) =
            (\<not> jge (comparedMtow exForwardCg (oatLimitingFactor (projr (calculateTakeoffPerformance exForwardCg))) m)
                 (Num (tow exForwardCg)))
        \<and> (m = NaN \<or> jle m (comparedMtow exForwardCg
              (oatLimitingFactor (projr (calculateTakeoffPerformance exForwardCg))) m)))"
proof -
  from exForwardCg_run obtain r where r: "calculateTakeoffPerformance exForwardCg = Inr r"
    by blast
  from forward_cg_bump_compared_only [OF examples_valid(3) r] examples_valid(3) r show ?thesis
    by auto
qed

text \<open>There the flag is set and Vmcg governs at OAT. The result carries the MTOW before the
  correction, -19526 kg; the compared weight is -18713.329352 kg.\<close>

theorem forward_cg_bump_not_carried_example:
  "forwardCg exForwardCg
   \<and> oatLimitingFactor (projr (calculateTakeoffPerformance exForwardCg)) = Some Vmcg
   \<and> mtow (projr (calculateTakeoffPerformance exForwardCg)) = Some (Num (- 19526))
   \<and> comparedMtow exForwardCg (Some Vmcg) (Num (- 19526)) = Num (- 18713.329352)"
proof -
  from exForwardCg_run obtain r where "calculateTakeoffPerformance exForwardCg = Inr r"
    "mtow r = Some (Num (- 19526))" "oatLimitingFactor r = Some Vmcg" by blast
  moreover have "comparedMtow exForwardCg (Some Vmcg) (Num (- 19526)) = Num (- 18713.329352)"
    by (simp add: comparedMtow_def example_defs cgFactors_def)
  moreover have "forwardCg exForwardCg"
    by (simp add: example_defs)
  ultimately show ?thesis by simp
qed

subsection \<open>C9: when a flex temperature is present\<close>

text \<open>
  Claim C9. When a result carries a flex temperature, the runway is not contaminated, forced
  maximum thrust was not requested, the takeoff weight is strictly below the Tref ceiling of
  the factor that governs at Tref, and the flex temperature of the result (the final one,
  after the bleed corrections, the cap at Tflexmax, the truncation and the wet adjustment)
  is strictly above the OAT.
\<close>

theorem flex_only_if:
  assumes ret: "calculateTakeoffPerformance i = Inr r" and fl: "flex r = Some t"
  shows "\<not> isContaminated (runwayCondition i) \<and> \<not> forceToga i \<and> belowTRefCeiling r \<and> oat i < t"
proof (cases "error (initialResult i) = ErrorNone")
  case False
  with ret fl show ?thesis
    by (simp add: calc_invalid) auto
next
  case True
  from True ret show ?thesis
  proof (rule calc_cases)
    fix r1 m tv
    assume ws: "weightStage (initialResult i) = Inr (r1, m, tv)"
      and r: "r = assignStabTrim (r1\<lparr>error := TooHeavy\<rparr>)"
    from fl show ?thesis
      using weightStage_fields(9) [OF ws] by (simp add: r)
  next
    fix r1 m tv tw
    assume "r = assignStabTrim (r1\<lparr>flex := None, v1 := v1 tw, vR := vR tw, v2 := v2 tw,
                        intermediateSpeeds := intermediateSpeeds tw\<rparr>)"
    with fl show ?thesis by simp
  next
    fix r1 m tv rs
    assume su: "speedUpdate (r1\<lparr>flex := None\<rparr>) rs" and r: "r = assignStabTrim rs"
    from fl show ?thesis
      using speedUpdate_fields(7) [OF su] by (simp add: r)
  next
    fix r1 m tv fl' flLF rs
    assume ws: "weightStage (initialResult i) = Inr (r1, m, tv)"
      and nt: "\<not> forceToga i" and nc: "\<not> isContaminated (runwayCondition i)"
      and ft: "calculateFlexTemp (r1\<lparr>flex := None\<rparr>) tv = Inr (fl', flLF)"
      and su: "speedUpdate (r1\<lparr>flex := fl', params := (params r1)\<lparr>flexLimitingFactor := flLF\<rparr>\<rparr>) rs"
      and r: "r = assignStabTrim rs"
    note f = speedUpdate_fields [OF su]
    from fl have fl': "fl' = Some t"
      using f(7) by (simp add: r)
    from flexTemp_props [OF ft [unfolded fl']] obtain ls f' where
      p: "limits r1 = Some ls" "tRefLimitingFactor r1 = Some f'"
         "jlt (Num (tow (inputs r1))) (tRefLimit (limitsFor ls f'))" "oat (inputs r1) < t"
      by auto
    have "inputs r1 = i"
      using weightStage_fields(1) [OF ws] by simp
    with p f show ?thesis
      by (simp add: nt nc belowTRefCeiling_def ceilingOfTRefFactor_def r)
  qed
qed

text \<open>The theorem at the dry runway of 80000 m, where the flex temperature is 46 degrees.\<close>

theorem flex_only_if_witness:
  "flex (projr (calculateTakeoffPerformance exLongDry)) = Some 46
   \<and> \<not> isContaminated (runwayCondition exLongDry) \<and> \<not> forceToga exLongDry
   \<and> belowTRefCeiling (projr (calculateTakeoffPerformance exLongDry))
   \<and> oat exLongDry < 46"
proof -
  from exLongDry_run obtain r where r: "calculateTakeoffPerformance exLongDry = Inr r"
    "flex r = Some 46" by blast
  from flex_only_if [OF r] r show ?thesis
    by simp
qed

subsection \<open>C10: the optimum configuration\<close>

text \<open>
  Claim C10 says that \<open>calculateTakeoffPerformanceOptConf\<close> runs the calculation for the
  configurations 1, 2 and 3 and answers one of the three results. On a runway covered with
  30 mm of wet snow it answers none: the inputs \<open>exWetSnow\<close> pass validation, the MTOW stage
  has the data of this runway condition, and \<open>calculateVSpeeds\<close>, whose \<^verbatim>\<open>switch\<close> has no
  \<^verbatim>\<open>case\<close> for it, throws. The calculation throws for configuration 1, and so does the
  search for the optimum configuration.
\<close>

theorem optConf_throws_on_wet_snow:
  "runwayCondition exWetSnow = Contaminated30mmWetSnow
   \<and> error (initialResult (exWetSnow\<lparr>conf := 1\<rparr>)) = ErrorNone
   \<and> calculateTakeoffPerformance (exWetSnow\<lparr>conf := 1\<rparr>) = Inl (Error ''Invalid runway condition'')
   \<and> calculateTakeoffPerformanceOptConf exWetSnow = Inl (Error ''Invalid runway condition'')"
proof -
  have c: "calculateTakeoffPerformance (exWetSnow\<lparr>conf := 1\<rparr>) = Inl (Error ''Invalid runway condition'')"
    by (simp add: calculateTakeoffPerformance.simps exWetSnow_def example_defs eval_defs Let_def
          cong: let_weak_cong)
  have v: "error (initialResult (exWetSnow\<lparr>conf := 1\<rparr>)) = ErrorNone"
    by (simp add: exWetSnow_def example_defs eval_defs Let_def cong: let_weak_cong)
  have "calculateTakeoffPerformanceOptConf exWetSnow = Inl (Error ''Invalid runway condition'')"
    unfolding calculateTakeoffPerformanceOptConf_def c by (simp add: bindE_def)
  with c v show ?thesis
    by (simp add: exWetSnow_def)
qed

end
